theory Spec2Isabelle
  imports Complex_Main "HOL-Library.Multiset" "HOL-Library.Log_Nat"
begin

section \<open>JavaScript values\<close>

text \<open>
  The application stores IEEE doubles, strings and \<open>null\<close> in the numeric fields of its
  entities (a nutrient is a number or the sentinel \<open>"-"\<close>, the servings of a custom meal entry are
  \<open>"Unavailable"\<close>, \<open>JSON.stringify\<close> turns a non-finite number into \<open>null\<close>). A finite
  double is the rational number it denotes; \<open>Infinity\<close>, \<open>-Infinity\<close> and \<open>NaN\<close> are values of
  their own, and zero is unsigned.
\<close>

datatype jsnum = Fin rat | PInf | NInf | NaN

text \<open>
  Every arithmetic operation of the runtime computes the exact result and rounds it to the
  nearest binary64 value, ties to the even significand: 53 significant bits, the exponent of the
  leading bit between -1022 and 1023, subnormal values in steps of \<open>2 powi - 1074\<close> below, and
  \<open>Infinity\<close> from \<open>2 powi 1024\<close> on. \<open>binExponent r\<close> is the exponent of the leading bit of
  \<open>r\<close>, read off the bit lengths of its numerator and denominator.
\<close>

definition binExponent :: "rat \<Rightarrow> int" where
  "binExponent r =
     (let (p, q) = quotient_of \<bar>r\<bar>;
          k = bitlen p - bitlen q
      in if 2 powi k \<le> \<bar>r\<bar> then k else k - 1)"

definition roundTiesToEven :: "rat \<Rightarrow> int" where
  "roundTiesToEven m =
     (let f = \<lfloor>m\<rfloor>; d = m - of_int f
      in if d < 1 / 2 then f else if 1 / 2 < d then f + 1 else if even f then f else f + 1)"

definition toDouble :: "rat \<Rightarrow> jsnum" where
  "toDouble r =
     (if r = 0 then Fin 0
      else let e = max (binExponent r) (- 1022);
               ulp = 2 powi (e - 52);
               a = of_int (roundTiesToEven (\<bar>r\<bar> / ulp)) * ulp
           in if 2 powi 1024 \<le> a then (if r < 0 then NInf else PInf)
              else Fin (if r < 0 then - a else a))"

fun num_neg :: "jsnum \<Rightarrow> jsnum" where
  "num_neg (Fin a) = Fin (- a)"
| "num_neg PInf = NInf"
| "num_neg NInf = PInf"
| "num_neg NaN = NaN"

fun num_add :: "jsnum \<Rightarrow> jsnum \<Rightarrow> jsnum" where
  "num_add NaN _ = NaN"
| "num_add _ NaN = NaN"
| "num_add (Fin a) (Fin b) = toDouble (a + b)"
| "num_add PInf NInf = NaN"
| "num_add NInf PInf = NaN"
| "num_add PInf _ = PInf"
| "num_add _ PInf = PInf"
| "num_add NInf _ = NInf"
| "num_add _ NInf = NInf"

definition num_sub :: "jsnum \<Rightarrow> jsnum \<Rightarrow> jsnum" where
  "num_sub a b = num_add a (num_neg b)"

fun num_mul :: "jsnum \<Rightarrow> jsnum \<Rightarrow> jsnum" where
  "num_mul NaN _ = NaN"
| "num_mul _ NaN = NaN"
| "num_mul (Fin a) (Fin b) = toDouble (a * b)"
| "num_mul (Fin a) PInf = (if a = 0 then NaN else if 0 < a then PInf else NInf)"
| "num_mul (Fin a) NInf = (if a = 0 then NaN else if 0 < a then NInf else PInf)"
| "num_mul PInf (Fin b) = (if b = 0 then NaN else if 0 < b then PInf else NInf)"
| "num_mul NInf (Fin b) = (if b = 0 then NaN else if 0 < b then NInf else PInf)"
| "num_mul PInf PInf = PInf"
| "num_mul PInf NInf = NInf"
| "num_mul NInf PInf = NInf"
| "num_mul NInf NInf = PInf"

fun num_div :: "jsnum \<Rightarrow> jsnum \<Rightarrow> jsnum" where
  "num_div NaN _ = NaN"
| "num_div _ NaN = NaN"
| "num_div (Fin a) (Fin b) =
     (if b = 0 then (if a = 0 then NaN else if 0 < a then PInf else NInf) else toDouble (a / b))"
| "num_div (Fin a) PInf = Fin 0"
| "num_div (Fin a) NInf = Fin 0"
| "num_div PInf (Fin b) = (if b < 0 then NInf else PInf)"
| "num_div NInf (Fin b) = (if b < 0 then PInf else NInf)"
| "num_div PInf PInf = NaN"
| "num_div PInf NInf = NaN"
| "num_div NInf PInf = NaN"
| "num_div NInf NInf = NaN"

fun num_lt :: "jsnum \<Rightarrow> jsnum \<Rightarrow> bool" where
  "num_lt NaN _ = False"
| "num_lt _ NaN = False"
| "num_lt (Fin a) (Fin b) = (a < b)"
| "num_lt _ NInf = False"
| "num_lt NInf _ = True"
| "num_lt PInf _ = False"
| "num_lt _ PInf = True"

datatype jsval = Num jsnum | Str string | Null

subsection \<open>Conversions of the runtime\<close>

text \<open>\<open>String.prototype.trim\<close>, on the white space of the 8-bit character set.\<close>

definition isWhiteSpace :: "char \<Rightarrow> bool" where
  "isWhiteSpace c = (c \<in> set [CHR 0x09, CHR 0x0A, CHR 0x0B, CHR 0x0C, CHR 0x0D, CHR '' '', CHR 0xA0])"

definition trim :: "string \<Rightarrow> string" where
  "trim s = rev (dropWhile isWhiteSpace (rev (dropWhile isWhiteSpace s)))"

text \<open>
  \<open>Number::toString\<close>: an integer prints its decimal digits. For a fraction the digits are
  those of the exact value of the double (at most twenty after the point), where the runtime
  prints the shortest digits that read back as the same double; exponent notation is not
  produced.
\<close>

definition digitChar :: "nat \<Rightarrow> char" where
  "digitChar d = ''0123456789'' ! (d mod 10)"

fun natToString :: "nat \<Rightarrow> string" where
  "natToString n = (if n < 10 then [digitChar n] else natToString (n div 10) @ [digitChar (n mod 10)])"

declare natToString.simps [simp del]

fun fracDigits :: "nat \<Rightarrow> rat \<Rightarrow> string" where
  "fracDigits 0 f = []"
| "fracDigits (Suc k) f =
     (if f = 0 then []
      else let d = nat \<lfloor>f * 10\<rfloor> in digitChar d # fracDigits k (f * 10 - of_nat d))"

definition numberToString :: "jsnum \<Rightarrow> string" where
  "numberToString n =
     (case n of
        NaN \<Rightarrow> ''NaN''
      | PInf \<Rightarrow> ''Infinity''
      | NInf \<Rightarrow> ''-Infinity''
      | Fin r \<Rightarrow>
          (let a = \<bar>r\<bar>; i = nat \<lfloor>a\<rfloor>; f = a - of_nat i
           in (if r < 0 then ''-'' else '''') @ natToString i
              @ (if f = 0 then '''' else ''.'' @ fracDigits 20 f)))"

text \<open>
  \<open>StringToNumber\<close>: white space is trimmed, the empty string is 0, then an unsigned literal
  with a radix prefix, or an optional sign before \<open>Infinity\<close> or a decimal literal with optional
  fraction and exponent; anything else is \<open>NaN\<close>. The value of the literal is rounded to a
  double.
\<close>

definition digitValue :: "char \<Rightarrow> nat option" where
  "digitValue c =
     (let k = (of_char c :: nat)
      in if 48 \<le> k \<and> k \<le> 57 then Some (k - 48)
         else if 97 \<le> k \<and> k \<le> 102 then Some (k - 87)
         else if 65 \<le> k \<and> k \<le> 70 then Some (k - 55)
         else None)"

definition isDigitOf :: "nat \<Rightarrow> char \<Rightarrow> bool" where
  "isDigitOf b c = (case digitValue c of Some d \<Rightarrow> d < b | None \<Rightarrow> False)"

definition digitsValue :: "nat \<Rightarrow> string \<Rightarrow> nat" where
  "digitsValue b s = foldl (\<lambda>a c. a * b + (case digitValue c of Some d \<Rightarrow> d | None \<Rightarrow> 0)) 0 s"

definition parseRadix :: "nat \<Rightarrow> string \<Rightarrow> jsnum" where
  "parseRadix b s =
     (if s \<noteq> [] \<and> list_all (isDigitOf b) s then toDouble (of_nat (digitsValue b s)) else NaN)"

definition parseExponent :: "string \<Rightarrow> int option" where
  "parseExponent s =
     (let neg = (s \<noteq> [] \<and> hd s = CHR ''-'');
          ds = (if s \<noteq> [] \<and> (hd s = CHR ''-'' \<or> hd s = CHR ''+'') then tl s else s)
      in if ds \<noteq> [] \<and> list_all (isDigitOf 10) ds
         then Some (if neg then - int (digitsValue 10 ds) else int (digitsValue 10 ds))
         else None)"

definition parseDecimal :: "string \<Rightarrow> rat option" where
  "parseDecimal s =
     (let isE = (\<lambda>c. c = CHR ''e'' \<or> c = CHR ''E'');
          mant = takeWhile (\<lambda>c. \<not> isE c) s;
          ex = dropWhile (\<lambda>c. \<not> isE c) s;
          ip = takeWhile (\<lambda>c. c \<noteq> CHR ''.'') mant;
          rest = dropWhile (\<lambda>c. c \<noteq> CHR ''.'') mant;
          fp = (if rest = [] then [] else tl rest)
      in if (ip = [] \<and> fp = []) \<or> \<not> list_all (isDigitOf 10) ip \<or> \<not> list_all (isDigitOf 10) fp
         then None
         else let m = (of_nat (digitsValue 10 ip) + of_nat (digitsValue 10 fp) / 10 ^ length fp :: rat)
              in if ex = [] then Some m
                 else (case parseExponent (tl ex) of
                         None \<Rightarrow> None
                       | Some e \<Rightarrow> Some (if 0 \<le> e then m * 10 ^ nat e else m / 10 ^ nat (- e))))"

definition stringToNumber :: "string \<Rightarrow> jsnum" where
  "stringToNumber s =
     (let t = trim s
      in if t = [] then Fin 0
         else if take 2 t \<in> set [''0x'', ''0X''] then parseRadix 16 (drop 2 t)
         else if take 2 t \<in> set [''0o'', ''0O''] then parseRadix 8 (drop 2 t)
         else if take 2 t \<in> set [''0b'', ''0B''] then parseRadix 2 (drop 2 t)
         else let neg = (hd t = CHR ''-'');
                  body = (if hd t = CHR ''-'' \<or> hd t = CHR ''+'' then tl t else t)
              in if body = ''Infinity'' then (if neg then NInf else PInf)
                 else (case parseDecimal body of
                         None \<Rightarrow> NaN
                       | Some m \<Rightarrow> toDouble (if neg then - m else m)))"

fun toNumber :: "jsval \<Rightarrow> jsnum" where
  "toNumber (Num n) = n"
| "toNumber (Str s) = stringToNumber s"
| "toNumber Null = Fin 0"

fun toString :: "jsval \<Rightarrow> string" where
  "toString (Num n) = numberToString n"
| "toString (Str s) = s"
| "toString Null = ''null''"

text \<open>The binary \<open>+\<close>: concatenation as soon as one operand is a string.\<close>

fun js_plus :: "jsval \<Rightarrow> jsval \<Rightarrow> jsval" where
  "js_plus (Str s) b = Str (s @ toString b)"
| "js_plus a (Str t) = Str (toString a @ t)"
| "js_plus a b = Num (num_add (toNumber a) (toNumber b))"

definition js_minus :: "jsval \<Rightarrow> jsval \<Rightarrow> jsval" where
  "js_minus a b = Num (num_sub (toNumber a) (toNumber b))"

definition js_times :: "jsval \<Rightarrow> jsval \<Rightarrow> jsval" where
  "js_times a b = Num (num_mul (toNumber a) (toNumber b))"

definition js_divide :: "jsval \<Rightarrow> jsval \<Rightarrow> jsval" where
  "js_divide a b = Num (num_div (toNumber a) (toNumber b))"

text \<open>\<open>a < b\<close> where one side is a number: both sides are converted to numbers.\<close>

definition js_less :: "jsval \<Rightarrow> jsval \<Rightarrow> bool" where
  "js_less a b = num_lt (toNumber a) (toNumber b)"

text \<open>\<open>Number.isFinite\<close> does not convert its argument.\<close>

fun isFinite :: "jsval \<Rightarrow> bool" where
  "isFinite (Num (Fin _)) = True"
| "isFinite _ = False"

text \<open>\<open>===\<close> (\<open>NaN\<close> differs from itself); \<open>Array.prototype.includes\<close> compares with HOL equality.\<close>

definition strictEq :: "jsval \<Rightarrow> jsval \<Rightarrow> bool" where
  "strictEq a b = (a = b \<and> a \<noteq> Num NaN)"

text \<open>\<open>JSON.parse(JSON.stringify(v))\<close> on a scalar.\<close>

fun jsonVal :: "jsval \<Rightarrow> jsval" where
  "jsonVal (Num (Fin r)) = Num (Fin r)"
| "jsonVal (Num _) = Null"
| "jsonVal (Str s) = Str s"
| "jsonVal Null = Null"


section \<open>Entities and application state\<close>

text \<open>
  A field that holds a structured value for a recipe and the text \<open>"Unavailable"\<close> for a
  custom meal entry.
\<close>

datatype 'a orText = Items 'a | Text string

datatype availabilityState = HouseholdItem | DefinitelyAvailable | PotentiallyAvailable | Unavailable

record availability =
  availabilityState :: availabilityState
  matchingPantryIngredient :: "string option"

record ingredient =
  ingredientText :: string
  quantity :: jsval
  unit :: string
  name :: string
  category :: string
  availability :: "availability option"

datatype origin = App | User | CustomMealEntry

text \<open>The class \<open>Recipe\<close>; \<open>id\<close> and \<open>image\<close> are renamed \<open>recipeId\<close> and \<open>imageSrc\<close>.\<close>

record recipe =
  title :: string
  imageSrc :: string
  recipeId :: jsval
  isBookmarked :: bool
  mealType :: string
  dietaryRestrictions :: "string list orText"
  prepTime :: jsval
  cuisine :: string
  calories :: jsval
  servings :: jsval
  ingredients :: "ingredient list orText"
  instructions :: "string list orText"
  saturatedFat :: jsval
  sugar :: jsval
  fiber :: jsval
  sodium :: jsval
  cholesterol :: jsval
  iron :: jsval
  zinc :: jsval
  calcium :: jsval
  magnesium :: jsval
  protein :: jsval
  fats :: jsval
  carbs :: jsval
  percentProtein :: jsval
  percentFats :: jsval
  percentCarbs :: jsval
  percentDVProtein :: jsval
  percentDVFats :: jsval
  percentDVCarbs :: jsval
  numMissingIngredients :: jsval
  origin :: origin

datatype meal = Breakfast | Lunch | Snacks | Dinner

record meals =
  breakfast :: "recipe list"
  lunch :: "recipe list"
  snacks :: "recipe list"
  dinner :: "recipe list"

text \<open>The day's totals \<open>nutrition.calories\<close>, \<open>.protein\<close>, \<open>.carbs\<close>, \<open>.fats\<close>.\<close>

record nutrition =
  calories_total :: jsval
  protein_total :: jsval
  carbs_total :: jsval
  fats_total :: jsval

record dayPlan =
  meals :: meals
  nutrition :: nutrition

text \<open>
  A date string such as \<open>'Mon Jan 20 2025'\<close> is identified with the number of its day (day 0
  is Thursday 1 January 1970). An object keyed by date strings is an association list in
  insertion order.
\<close>

type_synonym date = int

type_synonym weekPlan = "(date \<times> dayPlan) list"

type_synonym mealPlan = "(date \<times> weekPlan) list"

text \<open>
  The state object, with the two records of \<open>localStorage\<close> (\<open>None\<close> before the first
  write).
\<close>

record state =
  pantry :: "string list"
  ingredientSearchResults :: "recipe list"
  browseSearchResults :: "recipe list"
  recipeBook :: "recipe list"
  mealCalendarWeek :: "date option"
  mealPlan :: mealPlan
  storedRecipeBook :: "recipe list option"
  storedMealPlan :: "mealPlan option"

datatype source = IngredientSearch | BrowseRecipeSearch | RecipeBook | MealPlan

record options =
  source :: source
  currentDate :: "date option"
  currentMeal :: "meal option"

text \<open>
  An exception that leaves a function is the result \<open>Inl\<close>; the state that the interrupted
  function leaves behind is not modelled. \<open>NullEntry\<close> marks the one place where the source
  would store \<open>null\<close> in a collection of recipes, which the lists of the model cannot hold.
\<close>

datatype error = TypeError | SyntaxError | ApiError | NullEntry

subsection \<open>sharedUtils.js: deepCopy\<close>

text \<open>
  \<open>deepCopy\<close> is \<open>JSON.parse(JSON.stringify(item))\<close>: the copy is a separate object, and a
  non-finite number comes back as \<open>null\<close>. Every entry of the state is made by \<open>deepCopy\<close>,
  \<open>new Recipe\<close> or \<open>JSON.parse\<close>, so no two entries share an object and the state is a
  value.
\<close>

definition deepCopyIngredient :: "ingredient \<Rightarrow> ingredient" where
  "deepCopyIngredient i = i\<lparr>quantity := jsonVal (quantity i)\<rparr>"

fun deepCopyIngredients :: "ingredient list orText \<Rightarrow> ingredient list orText" where
  "deepCopyIngredients (Items is) = Items (map deepCopyIngredient is)"
| "deepCopyIngredients (Text t) = Text t"

definition deepCopy :: "recipe \<Rightarrow> recipe" where
  "deepCopy r = r\<lparr>
     recipeId := jsonVal (recipeId r),
     prepTime := jsonVal (prepTime r),
     calories := jsonVal (calories r),
     servings := jsonVal (servings r),
     ingredients := deepCopyIngredients (ingredients r),
     saturatedFat := jsonVal (saturatedFat r),
     sugar := jsonVal (sugar r),
     fiber := jsonVal (fiber r),
     sodium := jsonVal (sodium r),
     cholesterol := jsonVal (cholesterol r),
     iron := jsonVal (iron r),
     zinc := jsonVal (zinc r),
     calcium := jsonVal (calcium r),
     magnesium := jsonVal (magnesium r),
     protein := jsonVal (protein r),
     fats := jsonVal (fats r),
     carbs := jsonVal (carbs r),
     percentProtein := jsonVal (percentProtein r),
     percentFats := jsonVal (percentFats r),
     percentCarbs := jsonVal (percentCarbs r),
     percentDVProtein := jsonVal (percentDVProtein r),
     percentDVFats := jsonVal (percentDVFats r),
     percentDVCarbs := jsonVal (percentDVCarbs r),
     numMissingIngredients := jsonVal (numMissingIngredients r)\<rparr>"

definition deepCopyMeals :: "meals \<Rightarrow> meals" where
  "deepCopyMeals m = \<lparr>breakfast = map deepCopy (breakfast m), lunch = map deepCopy (lunch m),
     snacks = map deepCopy (snacks m), dinner = map deepCopy (dinner m)\<rparr>"

definition deepCopyDay :: "dayPlan \<Rightarrow> dayPlan" where
  "deepCopyDay d = \<lparr>meals = deepCopyMeals (meals d),
     nutrition = \<lparr>calories_total = jsonVal (calories_total (nutrition d)),
       protein_total = jsonVal (protein_total (nutrition d)),
       carbs_total = jsonVal (carbs_total (nutrition d)),
       fats_total = jsonVal (fats_total (nutrition d))\<rparr>\<rparr>"

definition deepCopyMealPlan :: "mealPlan \<Rightarrow> mealPlan" where
  "deepCopyMealPlan p = map (\<lambda>(w, days). (w, map (\<lambda>(d, dp). (d, deepCopyDay dp)) days)) p"


section \<open>modelUtils.js\<close>

text \<open>Reading and writing a property of an object keyed by date strings.\<close>

fun objSet :: "'k \<Rightarrow> 'v \<Rightarrow> ('k \<times> 'v) list \<Rightarrow> ('k \<times> 'v) list" where
  "objSet k v [] = [(k, v)]"
| "objSet k v (p # ps) = (if fst p = k then (k, v) # ps else p # objSet k v ps)"

text \<open>\<open>date.getDate() - date.getDay() + 1\<close>, where \<open>getDay\<close> is 0 on a Sunday.\<close>

definition getMondayOfTheWeek :: "date \<Rightarrow> date" where
  "getMondayOfTheWeek d = d - ((d + 4) mod 7) + 1"

definition getSourceArray :: "source \<Rightarrow> state \<Rightarrow> recipe list option" where
  "getSourceArray src s =
     (case src of
        IngredientSearch \<Rightarrow> Some (ingredientSearchResults s)
      | BrowseRecipeSearch \<Rightarrow> Some (browseSearchResults s)
      | RecipeBook \<Rightarrow> Some (recipeBook s)
      | MealPlan \<Rightarrow> None)"

definition hasId :: "jsval \<Rightarrow> recipe \<Rightarrow> bool" where
  "hasId rid r = strictEq (recipeId r) rid"

definition getRecipeFromBrowse :: "jsval \<Rightarrow> source \<Rightarrow> state \<Rightarrow> error + recipe option" where
  "getRecipeFromBrowse rid src s =
     (case getSourceArray src s of
        None \<Rightarrow> Inl TypeError
      | Some recipes \<Rightarrow> Inr (find (hasId rid) recipes))"

definition getDayMealPlan :: "date \<Rightarrow> state \<Rightarrow> error + (date \<times> dayPlan option)" where
  "getDayMealPlan dayDateString s =
     (let weekKey = getMondayOfTheWeek dayDateString
      in case map_of (mealPlan s) weekKey of
           None \<Rightarrow> Inl TypeError
         | Some week \<Rightarrow> Inr (weekKey, map_of week dayDateString))"

fun getMeals :: "meal \<Rightarrow> meals \<Rightarrow> recipe list" where
  "getMeals Breakfast m = breakfast m"
| "getMeals Lunch m = lunch m"
| "getMeals Snacks m = snacks m"
| "getMeals Dinner m = dinner m"

fun setMeals :: "meal \<Rightarrow> recipe list \<Rightarrow> meals \<Rightarrow> meals" where
  "setMeals Breakfast rs m = m\<lparr>breakfast := rs\<rparr>"
| "setMeals Lunch rs m = m\<lparr>lunch := rs\<rparr>"
| "setMeals Snacks rs m = m\<lparr>snacks := rs\<rparr>"
| "setMeals Dinner rs m = m\<lparr>dinner := rs\<rparr>"

definition getRecipeFromMealPlan :: "jsval \<Rightarrow> date \<Rightarrow> meal \<Rightarrow> state \<Rightarrow> error + recipe option" where
  "getRecipeFromMealPlan rid dayDateString mealTime s =
     (case getDayMealPlan dayDateString s of
        Inl e \<Rightarrow> Inl e
      | Inr (weekKey, None) \<Rightarrow> Inl TypeError
      | Inr (weekKey, Some dayMealPlan) \<Rightarrow> Inr (find (hasId rid) (getMeals mealTime (meals dayMealPlan))))"

definition getRecipe :: "jsval \<Rightarrow> options \<Rightarrow> state \<Rightarrow> error + recipe option" where
  "getRecipe rid opts s =
     (case (source opts, currentDate opts, currentMeal opts) of
        (MealPlan, Some d, Some m) \<Rightarrow> getRecipeFromMealPlan rid d m s
      | _ \<Rightarrow> getRecipeFromBrowse rid (source opts) s)"

subsection \<open>Writing through the reference that a lookup returned\<close>

text \<open>
  The functions above return references into the state, and their callers mutate the object
  they got. In the model the caller computes the new object and stores it where the lookup
  found the old one.
\<close>

fun updateFirst :: "('a \<Rightarrow> bool) \<Rightarrow> ('a \<Rightarrow> 'a) \<Rightarrow> 'a list \<Rightarrow> 'a list" where
  "updateFirst P f [] = []"
| "updateFirst P f (x # xs) = (if P x then f x # xs else x # updateFirst P f xs)"

definition setSourceArray :: "source \<Rightarrow> recipe list \<Rightarrow> state \<Rightarrow> state" where
  "setSourceArray src rs s =
     (case src of
        IngredientSearch \<Rightarrow> s\<lparr>ingredientSearchResults := rs\<rparr>
      | BrowseRecipeSearch \<Rightarrow> s\<lparr>browseSearchResults := rs\<rparr>
      | RecipeBook \<Rightarrow> s\<lparr>recipeBook := rs\<rparr>
      | MealPlan \<Rightarrow> s)"

definition setDayMealPlan :: "date \<Rightarrow> dayPlan \<Rightarrow> state \<Rightarrow> state" where
  "setDayMealPlan dayDateString dp s =
     (let weekKey = getMondayOfTheWeek dayDateString
      in case map_of (mealPlan s) weekKey of
           None \<Rightarrow> s
         | Some week \<Rightarrow> s\<lparr>mealPlan := objSet weekKey (objSet dayDateString dp week) (mealPlan s)\<rparr>)"

definition setMealSlot :: "date \<Rightarrow> meal \<Rightarrow> recipe list \<Rightarrow> state \<Rightarrow> state" where
  "setMealSlot dayDateString mealTime rs s =
     (case getDayMealPlan dayDateString s of
        Inr (weekKey, Some dp) \<Rightarrow> setDayMealPlan dayDateString (dp\<lparr>meals := setMeals mealTime rs (meals dp)\<rparr>) s
      | _ \<Rightarrow> s)"

definition getMealSlot :: "date \<Rightarrow> meal \<Rightarrow> state \<Rightarrow> recipe list" where
  "getMealSlot dayDateString mealTime s =
     (case getDayMealPlan dayDateString s of
        Inr (weekKey, Some dp) \<Rightarrow> getMeals mealTime (meals dp)
      | _ \<Rightarrow> [])"

definition putRecipe :: "jsval \<Rightarrow> options \<Rightarrow> recipe \<Rightarrow> state \<Rightarrow> state" where
  "putRecipe rid opts r s =
     (case (source opts, currentDate opts, currentMeal opts) of
        (MealPlan, Some d, Some m) \<Rightarrow>
          setMealSlot d m (updateFirst (hasId rid) (\<lambda>_. r) (getMealSlot d m s)) s
      | _ \<Rightarrow>
          (case getSourceArray (source opts) s of
             None \<Rightarrow> s
           | Some recipes \<Rightarrow> setSourceArray (source opts) (updateFirst (hasId rid) (\<lambda>_. r) recipes) s))"

section \<open>config.js\<close>

definition RECOMMENDED_PROTEIN_DV :: jsval where "RECOMMENDED_PROTEIN_DV = Num (Fin 50)"
definition RECOMMENDED_FATS_DV :: jsval where "RECOMMENDED_FATS_DV = Num (Fin 275)"
definition RECOMMENDED_CARBS_DV :: jsval where "RECOMMENDED_CARBS_DV = Num (Fin 78)"

datatype nutrientName =
  Calories | SaturatedFat | Sugar | Fiber | Sodium | Cholesterol | Iron | Zinc | Calcium
  | Magnesium | Protein | Carbs | Fats

definition RECIPE_NUTRIENTS :: "nutrientName list" where
  "RECIPE_NUTRIENTS = [Calories, SaturatedFat, Sugar, Fiber, Sodium, Cholesterol, Iron, Zinc,
     Calcium, Magnesium, Protein, Carbs, Fats]"

text \<open>\<open>recipe[nutrient]\<close>, read and written.\<close>

fun getNutrient :: "nutrientName \<Rightarrow> recipe \<Rightarrow> jsval" where
  "getNutrient Calories r = calories r"
| "getNutrient SaturatedFat r = saturatedFat r"
| "getNutrient Sugar r = sugar r"
| "getNutrient Fiber r = fiber r"
| "getNutrient Sodium r = sodium r"
| "getNutrient Cholesterol r = cholesterol r"
| "getNutrient Iron r = iron r"
| "getNutrient Zinc r = zinc r"
| "getNutrient Calcium r = calcium r"
| "getNutrient Magnesium r = magnesium r"
| "getNutrient Protein r = protein r"
| "getNutrient Carbs r = carbs r"
| "getNutrient Fats r = fats r"

fun setNutrient :: "nutrientName \<Rightarrow> jsval \<Rightarrow> recipe \<Rightarrow> recipe" where
  "setNutrient Calories v r = r\<lparr>calories := v\<rparr>"
| "setNutrient SaturatedFat v r = r\<lparr>saturatedFat := v\<rparr>"
| "setNutrient Sugar v r = r\<lparr>sugar := v\<rparr>"
| "setNutrient Fiber v r = r\<lparr>fiber := v\<rparr>"
| "setNutrient Sodium v r = r\<lparr>sodium := v\<rparr>"
| "setNutrient Cholesterol v r = r\<lparr>cholesterol := v\<rparr>"
| "setNutrient Iron v r = r\<lparr>iron := v\<rparr>"
| "setNutrient Zinc v r = r\<lparr>zinc := v\<rparr>"
| "setNutrient Calcium v r = r\<lparr>calcium := v\<rparr>"
| "setNutrient Magnesium v r = r\<lparr>magnesium := v\<rparr>"
| "setNutrient Protein v r = r\<lparr>protein := v\<rparr>"
| "setNutrient Carbs v r = r\<lparr>carbs := v\<rparr>"
| "setNutrient Fats v r = r\<lparr>fats := v\<rparr>"

section \<open>servingsUtils.js\<close>

definition calculateUpdatedServings :: "jsval \<Rightarrow> string option \<Rightarrow> jsval \<Rightarrow> jsval" where
  "calculateUpdatedServings currentServings operation newServings =
     (if newServings \<noteq> Null then Num (toNumber newServings)
      else if operation = Some ''increaseServings'' then js_plus currentServings (Num (Fin 1))
      else js_minus currentServings (Num (Fin 1)))"

definition isValidServings :: "jsval \<Rightarrow> bool" where
  "isValidServings servings' =
     (if js_less servings' (Num (Fin 1)) \<or> js_less (Num (Fin 50)) servings' then False else True)"

text \<open>\<open>ingredients.forEach\<close> is not a function when the field holds a text.\<close>

fun updateIngredientQuantities :: "ingredient list orText \<Rightarrow> jsval \<Rightarrow> error + ingredient list orText" where
  "updateIngredientQuantities (Items is) servingsRatio =
     Inr (Items (map (\<lambda>i. i\<lparr>quantity := js_times (quantity i) servingsRatio\<rparr>) is))"
| "updateIngredientQuantities (Text t) servingsRatio = Inl TypeError"

definition updateNutrientQuantities :: "recipe \<Rightarrow> jsval \<Rightarrow> recipe" where
  "updateNutrientQuantities recipe servingsRatio =
     foldl (\<lambda>r nutrient.
              if isFinite (getNutrient nutrient r)
              then setNutrient nutrient (js_times (getNutrient nutrient r) servingsRatio) r
              else r)
       recipe RECIPE_NUTRIENTS"

definition updatePercentDV :: "recipe \<Rightarrow> recipe" where
  "updatePercentDV recipe = recipe\<lparr>
     percentDVProtein := js_times (js_divide (protein recipe) RECOMMENDED_PROTEIN_DV) (Num (Fin 100)),
     percentDVFats := js_times (js_divide (fats recipe) RECOMMENDED_FATS_DV) (Num (Fin 100)),
     percentDVCarbs := js_times (js_divide (carbs recipe) RECOMMENDED_CARBS_DV) (Num (Fin 100))\<rparr>"

definition updateProperties :: "recipe \<Rightarrow> recipe \<Rightarrow> recipe" where
  "updateProperties recipe updatedRecipe =
     foldl (\<lambda>r nutrient. setNutrient nutrient (getNutrient nutrient updatedRecipe) r)
       (recipe\<lparr>servings := servings updatedRecipe,
               ingredients := deepCopyIngredients (ingredients updatedRecipe)\<rparr>)
       RECIPE_NUTRIENTS"

definition synchronizeRecipeInstances :: "recipe \<Rightarrow> state \<Rightarrow> state" where
  "synchronizeRecipeInstances updatedRecipe s =
     (let sync = map (\<lambda>recipe. if hasId (recipeId updatedRecipe) recipe
                               then updateProperties recipe updatedRecipe else recipe)
      in s\<lparr>ingredientSearchResults := sync (ingredientSearchResults s),
           browseSearchResults := sync (browseSearchResults s),
           recipeBook := sync (recipeBook s)\<rparr>)"

definition adjustServings :: "jsval \<Rightarrow> string option \<Rightarrow> options \<Rightarrow> jsval \<Rightarrow> state \<Rightarrow> error + state" where
  "adjustServings rid operation opts newServings s =
     (case getRecipe rid opts s of
        Inl e \<Rightarrow> Inl e
      | Inr None \<Rightarrow> Inl TypeError
      | Inr (Some recipe) \<Rightarrow>
          (let updatedServings = calculateUpdatedServings (servings recipe) operation newServings
           in if \<not> isValidServings updatedServings then Inr s
              else
                (let servingsRatio = js_divide updatedServings (servings recipe)
                 in case updateIngredientQuantities (ingredients recipe) servingsRatio of
                      Inl e \<Rightarrow> Inl e
                    | Inr scaled \<Rightarrow>
                        (let r1 = updateNutrientQuantities (recipe\<lparr>ingredients := scaled\<rparr>) servingsRatio;
                             r2 = updatePercentDV r1;
                             r3 = r2\<lparr>servings := updatedServings\<rparr>;
                             s1 = putRecipe rid opts r3 s
                         in Inr (if source opts \<noteq> MealPlan then synchronizeRecipeInstances r3 s1
                                 else s1)))))"


section \<open>mealPlanner.js\<close>

text \<open>\<open>findIndex\<close> is \<open>-1\<close> when no element passes the test.\<close>

fun findIndex :: "('a \<Rightarrow> bool) \<Rightarrow> 'a list \<Rightarrow> int" where
  "findIndex P [] = - 1"
| "findIndex P (x # xs) =
     (if P x then 0 else (let i = findIndex P xs in if i < 0 then - 1 else i + 1))"

text \<open>
  \<open>xs.splice(start, deleteCount)\<close>, the array that remains: a negative \<open>start\<close> counts from
  the end, and both numbers are clamped to the array.
\<close>

definition arraySplice :: "int \<Rightarrow> int \<Rightarrow> 'a list \<Rightarrow> 'a list" where
  "arraySplice start deleteCount xs =
     (let len = int (length xs);
          from = (if start < 0 then max (len + start) 0 else min start len);
          cnt = min (max deleteCount 0) (len - from)
      in take (nat from) xs @ drop (nat (from + cnt)) xs)"

definition saveMealPlan :: "state \<Rightarrow> state" where
  "saveMealPlan s = s\<lparr>storedMealPlan := Some (deepCopyMealPlan (mealPlan s))\<rparr>"

definition addRecipeNutrition :: "nutrition \<Rightarrow> recipe \<Rightarrow> nutrition" where
  "addRecipeNutrition n recipe =
     \<lparr>calories_total = js_plus (calories_total n) (calories recipe),
      protein_total = js_plus (protein_total n) (protein recipe),
      carbs_total = js_plus (carbs_total n) (carbs recipe),
      fats_total = js_plus (fats_total n) (fats recipe)\<rparr>"

definition zeroNutrition :: nutrition where
  "zeroNutrition = \<lparr>calories_total = Num (Fin 0), protein_total = Num (Fin 0),
     carbs_total = Num (Fin 0), fats_total = Num (Fin 0)\<rparr>"

definition updateNutritionForDay :: "date \<Rightarrow> state \<Rightarrow> error + state" where
  "updateNutritionForDay dayDateString s =
     (case getDayMealPlan dayDateString s of
        Inl e \<Rightarrow> Inl e
      | Inr (weekKey, None) \<Rightarrow> Inl TypeError
      | Inr (weekKey, Some dayMealPlan) \<Rightarrow>
          Inr (setDayMealPlan dayDateString
                 (dayMealPlan\<lparr>nutrition :=
                    foldl (\<lambda>n mealType. foldl addRecipeNutrition n (getMeals mealType (meals dayMealPlan)))
                      zeroNutrition [Breakfast, Lunch, Snacks, Dinner]\<rparr>) s))"

fun updateNutritionForDays :: "date list \<Rightarrow> state \<Rightarrow> error + state" where
  "updateNutritionForDays [] s = Inr s"
| "updateNutritionForDays (day # days) s =
     (case updateNutritionForDay day s of
        Inl e \<Rightarrow> Inl e
      | Inr s' \<Rightarrow> updateNutritionForDays days s')"

text \<open>\<open>for (const day in weekPlan)\<close> runs no iteration when the week is \<open>undefined\<close>.\<close>

definition updateNutritionForWeek :: "date \<Rightarrow> state \<Rightarrow> error + state" where
  "updateNutritionForWeek mondayOfWeekDateString s =
     (case map_of (mealPlan s) mondayOfWeekDateString of
        None \<Rightarrow> Inr s
      | Some weekPlan \<Rightarrow> updateNutritionForDays (map fst weekPlan) s)"

definition deleteRecipeFromMealPlan :: "jsval \<Rightarrow> date \<Rightarrow> meal \<Rightarrow> state \<Rightarrow> error + state" where
  "deleteRecipeFromMealPlan rid dayDateString mealTime s =
     (case getDayMealPlan dayDateString s of
        Inl e \<Rightarrow> Inl e
      | Inr (weekKey, None) \<Rightarrow> Inl TypeError
      | Inr (weekKey, Some dayMealPlan) \<Rightarrow>
          (let slot = getMeals mealTime (meals dayMealPlan);
               recipeToDeleteIndex = findIndex (hasId rid) slot;
               s1 = setMealSlot dayDateString mealTime (arraySplice recipeToDeleteIndex 1 slot) s
           in case updateNutritionForWeek weekKey s1 of
                Inl e \<Rightarrow> Inl e
              | Inr s2 \<Rightarrow> Inr (saveMealPlan s2)))"

record userInputs =
  date :: date
  meal :: meal
  operation :: string
  numServings :: jsval

definition addRecipeToMealPlan :: "jsval \<Rightarrow> userInputs \<Rightarrow> options \<Rightarrow> state \<Rightarrow> error + state" where
  "addRecipeToMealPlan rid inputs opts s =
     (case getDayMealPlan (date inputs) s of
        Inl e \<Rightarrow> Inl e
      | Inr (weekKey, dayMealPlan) \<Rightarrow>
     (case getRecipe rid opts s of
        Inl e \<Rightarrow> Inl e
      | Inr None \<Rightarrow>
          (case (source opts, currentDate opts, currentMeal opts) of
             (MealPlan, Some d, Some m) \<Rightarrow> Inl SyntaxError
           | _ \<Rightarrow> Inl TypeError)
      | Inr (Some recipe) \<Rightarrow>
     (case dayMealPlan of
        None \<Rightarrow> Inl TypeError
      | Some dp \<Rightarrow>
          (let recipeCopy = deepCopy recipe;
               slot = (if operation inputs = ''replace'' then [] else getMeals (meal inputs) (meals dp));
               s1 = setMealSlot (date inputs) (meal inputs) (slot @ [recipeCopy]) s;
               adjusted =
                 (if origin recipeCopy \<noteq> CustomMealEntry
                  then adjustServings (recipeId recipeCopy) None
                         \<lparr>source = MealPlan, currentDate = Some (date inputs),
                          currentMeal = Some (meal inputs)\<rparr>
                         (numServings inputs) s1
                  else Inr s1)
           in case adjusted of
                Inl e \<Rightarrow> Inl e
              | Inr s2 \<Rightarrow>
                  (case updateNutritionForWeek weekKey s2 of
                     Inl e \<Rightarrow> Inl e
                   | Inr s3 \<Rightarrow>
                       (let s4 = saveMealPlan s3
                        in if source opts = MealPlan
                           then (case (currentDate opts, currentMeal opts) of
                                   (Some d, Some m) \<Rightarrow> deleteRecipeFromMealPlan rid d m s4
                                 | _ \<Rightarrow> Inl TypeError)
                           else Inr s4))))))"

record customEntryInputs =
  entryDate :: date
  entryMeal :: meal
  mealName :: string
  mealCalories :: jsval
  mealProtein :: jsval
  mealCarbs :: jsval
  mealFats :: jsval

text \<open>
  \<open>generateUniqueId()\<close> reads the clock and a random number; the identifier it returns is the
  parameter \<open>uid\<close>.
\<close>

definition createCustomRecipeObject :: "jsval \<Rightarrow> customEntryInputs \<Rightarrow> recipe" where
  "createCustomRecipeObject uid inputs =
     \<lparr>title = mealName inputs,
      imageSrc = ''images/custom-recipe-image.avif'',
      recipeId = uid,
      isBookmarked = False,
      mealType = ''Unavailable'',
      dietaryRestrictions = Text ''Unavailable'',
      prepTime = Str ''Unavailable'',
      cuisine = ''Unavailable'',
      calories = Num (toNumber (mealCalories inputs)),
      servings = Str ''Unavailable'',
      ingredients = Text ''Unavailable'',
      instructions = Text ''Unavailable'',
      saturatedFat = Str ''Unavailable'',
      sugar = Str ''Unavailable'',
      fiber = Str ''Unavailable'',
      sodium = Str ''Unavailable'',
      cholesterol = Str ''Unavailable'',
      iron = Str ''Unavailable'',
      zinc = Str ''Unavailable'',
      calcium = Str ''Unavailable'',
      magnesium = Str ''Unavailable'',
      protein = Num (toNumber (mealProtein inputs)),
      fats = Num (toNumber (mealFats inputs)),
      carbs = Num (toNumber (mealCarbs inputs)),
      percentProtein = Str ''Unavailable'',
      percentFats = Str ''Unavailable'',
      percentCarbs = Str ''Unavailable'',
      percentDVProtein = Str ''Unavailable'',
      percentDVFats = Str ''Unavailable'',
      percentDVCarbs = Str ''Unavailable'',
      numMissingIngredients = Str ''N/A'',
      origin = CustomMealEntry\<rparr>"

definition createCustomMealEntry :: "jsval \<Rightarrow> customEntryInputs \<Rightarrow> state \<Rightarrow> error + state" where
  "createCustomMealEntry uid inputs s =
     (case getDayMealPlan (entryDate inputs) s of
        Inl e \<Rightarrow> Inl e
      | Inr (weekKey, None) \<Rightarrow> Inl TypeError
      | Inr (weekKey, Some dayMealPlan) \<Rightarrow>
          (let customEntryRecipe = createCustomRecipeObject uid inputs;
               s1 = setMealSlot (entryDate inputs) (entryMeal inputs)
                      (getMeals (entryMeal inputs) (meals dayMealPlan) @ [customEntryRecipe]) s
           in case updateNutritionForWeek weekKey s1 of
                Inl e \<Rightarrow> Inl e
              | Inr s2 \<Rightarrow> Inr (saveMealPlan s2)))"

definition mealsInMealSlot :: "date \<Rightarrow> meal \<Rightarrow> state \<Rightarrow> error + jsval list" where
  "mealsInMealSlot dateString mealTime s =
     (case getDayMealPlan dateString s of
        Inl e \<Rightarrow> Inl e
      | Inr (mondayOfWeek, None) \<Rightarrow> Inl TypeError
      | Inr (mondayOfWeek, Some dp) \<Rightarrow> Inr (map recipeId (getMeals mealTime (meals dp))))"

section \<open>recipeBook.js\<close>

definition saveRecipeBook :: "state \<Rightarrow> state" where
  "saveRecipeBook s = s\<lparr>storedRecipeBook := Some (map deepCopy (recipeBook s))\<rparr>"

definition getRecipeBookIds :: "state \<Rightarrow> jsval list" where
  "getRecipeBookIds s = map recipeId (recipeBook s)"

definition addRecipeToRecipeBookById :: "jsval \<Rightarrow> options \<Rightarrow> state \<Rightarrow> error + state" where
  "addRecipeToRecipeBookById rid opts s =
     (case getRecipe rid opts s of
        Inl e \<Rightarrow> Inl e
      | Inr None \<Rightarrow>
          (case (source opts, currentDate opts, currentMeal opts) of
             (MealPlan, Some d, Some m) \<Rightarrow> Inl SyntaxError
           | _ \<Rightarrow> Inl NullEntry)
      | Inr (Some recipe) \<Rightarrow>
          Inr (saveRecipeBook (s\<lparr>recipeBook := recipeBook s @ [deepCopy recipe]\<rparr>)))"

definition removeRecipeFromBook :: "jsval \<Rightarrow> state \<Rightarrow> state" where
  "removeRecipeFromBook rid s =
     (let index = findIndex (hasId rid) (recipeBook s)
      in saveRecipeBook (s\<lparr>recipeBook := arraySplice index 1 (recipeBook s)\<rparr>))"

section \<open>initializeApp.js\<close>

definition createEmptyMealObj :: dayPlan where
  "createEmptyMealObj = \<lparr>meals = \<lparr>breakfast = [], lunch = [], snacks = [], dinner = []\<rparr>,
     nutrition = \<lparr>calories_total = Num (Fin 0), protein_total = Num (Fin 0),
       carbs_total = Num (Fin 0), fats_total = Num (Fin 0)\<rparr>\<rparr>"

definition createWeeklyMealPlan :: "date \<Rightarrow> weekPlan" where
  "createWeeklyMealPlan mondayOfWeek = map (\<lambda>i. (mondayOfWeek + i, createEmptyMealObj)) [0, 1, 2, 3, 4]"

section \<open>Well-formed meal plans\<close>

text \<open>
  The keys of a meal plan, and the property that \<open>initializeMealPlan\<close> establishes for them:
  every day is stored under the Monday of its week.
\<close>

definition planKeys :: "mealPlan \<Rightarrow> (date \<times> date list) list" where
  "planKeys p = map (\<lambda>(w, days). (w, map fst days)) p"

definition wfMealPlan :: "mealPlan \<Rightarrow> bool" where
  "wfMealPlan p = list_all (\<lambda>(w, ks). list_all (\<lambda>d. getMondayOfTheWeek d = w) ks) (planKeys p)"

text \<open>The totals that \<open>updateNutritionForDay\<close> stores, as a function of the day's meals.\<close>

definition dayTotals :: "meals \<Rightarrow> nutrition" where
  "dayTotals ms =
     foldl (\<lambda>n mealType. foldl addRecipeNutrition n (getMeals mealType ms))
       zeroNutrition [Breakfast, Lunch, Snacks, Dinner]"

text \<open>All recipes of a day, slot after slot.\<close>

definition dayRecipes :: "meals \<Rightarrow> recipe list" where
  "dayRecipes ms = breakfast ms @ lunch ms @ snacks ms @ dinner ms"

text \<open>The day is present in the meal plan, under the Monday of its week.\<close>

definition resolves :: "date \<Rightarrow> state \<Rightarrow> bool" where
  "resolves d s = (\<exists>w dp. getDayMealPlan d s = Inr (w, Some dp))"

section \<open>Example entities\<close>

text \<open>
  A recipe as \<open>createRecipeObject\<close> builds it from the API, with two ingredients, and variations
  of it. The weeks are those of Monday 20 January 2025 (day 20108) and Monday 27 January 2025.
\<close>

definition pasta :: recipe where
  "pasta =
     \<lparr>title = ''Garlic Pasta'',
      imageSrc = ''https://img.spoonacular.com/recipes/42-556x370.jpg'',
      recipeId = Num (Fin 42),
      isBookmarked = False,
      mealType = ''main course'',
      dietaryRestrictions = Items [''vegetarian''],
      prepTime = Num (Fin 25),
      cuisine = ''Italian'',
      calories = Num (Fin 600),
      servings = Num (Fin 2),
      ingredients = Items
        [\<lparr>ingredientText = ''8 oz spaghetti'', quantity = Num (Fin 8), unit = ''oz'',
          name = ''spaghetti'', category = ''Pasta and Rice'', availability = None\<rparr>,
         \<lparr>ingredientText = ''3 cloves garlic'', quantity = Num (Fin 3), unit = ''cloves'',
          name = ''garlic'', category = ''Produce'', availability = None\<rparr>],
      instructions = Items [''Boil the pasta.'', ''Fry the garlic.''],
      saturatedFat = Num (Fin 4),
      sugar = Num (Fin 3),
      fiber = Num (Fin 5),
      sodium = Num (Fin 300),
      cholesterol = Str ''-'',
      iron = Num (Fin 2),
      zinc = Num (Fin 1),
      calcium = Num (Fin 40),
      magnesium = Num (Fin 30),
      protein = Num (Fin 20),
      fats = Num (Fin 11),
      carbs = Num (Fin 100),
      percentProtein = Num (Fin 14),
      percentFats = Num (Fin 17),
      percentCarbs = Num (Fin 69),
      percentDVProtein = Num (Fin 40),
      percentDVFats = Num (Fin 4),
      percentDVCarbs = Num (Fin (4510816934465641 / 35184372088832)),
      numMissingIngredients = Str ''N/A'',
      origin = App\<rparr>"

definition salad :: recipe where
  "salad = pasta\<lparr>title := ''Green Salad'', recipeId := Num (Fin 7), calories := Num (Fin 150),
     servings := Num (Fin 1)\<rparr>"

text \<open>A recipe whose API record had no finite amount of calories.\<close>

definition broth :: recipe where
  "broth = pasta\<lparr>title := ''Clear Broth'', recipeId := Num (Fin 5), calories := Str ''-''\<rparr>"

text \<open>A recipe for sixty.\<close>

definition cookies :: recipe where
  "cookies = pasta\<lparr>title := ''Butter Cookies'', recipeId := Num (Fin 60), servings := Num (Fin 60)\<rparr>"

definition leftovers :: recipe where
  "leftovers = createCustomRecipeObject (Num (Fin 1737370000000123456))
     \<lparr>entryDate = 20108, entryMeal = Dinner, mealName = ''Leftovers'', mealCalories = Str ''450'',
      mealProtein = Str ''30'', mealCarbs = Str ''40'', mealFats = Str ''15''\<rparr>"

definition emptyState :: state where
  "emptyState =
     \<lparr>pantry = [], ingredientSearchResults = [], browseSearchResults = [], recipeBook = [],
      mealCalendarWeek = Some 20108,
      mealPlan = [(20108, createWeeklyMealPlan 20108), (20115, createWeeklyMealPlan 20115)],
      storedRecipeBook = None, storedMealPlan = None\<rparr>"

text \<open>Monday lunch holds the pasta and the salad, Monday dinner the leftovers, Tuesday lunch the pasta.\<close>

definition plannedState :: state where
  "plannedState =
     \<lparr>pantry = [], ingredientSearchResults = [],
      browseSearchResults = [salad, pasta\<lparr>isBookmarked := True\<rparr>],
      recipeBook = [pasta\<lparr>isBookmarked := True\<rparr>],
      mealCalendarWeek = Some 20108,
      mealPlan =
        [(20108,
          [(20108, \<lparr>meals = \<lparr>breakfast = [], lunch = [pasta, salad], snacks = [], dinner = [leftovers]\<rparr>,
                    nutrition = zeroNutrition\<rparr>),
           (20109, \<lparr>meals = \<lparr>breakfast = [], lunch = [pasta], snacks = [], dinner = []\<rparr>,
                    nutrition = zeroNutrition\<rparr>),
           (20110, createEmptyMealObj), (20111, createEmptyMealObj), (20112, createEmptyMealObj)]),
         (20115, createWeeklyMealPlan 20115)],
      storedRecipeBook = None, storedMealPlan = None\<rparr>"

section \<open>Auxiliary notions for the servings adjustment\<close>

text \<open>The entity that \<open>adjustServings\<close> leaves behind, given the new count and the scaled ingredients.\<close>

definition adjustedRecipe :: "recipe \<Rightarrow> jsval \<Rightarrow> ingredient list orText \<Rightarrow> recipe" where
  "adjustedRecipe recipe updatedServings scaled =
     (updatePercentDV
        (updateNutrientQuantities (recipe\<lparr>ingredients := scaled\<rparr>)
           (js_divide updatedServings (servings recipe))))\<lparr>servings := updatedServings\<rparr>"

text \<open>What \<open>recipe[nutrient] *= servingsRatio\<close> behind its \<open>Number.isFinite\<close> guard does to a value.\<close>

definition scaleNutrient :: "jsval \<Rightarrow> jsval \<Rightarrow> jsval" where
  "scaleNutrient servingsRatio v = (if isFinite v then js_times v servingsRatio else v)"

text \<open>
  A quantity far from the ends of the range of a double: zero, or a finite number of absolute
  value between \<open>2 powi - 1000\<close> and \<open>2 powi 1000\<close>. A value within floating-point rounding of
  another: a finite number whose distance from it is at most \<open>2 powi - 50\<close> times its absolute
  value, which four roundings to 53 bits cannot exceed.
\<close>

definition moderate :: "jsval \<Rightarrow> bool" where
  "moderate v =
     (case v of
        Num (Fin q) \<Rightarrow> q = 0 \<or> (2 powi (- 1000) \<le> \<bar>q\<bar> \<and> \<bar>q\<bar> \<le> 2 powi 1000)
      | _ \<Rightarrow> False)"

definition near :: "jsval \<Rightarrow> jsval \<Rightarrow> bool" where
  "near v w =
     (case (v, w) of
        (Num (Fin q), Num (Fin q')) \<Rightarrow> \<bar>q' - q\<bar> \<le> \<bar>q\<bar> * 2 powi (- 50)
      | _ \<Rightarrow> False)"

definition quantities :: "ingredient list orText \<Rightarrow> jsval list" where
  "quantities f = (case f of Items is \<Rightarrow> map quantity is | Text t \<Rightarrow> [])"

text \<open>Reading a result: what a successful call leaves in the state.\<close>

definition observe :: "(state \<Rightarrow> 'a) \<Rightarrow> error + state \<Rightarrow> error + 'a" where
  "observe f r = (case r of Inl e \<Rightarrow> Inl e | Inr s \<Rightarrow> Inr (f s))"

definition bookServings :: "state \<Rightarrow> jsval list" where
  "bookServings s = map servings (recipeBook s)"

definition bookQuantities :: "state \<Rightarrow> jsval list list" where
  "bookQuantities s = map (\<lambda>r. quantities (ingredients r)) (recipeBook s)"

definition bookServingsAndQuantities :: "state \<Rightarrow> jsval list \<times> jsval list list" where
  "bookServingsAndQuantities s = (bookServings s, bookQuantities s)"

definition inBook :: options where
  "inBook = \<lparr>source = RecipeBook, currentDate = None, currentMeal = None\<rparr>"

definition inPlan :: "date \<Rightarrow> meal \<Rightarrow> options" where
  "inPlan d m = \<lparr>source = MealPlan, currentDate = Some d, currentMeal = Some m\<rparr>"

text \<open>Two adjustments by absolute override, one after the other.\<close>

definition adjustTwice :: "jsval \<Rightarrow> options \<Rightarrow> jsval \<Rightarrow> jsval \<Rightarrow> state \<Rightarrow> error + state" where
  "adjustTwice rid opts v1 v2 s =
     (case adjustServings rid None opts v1 s of
        Inl e \<Rightarrow> Inl e
      | Inr s1 \<Rightarrow> adjustServings rid None opts v2 s1)"

definition cookieState :: state where
  "cookieState = emptyState\<lparr>recipeBook := [cookies]\<rparr>"

section \<open>Auxiliary notions for the nutrition totals\<close>

text \<open>Every day stored under the week carries the totals of its own meals.\<close>

definition weekTotalsOk :: "date \<Rightarrow> state \<Rightarrow> bool" where
  "weekTotalsOk wk s =
     (\<forall>d dp. getDayMealPlan d s = Inr (wk, Some dp) \<longrightarrow> nutrition dp = dayTotals (meals dp))"

text \<open>
  The recipe's four macro values are finite numbers; the sum of numbers as the runtime adds
  them, one after the other from 0, each addition rounded.
\<close>

definition finiteMacros :: "recipe \<Rightarrow> bool" where
  "finiteMacros r = (isFinite (calories r) \<and> isFinite (protein r) \<and> isFinite (carbs r) \<and> isFinite (fats r))"

definition floatSum :: "jsval list \<Rightarrow> jsnum" where
  "floatSum vs = foldl (\<lambda>x v. num_add x (toNumber v)) (Fin 0) vs"

definition replaceMondayLunch :: userInputs where
  "replaceMondayLunch = \<lparr>date = 20108, meal = Lunch, operation = ''replace'', numServings = Str ''2''\<rparr>"

text \<open>The totals stored for a day, read from a result.\<close>

definition dayNutrition :: "date \<Rightarrow> state \<Rightarrow> nutrition option" where
  "dayNutrition d s =
     (case getDayMealPlan d s of
        Inr (w, Some dp) \<Rightarrow> Some (nutrition dp)
      | _ \<Rightarrow> None)"

text \<open>Monday lunch holds the broth, whose calories are the sentinel \<open>"-"\<close>.\<close>

definition brothState :: state where
  "brothState = emptyState\<lparr>mealPlan :=
     [(20108,
       [(20108, \<lparr>meals = \<lparr>breakfast = [], lunch = [broth], snacks = [], dinner = []\<rparr>,
                 nutrition = zeroNutrition\<rparr>),
        (20109, createEmptyMealObj), (20110, createEmptyMealObj), (20111, createEmptyMealObj),
        (20112, createEmptyMealObj)]),
      (20115, createWeeklyMealPlan 20115)]\<rparr>"

definition leftoversInputs :: customEntryInputs where
  "leftoversInputs = \<lparr>entryDate = 20108, entryMeal = Dinner, mealName = ''Leftovers'',
     mealCalories = Str ''450'', mealProtein = Str ''30'', mealCarbs = Str ''40'', mealFats = Str ''15''\<rparr>"

section \<open>bookmarksUtils.js\<close>

definition getBookmarkStatus :: "jsval \<Rightarrow> options \<Rightarrow> state \<Rightarrow> error + bool" where
  "getBookmarkStatus rid opts s =
     (case getRecipe rid opts s of
        Inl e \<Rightarrow> Inl e
      | Inr None \<Rightarrow> Inl TypeError
      | Inr (Some recipe) \<Rightarrow> Inr (isBookmarked recipe))"

text \<open>The loop \<open>forEach\<close> that sets the flag of every entry with the id.\<close>

definition setBookmark :: "jsval \<Rightarrow> bool \<Rightarrow> recipe list \<Rightarrow> recipe list" where
  "setBookmark rid newBookmarkStatus rs =
     map (\<lambda>recipe. if hasId rid recipe then recipe\<lparr>isBookmarked := newBookmarkStatus\<rparr> else recipe) rs"

definition updateBookmarkStatus :: "jsval \<Rightarrow> bool \<Rightarrow> options \<Rightarrow> state \<Rightarrow> error + state" where
  "updateBookmarkStatus rid newBookmarkStatus opts s =
     (case (source opts, currentDate opts, currentMeal opts) of
        (MealPlan, Some d, Some m) \<Rightarrow>
          (case getDayMealPlan d s of
             Inl e \<Rightarrow> Inl e
           | Inr (mondayOfWeek, None) \<Rightarrow> Inl TypeError
           | Inr (mondayOfWeek, Some dp) \<Rightarrow>
               Inr (setMealSlot d m (setBookmark rid newBookmarkStatus (getMeals m (meals dp))) s))
      | _ \<Rightarrow>
          (case getRecipeFromBrowse rid (source opts) s of
             Inl e \<Rightarrow> Inl e
           | Inr None \<Rightarrow> Inl TypeError
           | Inr (Some recipe) \<Rightarrow>
               Inr (putRecipe rid opts (recipe\<lparr>isBookmarked := newBookmarkStatus\<rparr>) s)))"

definition mapMeals :: "(recipe list \<Rightarrow> recipe list) \<Rightarrow> meals \<Rightarrow> meals" where
  "mapMeals f ms = \<lparr>breakfast = f (breakfast ms), lunch = f (lunch ms), snacks = f (snacks ms),
     dinner = f (dinner ms)\<rparr>"

definition syncMealPlannerBookmarkStatus :: "jsval \<Rightarrow> bool \<Rightarrow> state \<Rightarrow> state" where
  "syncMealPlannerBookmarkStatus rid newBookmarkStatus s =
     s\<lparr>mealPlan :=
         map (\<lambda>(week, weekPlan).
                (week, map (\<lambda>(day, dayPlan).
                              (day, dayPlan\<lparr>meals := mapMeals (setBookmark rid newBookmarkStatus) (meals dayPlan)\<rparr>))
                         weekPlan))
           (mealPlan s)\<rparr>"

definition synchronizeBookmarkStatus :: "jsval \<Rightarrow> bool \<Rightarrow> state \<Rightarrow> state" where
  "synchronizeBookmarkStatus rid newBookmarkStatus s =
     syncMealPlannerBookmarkStatus rid newBookmarkStatus
       (s\<lparr>ingredientSearchResults := setBookmark rid newBookmarkStatus (ingredientSearchResults s),
          browseSearchResults := setBookmark rid newBookmarkStatus (browseSearchResults s),
          recipeBook := setBookmark rid newBookmarkStatus (recipeBook s)\<rparr>)"

section \<open>Controllers\<close>

text \<open>
  The controllers change the state through the model and tell the views what to show. Of the
  views the model keeps the one signal that a claim is about: whether the message that the recipe
  already exists in the meal slot was rendered.
\<close>

definition generateOptionsObject :: "source \<Rightarrow> date option \<Rightarrow> meal option \<Rightarrow> options" where
  "generateOptionsObject src currentDate' currentMeal' =
     (case (src, currentDate', currentMeal') of
        (MealPlan, Some d, Some m) \<Rightarrow> \<lparr>source = src, currentDate = Some d, currentMeal = Some m\<rparr>
      | _ \<Rightarrow> \<lparr>source = src, currentDate = None, currentMeal = None\<rparr>)"

subsection \<open>sharedController.js\<close>

definition toggleBookmarkStatus :: "jsval \<Rightarrow> options \<Rightarrow> state \<Rightarrow> error + (bool \<times> state)" where
  "toggleBookmarkStatus rid opts s =
     (case getBookmarkStatus rid opts s of
        Inl e \<Rightarrow> Inl e
      | Inr isCurrentlyBookmarked \<Rightarrow>
          (let isNowBookmarked = \<not> isCurrentlyBookmarked
           in case updateBookmarkStatus rid isNowBookmarked opts s of
                Inl e \<Rightarrow> Inl e
              | Inr s1 \<Rightarrow>
                  if isNowBookmarked
                  then (case addRecipeToRecipeBookById rid opts s1 of
                          Inl e \<Rightarrow> Inl e
                        | Inr s2 \<Rightarrow> Inr (isNowBookmarked, s2))
                  else Inr (isNowBookmarked, removeRecipeFromBook rid s1)))"

definition synchronizeBookmarks :: "jsval \<Rightarrow> bool \<Rightarrow> state \<Rightarrow> state" where
  "synchronizeBookmarks rid isNowBookmarked s = saveMealPlan (synchronizeBookmarkStatus rid isNowBookmarked s)"

definition controlBookmarks :: "jsval \<Rightarrow> options \<Rightarrow> state \<Rightarrow> error + (bool \<times> state)" where
  "controlBookmarks rid opts s =
     (case toggleBookmarkStatus rid opts s of
        Inl e \<Rightarrow> Inl e
      | Inr (isNowBookmarked, s1) \<Rightarrow> Inr (isNowBookmarked, synchronizeBookmarks rid isNowBookmarked s1))"

subsection \<open>addMealController.js\<close>

datatype addOutcome = MealExistsError | AddedToPlan

definition isRecipeAlreadyInMealSlot :: "jsval \<Rightarrow> date \<Rightarrow> meal \<Rightarrow> string \<Rightarrow> state \<Rightarrow> error + bool" where
  "isRecipeAlreadyInMealSlot rid dateToBePlaced mealToBePlaced operation' s =
     (case mealsInMealSlot dateToBePlaced mealToBePlaced s of
        Inl e \<Rightarrow> Inl e
      | Inr currentRecipes \<Rightarrow> Inr (rid \<in> set currentRecipes \<and> operation' \<noteq> ''replace''))"

definition controlAddRecipeToPlan :: "jsval \<Rightarrow> userInputs \<Rightarrow> options \<Rightarrow> state \<Rightarrow> error + (addOutcome \<times> state)" where
  "controlAddRecipeToPlan rid inputs opts s =
     (case isRecipeAlreadyInMealSlot rid (date inputs) (meal inputs) (operation inputs) s of
        Inl e \<Rightarrow> Inl e
      | Inr True \<Rightarrow> Inr (MealExistsError, s)
      | Inr False \<Rightarrow>
          (case addRecipeToMealPlan rid inputs
                  (generateOptionsObject (source opts) (currentDate opts) (currentMeal opts)) s of
             Inl e \<Rightarrow> Inl e
           | Inr s' \<Rightarrow> Inr (AddedToPlan, s')))"

text \<open>Every recipe of the meal plan, and every recipe of the state.\<close>

definition planRecipes :: "mealPlan \<Rightarrow> recipe list" where
  "planRecipes p = concat (map (\<lambda>(week, weekPlan). concat (map (\<lambda>(day, dayPlan). dayRecipes (meals dayPlan)) weekPlan)) p)"

definition allRecipes :: "state \<Rightarrow> recipe list" where
  "allRecipes s = ingredientSearchResults s @ browseSearchResults s @ recipeBook s @ planRecipes (mealPlan s)"

definition addMondayLunch :: userInputs where
  "addMondayLunch = \<lparr>date = 20108, meal = Lunch, operation = ''add'', numServings = Str ''2''\<rparr>"

definition inBrowse :: options where
  "inBrowse = \<lparr>source = BrowseRecipeSearch, currentDate = None, currentMeal = None\<rparr>"

section \<open>Ingredient availability (loadRecipes.js, config.js, sharedUtils.js)\<close>

definition COMMON_PANTRY_ITEMS :: "string list" where
  "COMMON_PANTRY_ITEMS = [''salt'', ''table salt'', ''pepper'', ''salt and pepper'', ''salt & pepper'',
     ''salt&pepper'', ''black pepper'', ''ground pepper'', ''water'', ''flour'', ''oil'']"

text \<open>The entries of the object \<open>INGREDIENT_SYNONYMS\<close>, in the order of its keys.\<close>

definition INGREDIENT_SYNONYMS :: "(string \<times> string list) list" where
  "INGREDIENT_SYNONYMS =
     [(''cheese'', [''parmesan'', ''mozzarella'', ''cheddar'', ''feta'', ''brie'', ''provolone'', ''gruyere'',
                    ''gorgonzola'', ''fontina'', ''gouda'', ''burrata'', ''monterey jack'', ''graviera'']),
      (''bread'', [''focaccia'', ''ciabatta'', ''sourdough'', ''baguette'', ''brioche'']),
      (''pasta'', [''spaghetti'', ''fettuccine'', ''penne'', ''rigatoni'', ''macaroni'', ''lasagna'', ''ramen'',
                   ''udon'', ''soba'', ''rice noodle'']),
      (''onion'', [''shallot'']),
      (''butter'', [''margarine'']),
      (''milk'', [''soy milk'', ''almond milk''])]"

text \<open>\<open>String.prototype.includes\<close>: the second string occurs in the first.\<close>

fun isPrefixOf :: "string \<Rightarrow> string \<Rightarrow> bool" where
  "isPrefixOf [] s = True"
| "isPrefixOf (c # cs) [] = False"
| "isPrefixOf (c # cs) (d # ds) = (c = d \<and> isPrefixOf cs ds)"

fun stringIncludes :: "string \<Rightarrow> string \<Rightarrow> bool" where
  "stringIncludes [] searchString = (searchString = [])"
| "stringIncludes (c # cs) searchString = (isPrefixOf searchString (c # cs) \<or> stringIncludes cs searchString)"

text \<open>\<open>String.prototype.toLowerCase\<close>, on the letters A to Z.\<close>

definition toLowerCase :: "string \<Rightarrow> string" where
  "toLowerCase s =
     map (\<lambda>c. let k = (of_char c :: nat) in if 65 \<le> k \<and> k \<le> 90 then char_of (k + 32) else c) s"

text \<open>
  \<open>normalizeIngredient\<close> ends with \<open>pluralize.singular\<close>, a function of a library that is not
  part of the repository: it is the parameter \<open>singular\<close> here.
\<close>

definition normalizeIngredient :: "(string \<Rightarrow> string) \<Rightarrow> string \<Rightarrow> string" where
  "normalizeIngredient singular ingredient = singular (toLowerCase (trim ingredient))"

text \<open>
  The four checks return an object or \<open>null\<close>. Where the source tests a string for truth
  (\<open>householdItem ? \<dots>\<close>, \<open>pantryMatch || ingredientMatch\<close>, \<open>match ? \<dots>\<close>), the empty
  string counts as false. The object of an unavailable ingredient carries \<open>matchedIngredient: null\<close>
  and no \<open>matchingPantryIngredient\<close>.
\<close>

definition checkHouseholdItem :: "string \<Rightarrow> availability option" where
  "checkHouseholdItem ingredient =
     (case find (\<lambda>commonItem. ingredient = commonItem) COMMON_PANTRY_ITEMS of
        Some householdItem \<Rightarrow>
          if householdItem \<noteq> []
          then Some \<lparr>availabilityState = HouseholdItem, matchingPantryIngredient = Some householdItem\<rparr>
          else None
      | None \<Rightarrow> None)"

definition checkExactMatch :: "string \<Rightarrow> state \<Rightarrow> availability option" where
  "checkExactMatch ingredient s =
     (let match = list_ex (\<lambda>pantryItem. pantryItem = ingredient) (pantry s)
      in if match
         then Some \<lparr>availabilityState = DefinitelyAvailable, matchingPantryIngredient = Some ingredient\<rparr>
         else None)"

definition checkPartialMatch :: "string \<Rightarrow> state \<Rightarrow> availability option" where
  "checkPartialMatch ingredient s =
     (let pantryMatch = find (\<lambda>pantryItem. stringIncludes pantryItem ingredient) (pantry s);
          ingredientMatch = find (\<lambda>pantryItem. stringIncludes ingredient pantryItem) (pantry s);
          match = (case pantryMatch of
                     Some m \<Rightarrow> if m \<noteq> [] then Some m else ingredientMatch
                   | None \<Rightarrow> ingredientMatch)
      in case match of
           Some m \<Rightarrow>
             if m \<noteq> []
             then Some \<lparr>availabilityState = PotentiallyAvailable, matchingPantryIngredient = Some m\<rparr>
             else None
         | None \<Rightarrow> None)"

text \<open>
  The loop over the entries of \<open>INGREDIENT_SYNONYMS\<close>: its body returns in both branches, so the
  first entry decides and the remaining entries are never visited; without an entry the function
  returns \<open>undefined\<close>.
\<close>

fun checkSynonymMatchEntries :: "(string \<times> string list) list \<Rightarrow> string \<Rightarrow> availability option" where
  "checkSynonymMatchEntries [] ingredient = None"
| "checkSynonymMatchEntries ((key, synonyms) # entries) ingredient =
     (case find (\<lambda>synonym. stringIncludes ingredient synonym) synonyms of
        Some match \<Rightarrow>
          if match \<noteq> []
          then Some \<lparr>availabilityState = PotentiallyAvailable, matchingPantryIngredient = Some key\<rparr>
          else None
      | None \<Rightarrow> None)"

definition checkSynonymMatch :: "string \<Rightarrow> availability option" where
  "checkSynonymMatch ingredient = checkSynonymMatchEntries INGREDIENT_SYNONYMS ingredient"

definition getIngredientAvailability :: "(string \<Rightarrow> string) \<Rightarrow> string \<Rightarrow> state \<Rightarrow> availability" where
  "getIngredientAvailability singular apiIngredientName s =
     (let normalizedApiIngredient = normalizeIngredient singular apiIngredientName
      in case checkHouseholdItem normalizedApiIngredient of
           Some householdItem \<Rightarrow> householdItem
         | None \<Rightarrow>
             (case checkExactMatch normalizedApiIngredient s of
                Some exactMatch \<Rightarrow> exactMatch
              | None \<Rightarrow>
                  (case checkPartialMatch normalizedApiIngredient s of
                     Some partialMatch \<Rightarrow> partialMatch
                   | None \<Rightarrow>
                       (case checkSynonymMatch normalizedApiIngredient of
                          Some synonymMatch \<Rightarrow> synonymMatch
                        | None \<Rightarrow> \<lparr>availabilityState = Unavailable, matchingPantryIngredient = None\<rparr>))))"

text \<open>The singular of a word that is its own singular.\<close>

definition alreadySingular :: "string \<Rightarrow> string" where
  "alreadySingular word = word"

text \<open>A pantry that holds ciabatta only.\<close>

definition ciabattaState :: state where
  "ciabattaState = emptyState\<lparr>pantry := [''ciabatta'']\<rparr>"

section \<open>Recipe details from the API (loadRecipes.js)\<close>




record apiStep =
  step :: string








subsection \<open>sharedUtils.js: toTitleCase\<close>








subsection \<open>Recipe objects for the search results\<close>





text \<open>
  \<open>resultsArray.sort((a, b) => a.numMissingIngredients - b.numMissingIngredients)\<close>: the sort
  is stable, and an entry goes before another when the comparison function is negative. (With
  counts that are not numbers the comparison function is not consistent and the order is left to
  the implementation.)
\<close>

definition comesBefore :: "recipe \<Rightarrow> recipe \<Rightarrow> bool" where
  "comesBefore a b = js_less (js_minus (numMissingIngredients a) (numMissingIngredients b)) (Num (Fin 0))"

fun insertSorted :: "recipe \<Rightarrow> recipe list \<Rightarrow> recipe list" where
  "insertSorted x [] = [x]"
| "insertSorted x (y # ys) = (if comesBefore x y then x # y # ys else y # insertSorted x ys)"

definition sortResults :: "recipe list \<Rightarrow> recipe list" where
  "sortResults xs = foldl (\<lambda>sorted x. insertSorted x sorted) [] xs"

definition resultsArray :: "string \<Rightarrow> state \<Rightarrow> recipe list" where
  "resultsArray mode s = (if mode = ''ingredientSearch'' then ingredientSearchResults s else browseSearchResults s)"

definition populateSearchResults :: "recipe \<Rightarrow> string \<Rightarrow> state \<Rightarrow> state" where
  "populateSearchResults recipeObj mode s =
     (if mode = ''ingredientSearch''
      then s\<lparr>ingredientSearchResults := sortResults (ingredientSearchResults s @ [recipeObj])\<rparr>
      else s\<lparr>browseSearchResults := browseSearchResults s @ [recipeObj]\<rparr>)"
















section \<open>Rounding to a double\<close>

lemma powi_pos [simp]: "0 < (2::rat) powi k"
  by (simp add: power_int_def)

lemma powi_less: "a < b \<Longrightarrow> (2::rat) powi a < 2 powi b"
  by (rule power_int_strict_increasing) simp_all

lemma powi_le: "a \<le> b \<Longrightarrow> (2::rat) powi a \<le> 2 powi b"
  by (rule power_int_increasing) simp_all

lemma powi_Suc: "(2::rat) powi (k + 1) = 2 * 2 powi k"
  by (simp add: power_int_add)

lemma powi_pred: "(2::rat) powi (k - 1) = 2 powi k / 2"
  using powi_Suc [of "k - 1"] by simp

lemma powi_add: "(2::rat) powi (a + b) = 2 powi a * 2 powi b"
  by (simp add: power_int_add)

lemma exponent_unique:
  assumes "(2::rat) powi e \<le> a" "a < 2 powi (e + 1)" "2 powi e' \<le> a" "a < 2 powi (e' + 1)"
  shows "e = e'"
proof (rule ccontr)
  assume "e \<noteq> e'"
  then consider "e + 1 \<le> e'" | "e' + 1 \<le> e" by linarith
  then show False
  proof cases
    case 1
    from powi_le [OF this] assms show False by linarith
  next
    case 2
    from powi_le [OF this] assms show False by linarith
  qed
qed

lemma binExponent_bounds:
  assumes "r \<noteq> 0"
  shows "2 powi (binExponent r) \<le> \<bar>r\<bar>" and "\<bar>r\<bar> < 2 powi (binExponent r + 1)"
proof -
  obtain p q where pq: "quotient_of \<bar>r\<bar> = (p, q)" by (cases "quotient_of \<bar>r\<bar>")
  then have q: "0 < q" and r: "\<bar>r\<bar> = of_int p / of_int q"
    by (rule quotient_of_denom_pos, rule quotient_of_div)
  from assms r q have p: "0 < p"
    by (metis abs_ge_zero divide_eq_0_iff linorder_not_le of_int_0_less_iff of_int_eq_0_iff
        order_le_less zero_less_abs_iff zero_less_divide_iff)
  let ?k = "bitlen p - bitlen q"
  from bitlen_bounds [OF p] have bp: "(2::rat) ^ nat (bitlen p - 1) \<le> of_int p" "of_int p < (2::rat) ^ nat (bitlen p)"
    by (metis of_int_le_iff of_int_numeral of_int_power, metis of_int_less_iff of_int_numeral of_int_power)
  from bitlen_bounds [OF q] have bq: "(2::rat) ^ nat (bitlen q - 1) \<le> of_int q" "of_int q < (2::rat) ^ nat (bitlen q)"
    by (metis of_int_le_iff of_int_numeral of_int_power, metis of_int_less_iff of_int_numeral of_int_power)
  have posp: "1 \<le> bitlen p" "1 \<le> bitlen q"
    using p q bitlen_eq_zero_iff [of p] bitlen_eq_zero_iff [of q] bitlen_nonneg [of p] bitlen_nonneg [of q]
    by linarith+
  have P: "(2::rat) powi (bitlen p - 1) \<le> of_int p" "of_int p < (2::rat) powi (bitlen p)"
    using bp posp by (simp_all add: power_int_def)
  have Q: "(2::rat) powi (bitlen q - 1) \<le> of_int q" "of_int q < (2::rat) powi (bitlen q)"
    using bq posp by (simp_all add: power_int_def)
  have qpos: "(0::rat) < of_int q" using q by simp
  have up: "\<bar>r\<bar> < 2 powi (?k + 1)"
  proof -
    have "of_int p < (2::rat) powi (bitlen p)" by (rule P)
    also have "\<dots> = 2 powi (?k + 1) * 2 powi (bitlen q - 1)"
      by (simp add: power_int_add [symmetric])
    also have "\<dots> \<le> 2 powi (?k + 1) * of_int q"
      using Q(1) by (simp add: mult_left_mono)
    finally show ?thesis using qpos by (simp add: r pos_divide_less_eq)
  qed
  have lo: "2 powi (?k - 1) < \<bar>r\<bar>"
  proof -
    have "2 powi (?k - 1) * of_int q < (2::rat) powi (?k - 1) * 2 powi (bitlen q)"
      using Q(2) by (simp add: mult_strict_left_mono)
    also have "\<dots> = 2 powi (bitlen p - 1)"
      by (simp add: power_int_add [symmetric])
    also have "\<dots> \<le> of_int p" by (rule P)
    finally show ?thesis using qpos by (simp add: r pos_less_divide_eq)
  qed
  have e: "binExponent r = (if 2 powi ?k \<le> \<bar>r\<bar> then ?k else ?k - 1)"
    by (simp add: binExponent_def pq Let_def)
  show "2 powi (binExponent r) \<le> \<bar>r\<bar>" using lo by (simp add: e)
  show "\<bar>r\<bar> < 2 powi (binExponent r + 1)" using up by (auto simp: e)
qed

lemma binExponent_eq:
  assumes "2 powi e \<le> \<bar>r\<bar>" "\<bar>r\<bar> < 2 powi (e + 1)"
  shows "binExponent r = e"
proof -
  have "r \<noteq> 0"
  proof
    assume "r = 0"
    with assms(1) powi_pos [of e] show False by simp
  qed
  from binExponent_bounds [OF this] assms show ?thesis by (rule exponent_unique)
qed

lemma roundTiesToEven_error: "\<bar>of_int (roundTiesToEven m) - m\<bar> \<le> 1 / 2"
proof -
  have "of_int \<lfloor>m\<rfloor> \<le> m" "m < of_int \<lfloor>m\<rfloor> + 1" by linarith+
  then show ?thesis by (auto simp: roundTiesToEven_def Let_def)
qed

lemma roundTiesToEven_of_int [simp]: "roundTiesToEven (of_int n) = n"
  by (simp add: roundTiesToEven_def)


lemma toDouble_0 [simp]: "toDouble 0 = Fin 0"
  by (simp add: toDouble_def)

lemma toDouble_unfold:
  assumes "r \<noteq> 0" and "e = max (binExponent r) (- 1022)" and "ulp = 2 powi (e - 52)"
    and "a = of_int (roundTiesToEven (\<bar>r\<bar> / ulp)) * ulp"
  shows "toDouble r = (if 2 powi 1024 \<le> a then (if r < 0 then NInf else PInf)
                       else Fin (if r < 0 then - a else a))"
  unfolding toDouble_def Let_def assms(2-4) using assms(1) by (simp only: if_False)

lemma toDouble_rel:
  assumes lo: "2 powi (- 1022) \<le> \<bar>r\<bar>" and hi: "\<bar>r\<bar> \<le> 2 powi 1023"
  shows "\<exists>d. \<bar>d\<bar> \<le> 2 powi (- 53) \<and> toDouble r = Fin (r * (1 + d))"
proof -
  have r0: "r \<noteq> 0"
  proof
    assume "r = 0"
    with lo powi_pos [of "- 1022"] show False by simp
  qed
  define e where "e = binExponent r"
  from binExponent_bounds [OF r0] have B: "2 powi e \<le> \<bar>r\<bar>" "\<bar>r\<bar> < 2 powi (e + 1)"
    by (simp_all add: e_def)
  have elo: "- 1022 \<le> e"
  proof (rule ccontr)
    assume "\<not> - 1022 \<le> e"
    then have "e + 1 \<le> - 1022" by simp
    from powi_le [OF this] lo B(2) show False by linarith
  qed
  have ehi: "e \<le> 1023"
  proof (rule ccontr)
    assume "\<not> e \<le> 1023"
    then have "1023 < e" by simp
    from powi_less [OF this] hi B(1) show False by linarith
  qed
  define ulp :: rat where "ulp = 2 powi (e - 52)"
  define n where "n = roundTiesToEven (\<bar>r\<bar> / ulp)"
  define a where "a = of_int n * ulp"
  have upos: "0 < ulp" by (simp add: ulp_def)
  have "ulp / 2 = 2 powi (e - 52 - 1)"
    unfolding ulp_def by (rule powi_pred [symmetric])
  also have "e - 52 - 1 = - 53 + e" by simp
  finally have half: "ulp / 2 = 2 powi (- 53) * 2 powi e"
    by (simp only: powi_add)
  have "\<bar>of_int n - \<bar>r\<bar> / ulp\<bar> \<le> 1 / 2"
    unfolding n_def by (rule roundTiesToEven_error)
  then have "\<bar>of_int n - \<bar>r\<bar> / ulp\<bar> * ulp \<le> 1 / 2 * ulp"
    using upos by (simp add: mult_right_mono)
  moreover have "\<bar>of_int n - \<bar>r\<bar> / ulp\<bar> * ulp = \<bar>a - \<bar>r\<bar>\<bar>"
  proof -
    have "\<bar>of_int n - \<bar>r\<bar> / ulp\<bar> * ulp = \<bar>(of_int n - \<bar>r\<bar> / ulp) * ulp\<bar>"
      using upos by (simp add: abs_mult)
    also have "(of_int n - \<bar>r\<bar> / ulp) * ulp = a - \<bar>r\<bar>"
      using upos by (simp add: a_def left_diff_distrib)
    finally show ?thesis .
  qed
  ultimately have err: "\<bar>a - \<bar>r\<bar>\<bar> \<le> ulp / 2" by simp
  have "2 powi (- 53) * 2 powi e \<le> 2 powi (- 53) * \<bar>r\<bar>"
    using B(1) by (simp add: mult_left_mono)
  with err half have rel: "\<bar>a - \<bar>r\<bar>\<bar> \<le> 2 powi (- 53) * \<bar>r\<bar>" by simp
  have small: "(2::rat) powi (- 53) < 1"
    using powi_less [of "- 53" 0] by simp
  have "a \<le> \<bar>r\<bar> + 2 powi (- 53) * \<bar>r\<bar>" using rel by linarith
  also have "\<dots> < \<bar>r\<bar> + 1 * \<bar>r\<bar>"
    using small r0 by (simp add: mult_strict_right_mono)
  also have "\<dots> \<le> 2 * 2 powi 1023" using hi by simp
  also have "\<dots> = 2 powi 1024" using powi_Suc [of 1023] by simp
  finally have noov: "\<not> 2 powi 1024 \<le> a" by simp
  have "e = max (binExponent r) (- 1022)" using elo by (simp add: e_def)
  from toDouble_unfold [OF r0 this ulp_def a_def [unfolded n_def]] noov
  have td: "toDouble r = Fin (if r < 0 then - a else a)"
    by (simp only: if_False)
  define d where "d = (a - \<bar>r\<bar>) / \<bar>r\<bar>"
  have d1: "\<bar>d\<bar> \<le> 2 powi (- 53)"
    using rel r0 by (simp add: d_def pos_divide_le_eq)
  have d2: "\<bar>r\<bar> * (1 + d) = a"
    using r0 by (simp add: d_def field_simps)
  have "(if r < 0 then - a else a) = r * (1 + d)"
  proof (cases "r < 0")
    case True
    then have "\<bar>r\<bar> = - r" by simp
    with d2 True show ?thesis by simp
  next
    case False
    then have "\<bar>r\<bar> = r" by simp
    with d2 False show ?thesis by simp
  qed
  with td d1 show ?thesis by auto
qed

lemma toDouble_exact:
  assumes r: "r = of_int n * 2 powi k" and n: "\<bar>n\<bar> \<le> 2 ^ 53" and k: "- 1074 \<le> k" "k \<le> 970"
  shows "toDouble r = Fin r"
proof (cases "r = 0")
  case True
  then show ?thesis by simp
next
  case r0: False
  define e where "e = binExponent r"
  define E where "E = max e (- 1022)"
  define ulp :: rat where "ulp = 2 powi (E - 52)"
  from binExponent_bounds [OF r0] have B: "2 powi e \<le> \<bar>r\<bar>" "\<bar>r\<bar> < 2 powi (e + 1)"
    by (simp_all add: e_def)
  have absr: "\<bar>r\<bar> = of_int \<bar>n\<bar> * 2 powi k"
    by (simp add: r abs_mult)
  have nle: "(of_int \<bar>n\<bar> :: rat) \<le> 2 powi 53"
  proof -
    have "(of_int \<bar>n\<bar> :: rat) \<le> of_int (2 ^ 53)" using n by (simp only: of_int_le_iff)
    then show ?thesis by (simp add: power_int_def)
  qed
  have rle: "\<bar>r\<bar> \<le> 2 powi (k + 53)"
  proof -
    have "\<bar>r\<bar> \<le> 2 powi 53 * 2 powi k"
      unfolding absr using nle by (intro mult_right_mono) simp_all
    also have "\<dots> = 2 powi (53 + k)" by (simp only: powi_add)
    finally show ?thesis by (simp only: add.commute)
  qed
  have ele: "e \<le> k + 53"
  proof (rule ccontr)
    assume "\<not> e \<le> k + 53"
    then have "k + 53 < e" by simp
    from powi_less [OF this] rle B(1) show False by linarith
  qed
  have upos: "0 < ulp" by (simp add: ulp_def)
  have quot: "\<bar>r\<bar> / ulp = of_int \<bar>n\<bar> * 2 powi (k - E + 52)"
  proof -
    have "2 powi k = 2 powi (k - E + 52) * ulp"
      by (simp add: ulp_def power_int_add [symmetric])
    then show ?thesis using upos by (simp add: absr)
  qed
  have "\<exists>m. \<bar>r\<bar> / ulp = of_int m"
  proof (cases "0 \<le> k - E + 52")
    case True
    then have "(2::rat) powi (k - E + 52) = of_int (2 ^ nat (k - E + 52))"
      by (simp add: power_int_def)
    then have "\<bar>r\<bar> / ulp = of_int (\<bar>n\<bar> * 2 ^ nat (k - E + 52))"
      by (simp add: quot)
    then show ?thesis by blast
  next
    case False
    then have "k + 52 < E" by simp
    with k(1) have Ee: "E = e" by (simp add: E_def max_def split: if_splits)
    with \<open>k + 52 < E\<close> ele have e: "e = k + 53" by simp
    from B(1) rle have "\<bar>r\<bar> = 2 powi (k + 53)" by (simp add: e)
    then have "\<bar>r\<bar> / ulp = 2 powi (k + 53) / 2 powi (k + 53 - 52)"
      by (simp add: ulp_def Ee e)
    also have "\<dots> = 2 powi 52"
      by (simp add: power_int_diff [symmetric])
    also have "\<dots> = of_int (2 ^ 52)" by (simp add: power_int_def)
    finally show ?thesis by blast
  qed
  then obtain m where m: "\<bar>r\<bar> / ulp = of_int m" by blast
  have "of_int (roundTiesToEven (\<bar>r\<bar> / ulp)) * ulp = of_int m * ulp"
    by (simp only: m roundTiesToEven_of_int)
  also have "\<dots> = \<bar>r\<bar>" using upos by (simp add: m [symmetric])
  finally have a: "\<bar>r\<bar> = of_int (roundTiesToEven (\<bar>r\<bar> / ulp)) * ulp" by simp
  have "\<bar>r\<bar> \<le> 2 powi (k + 53)" by (rule rle)
  also have "\<dots> \<le> 2 powi 1023" using k(2) by (intro powi_le) simp
  also have "\<dots> < 2 powi 1024" by (intro powi_less) simp
  finally have noov: "\<not> 2 powi 1024 \<le> \<bar>r\<bar>" by simp
  from toDouble_unfold [OF r0 E_def [unfolded e_def] ulp_def a] noov
  have "toDouble r = Fin (if r < 0 then - \<bar>r\<bar> else \<bar>r\<bar>)"
    by (simp only: if_False)
  then show ?thesis by simp
qed

lemma toDouble_of_int: "\<bar>n\<bar> \<le> 2 ^ 53 \<Longrightarrow> toDouble (of_int n) = Fin (of_int n)"
  using toDouble_exact [of "of_int n" n 0] by simp

lemma toDouble_numeral [simp]:
  "numeral w \<le> (9007199254740992::int) \<Longrightarrow> toDouble (numeral w) = Fin (numeral w)"
  using toDouble_of_int [of "numeral w"] by simp

lemma toDouble_neg_numeral [simp]:
  "numeral w \<le> (9007199254740992::int) \<Longrightarrow> toDouble (- numeral w) = Fin (- numeral w)"
  using toDouble_of_int [of "- numeral w"] by simp

lemma toDouble_1 [simp]: "toDouble 1 = Fin 1"
  using toDouble_of_int [of 1] by simp

lemma toDouble_dyadic:
  "\<bar>n\<bar> \<le> 2 ^ 53 \<Longrightarrow> j \<le> 1074 \<Longrightarrow> toDouble (of_int n / 2 ^ j) = Fin (of_int n / 2 ^ j)"
  using toDouble_exact [of "of_int n / 2 ^ j" n "- int j"]
  by (simp add: power_int_def field_simps)

text \<open>The size of a product, from the sizes of its factors.\<close>

lemma range_mul:
  assumes "2 powi m \<le> \<bar>x::rat\<bar>" "\<bar>x\<bar> \<le> 2 powi n" "2 powi (- j) \<le> \<bar>k::rat\<bar>" "\<bar>k\<bar> \<le> 2 powi j"
  shows "2 powi (m - j) \<le> \<bar>x * k\<bar>" and "\<bar>x * k\<bar> \<le> 2 powi (n + j)"
proof -
  have "(2::rat) powi (m - j) = 2 powi m * 2 powi (- j)"
    using powi_add [of m "- j"] by simp
  also have "\<dots> \<le> \<bar>x\<bar> * \<bar>k\<bar>"
    using assms(1,3) by (intro mult_mono) (simp_all add: less_imp_le)
  finally show "2 powi (m - j) \<le> \<bar>x * k\<bar>" by (simp add: abs_mult)
  have "\<bar>x\<bar> * \<bar>k\<bar> \<le> 2 powi n * 2 powi j"
    using assms(2,4) by (intro mult_mono) (simp_all add: less_imp_le)
  then show "\<bar>x * k\<bar> \<le> 2 powi (n + j)" by (simp add: abs_mult powi_add)
qed

lemma unit_roundoff_small: "(2::rat) powi (- 53) \<le> 1 / 2"
proof -
  have "(2::rat) powi (- 53) \<le> 2 powi (- 1)" by (rule powi_le) simp
  then show ?thesis by (simp add: power_int_minus)
qed

lemma one_plus_range:
  assumes "\<bar>d::rat\<bar> \<le> 2 powi (- 53)"
  shows "2 powi (- 1) \<le> \<bar>1 + d\<bar>" and "\<bar>1 + d\<bar> \<le> 2 powi 1"
proof -
  from assms unit_roundoff_small have "\<bar>d\<bar> \<le> 1 / 2" by linarith
  then have "1 / 2 \<le> \<bar>1 + d\<bar>" "\<bar>1 + d\<bar> \<le> 2" by linarith+
  then show "2 powi (- 1) \<le> \<bar>1 + d\<bar>" and "\<bar>1 + d\<bar> \<le> 2 powi 1"
    by (simp_all add: power_int_minus)
qed

text \<open>The ratio of two serving counts in [1, 50], rounded.\<close>

lemma ratio_rounded:
  assumes "1 \<le> a" "a \<le> 50" "1 \<le> b" "b \<le> (50::rat)"
  shows "\<exists>k d. toDouble (b / a) = Fin k \<and> k = b / a * (1 + d) \<and> \<bar>d\<bar> \<le> 2 powi (- 53) \<and>
           2 powi (- 7) \<le> \<bar>k\<bar> \<and> \<bar>k\<bar> \<le> 2 powi 7"
proof -
  have lo: "1 / 64 \<le> b / a" using assms by (simp add: pos_le_divide_eq)
  have hi: "b / a \<le> 64" using assms by (simp add: pos_divide_le_eq)
  have "0 \<le> b / a" using assms by simp
  then have "\<bar>b / a\<bar> = b / a" by (rule abs_of_nonneg)
  moreover have "(2::rat) powi (- 6) = 1 / 64" "(2::rat) powi 6 = 64"
    by (simp_all add: power_int_minus)
  ultimately have r6: "2 powi (- 6) \<le> \<bar>b / a\<bar>" "\<bar>b / a\<bar> \<le> 2 powi 6"
    using lo hi by simp_all
  have "(2::rat) powi (- 1022) \<le> 2 powi (- 6)" "(2::rat) powi 6 \<le> 2 powi 1023"
    by (rule powi_le, simp)+
  with r6 have "2 powi (- 1022) \<le> \<bar>b / a\<bar>" "\<bar>b / a\<bar> \<le> 2 powi 1023" by linarith+
  from toDouble_rel [OF this] obtain d where d: "\<bar>d\<bar> \<le> 2 powi (- 53)"
    and k: "toDouble (b / a) = Fin (b / a * (1 + d))" by blast
  from range_mul [OF r6 one_plus_range [OF d], of ] 
  have "2 powi (- 7) \<le> \<bar>b / a * (1 + d)\<bar>" "\<bar>b / a * (1 + d)\<bar> \<le> 2 powi 7" by simp_all
  with d k show ?thesis by blast
qed

text \<open>A product in the normal range, rounded.\<close>

lemma product_rounded:
  assumes "2 powi m \<le> \<bar>x::rat\<bar>" "\<bar>x\<bar> \<le> 2 powi n" "2 powi (- j) \<le> \<bar>k::rat\<bar>" "\<bar>k\<bar> \<le> 2 powi j"
    and "- 1022 \<le> m - j" "n + j \<le> 1023"
  shows "\<exists>d. toDouble (x * k) = Fin (x * k * (1 + d)) \<and> \<bar>d\<bar> \<le> 2 powi (- 53) \<and>
           2 powi (m - j - 1) \<le> \<bar>x * k * (1 + d)\<bar> \<and> \<bar>x * k * (1 + d)\<bar> \<le> 2 powi (n + j + 1)"
proof -
  note r = range_mul [OF assms(1-4)]
  from powi_le [OF assms(5)] powi_le [OF assms(6)] r
  have "2 powi (- 1022) \<le> \<bar>x * k\<bar>" "\<bar>x * k\<bar> \<le> 2 powi 1023" by linarith+
  from toDouble_rel [OF this] obtain d where d: "\<bar>d\<bar> \<le> 2 powi (- 53)"
    and k: "toDouble (x * k) = Fin (x * k * (1 + d))" by blast
  from range_mul [OF r one_plus_range [OF d]] d k show ?thesis by auto
qed

text \<open>Each rounding moves a factor that is close to 1 by at most two unit roundoffs.\<close>

lemma rounding_step:
  assumes "\<bar>t - 1\<bar> \<le> c" "c \<le> 1" "\<bar>d\<bar> \<le> (u::rat)"
  shows "\<bar>t * (1 + d) - 1\<bar> \<le> c + 2 * u"
proof -
  have "t * (1 + d) - 1 = ((t - 1) + d) + (t - 1) * d" by (simp add: algebra_simps)
  moreover have "\<bar>((t - 1) + d) + (t - 1) * d\<bar> \<le> \<bar>(t - 1) + d\<bar> + \<bar>(t - 1) * d\<bar>"
    by (rule abs_triangle_ineq)
  moreover have "\<bar>(t - 1) + d\<bar> \<le> \<bar>t - 1\<bar> + \<bar>d\<bar>" by (rule abs_triangle_ineq)
  ultimately have "\<bar>t * (1 + d) - 1\<bar> \<le> \<bar>t - 1\<bar> + \<bar>d\<bar> + \<bar>(t - 1) * d\<bar>"
    by linarith
  then have "\<bar>t * (1 + d) - 1\<bar> \<le> \<bar>t - 1\<bar> + \<bar>d\<bar> + \<bar>t - 1\<bar> * \<bar>d\<bar>"
    by (simp only: abs_mult)
  moreover have "\<bar>t - 1\<bar> * \<bar>d\<bar> \<le> 1 * u"
    using assms by (intro mult_mono) auto
  ultimately show ?thesis using assms by linarith
qed

lemma four_roundings:
  assumes "\<bar>d1::rat\<bar> \<le> 2 powi (- 53)" "\<bar>d2::rat\<bar> \<le> 2 powi (- 53)" "\<bar>d3::rat\<bar> \<le> 2 powi (- 53)"
    "\<bar>d4::rat\<bar> \<le> 2 powi (- 53)"
  shows "\<bar>(1 + d1) * (1 + d2) * (1 + d3) * (1 + d4) - 1\<bar> \<le> (2::rat) powi (- 50)"
proof -
  define u :: rat where "u = 2 powi (- 53)"
  have u8: "8 * u = 2 powi (- 50)"
    using powi_add [of 3 "- 53"] by (simp add: u_def)
  have "(2::rat) powi (- 50) \<le> 2 powi 0" by (rule powi_le) simp
  with u8 have u1: "8 * u \<le> 1" by simp
  have u0: "0 \<le> u" by (simp add: u_def less_imp_le)
  note a = assms [folded u_def]
  have s1: "\<bar>(1 + d1) - 1\<bar> \<le> 2 * u" using a(1) u0 by simp
  have s2: "\<bar>(1 + d1) * (1 + d2) - 1\<bar> \<le> 2 * u + 2 * u"
    using s1 _ a(2) by (rule rounding_step) (use u1 u0 in linarith)
  have s3: "\<bar>(1 + d1) * (1 + d2) * (1 + d3) - 1\<bar> \<le> (2 * u + 2 * u) + 2 * u"
    using s2 _ a(3) by (rule rounding_step) (use u1 u0 in linarith)
  have s4: "\<bar>(1 + d1) * (1 + d2) * (1 + d3) * (1 + d4) - 1\<bar> \<le> ((2 * u + 2 * u) + 2 * u) + 2 * u"
    using s3 _ a(4) by (rule rounding_step) (use u1 u0 in linarith)
  then show ?thesis using u8 by simp
qed

section \<open>Arrays and objects\<close>

lemma objSet_map_of: "map_of (objSet k v xs) k' = (if k' = k then Some v else map_of xs k')"
  by (induction xs) auto

lemma objSet_keys: "map_of xs k = Some w \<Longrightarrow> map fst (objSet k v xs) = map fst xs"
  by (induction xs) (auto split: if_splits)

lemma getDayMealPlan_setDayMealPlan:
  "getDayMealPlan d' (setDayMealPlan d dp s) =
     (if d' = d then (case getDayMealPlan d s of Inl e \<Rightarrow> Inl e | Inr (w, x) \<Rightarrow> Inr (w, Some dp))
      else getDayMealPlan d' s)"
  by (auto simp: getDayMealPlan_def setDayMealPlan_def Let_def objSet_map_of split: option.splits)

lemma getMeals_setMeals: "getMeals m' (setMeals m rs ms) = (if m' = m then rs else getMeals m' ms)"
  by (cases m; cases m') auto

lemma getMealSlot_setMealSlot:
  "getMealSlot d' m' (setMealSlot d m rs s) =
     (if d' = d \<and> m' = m \<and> (\<exists>w dp. getDayMealPlan d s = Inr (w, Some dp)) then rs
      else getMealSlot d' m' s)"
  by (auto simp: getMealSlot_def setMealSlot_def getDayMealPlan_setDayMealPlan getMeals_setMeals
      split: sum.splits option.splits prod.splits)

lemma findIndex_ge: "- 1 \<le> findIndex P xs"
  by (induction xs) (auto simp: Let_def)

lemma findIndex_none: "(\<forall>x\<in>set xs. \<not> P x) \<Longrightarrow> findIndex P xs = - 1"
  by (induction xs) (auto simp: Let_def)

lemma findIndex_neg_iff: "(findIndex P xs < 0) = (\<forall>x\<in>set xs. \<not> P x)"
proof (induction xs)
  case Nil
  then show ?case by simp
next
  case (Cons a xs)
  from findIndex_ge [of P xs] Cons show ?case by (auto simp: Let_def)
qed

lemma findIndex_nonneg: "\<exists>x\<in>set xs. P x \<Longrightarrow> 0 \<le> findIndex P xs"
  using findIndex_neg_iff [of P xs] by auto

lemma findIndex_some: "\<exists>x\<in>set xs. P x \<Longrightarrow> findIndex P xs = int (length (takeWhile (\<lambda>x. \<not> P x) xs))"
proof (induction xs)
  case Nil
  then show ?case by simp
next
  case (Cons a xs)
  show ?case
  proof (cases "P a")
    case True
    then show ?thesis by simp
  next
    case False
    with Cons.prems have ex: "\<exists>x\<in>set xs. P x" by auto
    from findIndex_nonneg [OF ex] Cons.IH [OF ex] False show ?thesis by (simp add: Let_def)
  qed
qed

lemma arraySplice_last: "arraySplice (- 1) 1 xs = butlast xs"
  by (cases xs rule: rev_cases) (auto simp: arraySplice_def Let_def butlast_conv_take)

lemma arraySplice_one: "0 \<le> i \<Longrightarrow> i < int (length xs) \<Longrightarrow> arraySplice i 1 xs = take (nat i) xs @ drop (Suc (nat i)) xs"
  by (auto simp: arraySplice_def Let_def nat_add_distrib)

lemma planKeys_objSet:
  "map_of p wk = Some week \<Longrightarrow> map fst week' = map fst week \<Longrightarrow> planKeys (objSet wk week' p) = planKeys p"
  by (induction p) (auto simp: planKeys_def split: if_splits)

lemma planKeys_setDayMealPlan:
  "getDayMealPlan d s = Inr (w, Some x) \<Longrightarrow> planKeys (mealPlan (setDayMealPlan d dp s)) = planKeys (mealPlan s)"
  by (auto simp: getDayMealPlan_def setDayMealPlan_def Let_def planKeys_objSet objSet_keys split: option.splits)

lemma planKeys_setDayMealPlan':
  "planKeys (mealPlan (setDayMealPlan d dp s)) = planKeys (mealPlan s) \<or> (\<exists>w. getDayMealPlan d s = Inr (w, None))"
  by (auto simp: getDayMealPlan_def setDayMealPlan_def Let_def planKeys_objSet objSet_keys split: option.splits)

lemma setDayMealPlan_fields [simp]:
  "pantry (setDayMealPlan d dp s) = pantry s"
  "ingredientSearchResults (setDayMealPlan d dp s) = ingredientSearchResults s"
  "browseSearchResults (setDayMealPlan d dp s) = browseSearchResults s"
  "recipeBook (setDayMealPlan d dp s) = recipeBook s"
  "mealCalendarWeek (setDayMealPlan d dp s) = mealCalendarWeek s"
  "storedRecipeBook (setDayMealPlan d dp s) = storedRecipeBook s"
  "storedMealPlan (setDayMealPlan d dp s) = storedMealPlan s"
  by (auto simp: setDayMealPlan_def Let_def split: option.splits)

lemma setMealSlot_fields [simp]:
  "pantry (setMealSlot d m rs s) = pantry s"
  "ingredientSearchResults (setMealSlot d m rs s) = ingredientSearchResults s"
  "browseSearchResults (setMealSlot d m rs s) = browseSearchResults s"
  "recipeBook (setMealSlot d m rs s) = recipeBook s"
  "mealCalendarWeek (setMealSlot d m rs s) = mealCalendarWeek s"
  "storedRecipeBook (setMealSlot d m rs s) = storedRecipeBook s"
  "storedMealPlan (setMealSlot d m rs s) = storedMealPlan s"
  by (auto simp: setMealSlot_def split: sum.splits option.splits prod.splits)

lemma planKeys_setMealSlot [simp]:
  "planKeys (mealPlan (setMealSlot d m rs s)) = planKeys (mealPlan s)"
  by (auto simp: setMealSlot_def planKeys_setDayMealPlan split: sum.splits option.splits prod.splits)

lemma getDayMealPlan_setMealSlot:
  "getDayMealPlan d' (setMealSlot d m rs s) =
     (case getDayMealPlan d' s of
        Inl e \<Rightarrow> Inl e
      | Inr (w, None) \<Rightarrow> Inr (w, None)
      | Inr (w, Some dp) \<Rightarrow> Inr (w, Some (if d' = d then dp\<lparr>meals := setMeals m rs (meals dp)\<rparr> else dp)))"
  by (auto simp: setMealSlot_def getDayMealPlan_setDayMealPlan split: sum.splits option.splits prod.splits)

text \<open>The effect of the nutrition update on every day.\<close>

lemma getDayMealPlan_updateNutritionForDay:
  assumes "updateNutritionForDay d s = Inr s'"
  shows "getDayMealPlan d' s' =
     (case getDayMealPlan d' s of
        Inl e \<Rightarrow> Inl e
      | Inr (w, None) \<Rightarrow> Inr (w, None)
      | Inr (w, Some dp) \<Rightarrow> Inr (w, Some (if d' = d then dp\<lparr>nutrition := dayTotals (meals dp)\<rparr> else dp)))"
  using assms
  by (auto simp: updateNutritionForDay_def getDayMealPlan_setDayMealPlan dayTotals_def
      split: sum.splits option.splits prod.splits)

lemma updateNutritionForDay_total:
  "getDayMealPlan d s = Inr (w, Some dp) \<Longrightarrow> \<exists>s'. updateNutritionForDay d s = Inr s'"
  by (simp add: updateNutritionForDay_def)

lemma updateNutritionForDay_frame:
  assumes "updateNutritionForDay d s = Inr s'"
  shows "pantry s' = pantry s" "ingredientSearchResults s' = ingredientSearchResults s"
    "browseSearchResults s' = browseSearchResults s" "recipeBook s' = recipeBook s"
    "mealCalendarWeek s' = mealCalendarWeek s" "storedRecipeBook s' = storedRecipeBook s"
    "storedMealPlan s' = storedMealPlan s" "planKeys (mealPlan s') = planKeys (mealPlan s)"
  using assms
  by (auto simp: updateNutritionForDay_def planKeys_setDayMealPlan split: sum.splits option.splits prod.splits)

lemma dayTotals_update [simp]: "dayTotals (meals (dp\<lparr>nutrition := n\<rparr>)) = dayTotals (meals dp)"
  by simp

lemma getDayMealPlan_updateNutritionForDays:
  "updateNutritionForDays ds s = Inr s' \<Longrightarrow>
   getDayMealPlan d' s' =
     (case getDayMealPlan d' s of
        Inl e \<Rightarrow> Inl e
      | Inr (w, None) \<Rightarrow> Inr (w, None)
      | Inr (w, Some dp) \<Rightarrow> Inr (w, Some (if d' \<in> set ds then dp\<lparr>nutrition := dayTotals (meals dp)\<rparr> else dp)))"
proof (induction ds arbitrary: s)
  case Nil
  then show ?case by (auto split: sum.splits option.splits prod.splits)
next
  case (Cons day days)
  from Cons.prems obtain s1 where s1: "updateNutritionForDay day s = Inr s1"
    and rest: "updateNutritionForDays days s1 = Inr s'"
    by (auto split: sum.splits)
  show ?case
    using Cons.IH [OF rest] getDayMealPlan_updateNutritionForDay [OF s1, of d']
    by (auto split: sum.splits option.splits prod.splits)
qed

lemma updateNutritionForDays_frame:
  "updateNutritionForDays ds s = Inr s' \<Longrightarrow>
   pantry s' = pantry s \<and> ingredientSearchResults s' = ingredientSearchResults s \<and>
   browseSearchResults s' = browseSearchResults s \<and> recipeBook s' = recipeBook s \<and>
   mealCalendarWeek s' = mealCalendarWeek s \<and> storedRecipeBook s' = storedRecipeBook s \<and>
   storedMealPlan s' = storedMealPlan s \<and> planKeys (mealPlan s') = planKeys (mealPlan s)"
proof (induction ds arbitrary: s)
  case Nil
  then show ?case by simp
next
  case (Cons day days)
  from Cons.prems obtain s1 where s1: "updateNutritionForDay day s = Inr s1"
    and rest: "updateNutritionForDays days s1 = Inr s'"
    by (auto split: sum.splits)
  show ?case
    using Cons.IH [OF rest] updateNutritionForDay_frame [OF s1] by simp
qed


lemma resolves_updateNutritionForDay:
  "updateNutritionForDay d s = Inr s' \<Longrightarrow> resolves d' s' = resolves d' s"
  using getDayMealPlan_updateNutritionForDay [of d s s' d']
  by (auto simp: resolves_def split: sum.splits option.splits prod.splits)

lemma updateNutritionForDays_total:
  "\<forall>d\<in>set ds. resolves d s \<Longrightarrow> \<exists>s'. updateNutritionForDays ds s = Inr s'"
proof (induction ds arbitrary: s)
  case Nil
  then show ?case by simp
next
  case (Cons day days)
  then obtain w dp where "getDayMealPlan day s = Inr (w, Some dp)"
    by (auto simp: resolves_def)
  then obtain s1 where s1: "updateNutritionForDay day s = Inr s1"
    using updateNutritionForDay_total by blast
  with Cons.prems have "\<forall>d\<in>set days. resolves d s1"
    by (simp add: resolves_updateNutritionForDay)
  from Cons.IH [OF this] s1 show ?case by simp
qed

lemma map_of_planKeys:
  "map_of (planKeys p) w = map_option (map fst) (map_of p w)"
  by (induction p) (auto simp: planKeys_def)

lemma wfMealPlan_iff:
  "wfMealPlan p = (\<forall>w week d dp. (w, week) \<in> set p \<longrightarrow> (d, dp) \<in> set week \<longrightarrow> getMondayOfTheWeek d = w)"
  unfolding wfMealPlan_def planKeys_def list_all_iff
  by (simp add: split_beta) fastforce

lemma wfMealPlanD:
  "wfMealPlan p \<Longrightarrow> map_of p w = Some week \<Longrightarrow> d \<in> fst ` set week \<Longrightarrow> getMondayOfTheWeek d = w"
  unfolding wfMealPlan_iff by (metis map_of_SomeD imageE prod.collapse)

lemma wf_resolves:
  assumes wf: "wfMealPlan (mealPlan s)" and wk: "map_of (mealPlan s) w = Some week"
    and d: "d \<in> fst ` set week"
  shows "resolves d s"
proof -
  have "getMondayOfTheWeek d = w" by (rule wfMealPlanD [OF wf wk d])
  moreover from d obtain dp where "map_of week d = Some dp"
    by (metis domD dom_map_of_conv_image_fst)
  ultimately show ?thesis using wk by (simp add: resolves_def getDayMealPlan_def)
qed

lemma updateNutritionForWeek_total:
  "wfMealPlan (mealPlan s) \<Longrightarrow> \<exists>s'. updateNutritionForWeek w s = Inr s'"
  by (auto simp: updateNutritionForWeek_def intro!: updateNutritionForDays_total wf_resolves split: option.splits)

lemma updateNutritionForWeek_frame:
  "updateNutritionForWeek w s = Inr s' \<Longrightarrow>
   pantry s' = pantry s \<and> ingredientSearchResults s' = ingredientSearchResults s \<and>
   browseSearchResults s' = browseSearchResults s \<and> recipeBook s' = recipeBook s \<and>
   mealCalendarWeek s' = mealCalendarWeek s \<and> storedRecipeBook s' = storedRecipeBook s \<and>
   storedMealPlan s' = storedMealPlan s \<and> planKeys (mealPlan s') = planKeys (mealPlan s)"
  by (auto simp: updateNutritionForWeek_def dest: updateNutritionForDays_frame split: option.splits)

text \<open>After the update of a week, the days of that week carry the totals of their meals.\<close>

lemma getDayMealPlan_updateNutritionForWeek:
  assumes "updateNutritionForWeek wk s = Inr s'" and "wfMealPlan (mealPlan s)"
  shows "getDayMealPlan d s' =
     (case getDayMealPlan d s of
        Inl e \<Rightarrow> Inl e
      | Inr (w, None) \<Rightarrow> Inr (w, None)
      | Inr (w, Some dp) \<Rightarrow> Inr (w, Some (if w = wk then dp\<lparr>nutrition := dayTotals (meals dp)\<rparr> else dp)))"
proof (cases "map_of (mealPlan s) wk")
  case None
  with assms have "s' = s" by (simp add: updateNutritionForWeek_def)
  moreover have "getDayMealPlan d s = Inr (w, x) \<Longrightarrow> w \<noteq> wk" for w x
    using None by (auto simp: getDayMealPlan_def Let_def split: option.splits)
  ultimately show ?thesis by (auto split: sum.splits option.splits prod.splits)
next
  case (Some week)
  with assms have upd: "updateNutritionForDays (map fst week) s = Inr s'"
    by (simp add: updateNutritionForWeek_def)
  have key: "getDayMealPlan d s = Inr (w, Some dp) \<Longrightarrow> (d \<in> set (map fst week)) = (w = wk)" for w dp
  proof -
    assume g: "getDayMealPlan d s = Inr (w, Some dp)"
    show ?thesis
    proof
      assume "d \<in> set (map fst week)"
      then have "d \<in> fst ` set week" by simp
      from wf_resolves [OF assms(2) Some this] obtain w' dp' where "getDayMealPlan d s = Inr (w', Some dp')"
        and "True" by (auto simp: resolves_def)
      moreover have "getMondayOfTheWeek d = wk"
        by (rule wfMealPlanD [OF assms(2) Some \<open>d \<in> fst ` set week\<close>])
      ultimately show "w = wk" using g by (auto simp: getDayMealPlan_def Let_def split: option.splits)
    next
      assume "w = wk"
      with g Some have "map_of week d = Some dp"
        by (auto simp: getDayMealPlan_def Let_def split: option.splits)
      then show "d \<in> set (map fst week)"
        by (metis map_of_SomeD fst_conv image_eqI set_map)
    qed
  qed
  show ?thesis
    using getDayMealPlan_updateNutritionForDays [OF upd, of d] key
    by (auto split: sum.splits option.splits prod.splits)
qed

lemma getDayMealPlan_cong: "mealPlan s' = mealPlan s \<Longrightarrow> getDayMealPlan d s' = getDayMealPlan d s"
  by (simp add: getDayMealPlan_def)

lemma getMealSlot_cong: "mealPlan s' = mealPlan s \<Longrightarrow> getMealSlot d m s' = getMealSlot d m s"
  by (simp add: getMealSlot_def getDayMealPlan_def)

lemma saveMealPlan_simps [simp]:
  "mealPlan (saveMealPlan s) = mealPlan s"
  "pantry (saveMealPlan s) = pantry s"
  "ingredientSearchResults (saveMealPlan s) = ingredientSearchResults s"
  "browseSearchResults (saveMealPlan s) = browseSearchResults s"
  "recipeBook (saveMealPlan s) = recipeBook s"
  "mealCalendarWeek (saveMealPlan s) = mealCalendarWeek s"
  "storedRecipeBook (saveMealPlan s) = storedRecipeBook s"
  "storedMealPlan (saveMealPlan s) = Some (deepCopyMealPlan (mealPlan s))"
  by (simp_all add: saveMealPlan_def)

lemma getMealSlot_saveMealPlan [simp]: "getMealSlot d m (saveMealPlan s) = getMealSlot d m s"
  by (rule getMealSlot_cong) simp

lemma getDayMealPlan_saveMealPlan [simp]: "getDayMealPlan d (saveMealPlan s) = getDayMealPlan d s"
  by (rule getDayMealPlan_cong) simp

lemma getMealSlot_updateNutritionForDays:
  "updateNutritionForDays ds s = Inr s' \<Longrightarrow> getMealSlot d m s' = getMealSlot d m s"
  using getDayMealPlan_updateNutritionForDays [of ds s s' d]
  by (auto simp: getMealSlot_def split: sum.splits option.splits prod.splits)

lemma getMealSlot_updateNutritionForWeek:
  "updateNutritionForWeek w s = Inr s' \<Longrightarrow> getMealSlot d m s' = getMealSlot d m s"
  by (auto simp: updateNutritionForWeek_def getMealSlot_updateNutritionForDays split: option.splits)

lemma wfMealPlan_cong: "planKeys p' = planKeys p \<Longrightarrow> wfMealPlan p' = wfMealPlan p"
  by (simp add: wfMealPlan_def)

lemma getMealSlot_resolved: "getDayMealPlan d s = Inr (w, Some dp) \<Longrightarrow> getMealSlot d m s = getMeals m (meals dp)"
  by (simp add: getMealSlot_def)

text \<open>What \<open>deleteRecipeFromMealPlan\<close> does to the slots, on a well-formed plan.\<close>

lemma deleteRecipeFromMealPlan_slots:
  assumes wf: "wfMealPlan (mealPlan s)" and day: "getDayMealPlan d s = Inr (wk, Some dp)"
  shows "\<exists>s'. deleteRecipeFromMealPlan rid d m s = Inr s' \<and>
           wfMealPlan (mealPlan s') \<and>
           (\<forall>d' m'. getMealSlot d' m' s' =
              (if d' = d \<and> m' = m
               then arraySplice (findIndex (hasId rid) (getMealSlot d m s)) 1 (getMealSlot d m s)
               else getMealSlot d' m' s)) \<and>
           pantry s' = pantry s \<and> ingredientSearchResults s' = ingredientSearchResults s \<and>
           browseSearchResults s' = browseSearchResults s \<and> recipeBook s' = recipeBook s \<and>
           storedRecipeBook s' = storedRecipeBook s"
proof -
  let ?slot = "getMeals m (meals dp)"
  let ?s1 = "setMealSlot d m (arraySplice (findIndex (hasId rid) ?slot) 1 ?slot) s"
  have wf1: "wfMealPlan (mealPlan ?s1)" using wf wfMealPlan_cong [OF planKeys_setMealSlot] by simp
  then obtain s2 where s2: "updateNutritionForWeek wk ?s1 = Inr s2"
    using updateNutritionForWeek_total by blast
  have del: "deleteRecipeFromMealPlan rid d m s = Inr (saveMealPlan s2)"
    using day s2 by (simp add: deleteRecipeFromMealPlan_def Let_def)
  have slot: "getMealSlot d m s = ?slot" using day by (rule getMealSlot_resolved)
  have ex: "\<exists>w dp. getDayMealPlan d s = Inr (w, Some dp)" using day by blast
  from updateNutritionForWeek_frame [OF s2] wf1
  have "wfMealPlan (mealPlan (saveMealPlan s2))" using wfMealPlan_cong [of "mealPlan s2" "mealPlan ?s1"] by simp
  moreover have "getMealSlot d' m' (saveMealPlan s2) =
      (if d' = d \<and> m' = m then arraySplice (findIndex (hasId rid) ?slot) 1 ?slot else getMealSlot d' m' s)" for d' m'
    using getMealSlot_updateNutritionForWeek [OF s2, of d' m'] ex
    by (simp add: getMealSlot_setMealSlot)
  ultimately show ?thesis
    using del slot updateNutritionForWeek_frame [OF s2] by simp
qed

lemma removeRecipeFromBook_book:
  "recipeBook (removeRecipeFromBook rid s) = arraySplice (findIndex (hasId rid) (recipeBook s)) 1 (recipeBook s)"
  by (simp add: removeRecipeFromBook_def saveRecipeBook_def Let_def)

text \<open>
  C9: for a recipe id that no entry of a meal slot has, \<open>deleteRecipeFromMealPlan\<close> removes the
  last entry of the slot (\<open>findIndex\<close> gives \<open>-1\<close>, which \<open>splice\<close> counts from the end), and
  \<open>removeRecipeFromBook\<close> does the same to the recipe book; an empty list stays empty
  (\<open>butlast [] = []\<close>).
\<close>

theorem delete_of_absent_id_removes_last_entry:
  assumes "wfMealPlan (mealPlan s)"
    and "getDayMealPlan d s = Inr (wk, Some dp)"
    and "\<forall>r\<in>set (getMeals m (meals dp)). \<not> hasId rid r"
    and "\<forall>r\<in>set (recipeBook s). \<not> hasId rid' r"
  shows "(\<exists>s'. deleteRecipeFromMealPlan rid d m s = Inr s' \<and>
               getMealSlot d m s' = butlast (getMeals m (meals dp)) \<and>
               (getMeals m (meals dp) = [] \<longrightarrow> getMealSlot d m s' = [])) \<and>
         recipeBook (removeRecipeFromBook rid' s) = butlast (recipeBook s) \<and>
         (recipeBook s = [] \<longrightarrow> recipeBook (removeRecipeFromBook rid' s) = [])"
proof -
  from deleteRecipeFromMealPlan_slots [OF assms(1,2), of rid m]
  obtain s' where del: "deleteRecipeFromMealPlan rid d m s = Inr s'"
    and slot: "getMealSlot d m s' = arraySplice (findIndex (hasId rid) (getMealSlot d m s)) 1 (getMealSlot d m s)"
    by auto
  have "getMealSlot d m s = getMeals m (meals dp)" using assms(2) by (rule getMealSlot_resolved)
  with slot assms(3) have "getMealSlot d m s' = butlast (getMeals m (meals dp))"
    by (simp add: findIndex_none arraySplice_last)
  moreover have "recipeBook (removeRecipeFromBook rid' s) = butlast (recipeBook s)"
    using assms(4) by (simp add: removeRecipeFromBook_book findIndex_none arraySplice_last)
  ultimately show ?thesis using del by auto
qed

lemma wf_plannedState: "wfMealPlan (mealPlan plannedState)"
  by (simp add: plannedState_def wfMealPlan_def planKeys_def createWeeklyMealPlan_def getMondayOfTheWeek_def)

lemma monday_plannedState:
  "getDayMealPlan 20108 plannedState =
     Inr (20108, Some \<lparr>meals = \<lparr>breakfast = [], lunch = [pasta, salad], snacks = [], dinner = [leftovers]\<rparr>,
                       nutrition = zeroNutrition\<rparr>)"
  by (simp add: plannedState_def getDayMealPlan_def getMondayOfTheWeek_def)

theorem delete_of_absent_id_removes_last_entry_witness:
  "(\<exists>s'. deleteRecipeFromMealPlan (Num (Fin 99)) 20108 Lunch plannedState = Inr s' \<and>
         getMealSlot 20108 Lunch s' = [pasta]) \<and>
   recipeBook (removeRecipeFromBook (Num (Fin 99)) plannedState) = []"
proof -
  have ids: "\<not> hasId (Num (Fin 99)) pasta" "\<not> hasId (Num (Fin 99)) salad"
    "\<not> hasId (Num (Fin 99)) (pasta\<lparr>isBookmarked := True\<rparr>)"
    by (simp_all add: hasId_def strictEq_def pasta_def salad_def)
  have book: "recipeBook plannedState = [pasta\<lparr>isBookmarked := True\<rparr>]"
    by (simp add: plannedState_def)
  show ?thesis
    using delete_of_absent_id_removes_last_entry [OF wf_plannedState monday_plannedState,
        of Lunch "Num (Fin 99)" "Num (Fin 99)"] ids book
    by simp
qed

section \<open>Servings adjustment\<close>

lemma getNutrient_setNutrient:
  "getNutrient m (setNutrient n v r) = (if m = n then v else getNutrient m r)"
  by (cases n; cases m) simp_all

lemma setNutrient_fields [simp]:
  "recipeId (setNutrient n v r) = recipeId r"
  "servings (setNutrient n v r) = servings r"
  "ingredients (setNutrient n v r) = ingredients r"
  "isBookmarked (setNutrient n v r) = isBookmarked r"
  "origin (setNutrient n v r) = origin r"
  by (cases n; simp)+

lemma foldl_setNutrient_fields:
  "recipeId (foldl (\<lambda>r n. if c r n then setNutrient n (f r n) r else r) r ns) = recipeId r \<and>
   servings (foldl (\<lambda>r n. if c r n then setNutrient n (f r n) r else r) r ns) = servings r \<and>
   ingredients (foldl (\<lambda>r n. if c r n then setNutrient n (f r n) r else r) r ns) = ingredients r \<and>
   isBookmarked (foldl (\<lambda>r n. if c r n then setNutrient n (f r n) r else r) r ns) = isBookmarked r \<and>
   origin (foldl (\<lambda>r n. if c r n then setNutrient n (f r n) r else r) r ns) = origin r"
  by (induction ns arbitrary: r) simp_all

lemma distinct_RECIPE_NUTRIENTS: "distinct RECIPE_NUTRIENTS"
  by (simp add: RECIPE_NUTRIENTS_def)

lemma set_RECIPE_NUTRIENTS: "n \<in> set RECIPE_NUTRIENTS"
  by (cases n) (simp_all add: RECIPE_NUTRIENTS_def)

lemma getNutrient_scale_fold:
  "distinct ns \<Longrightarrow>
   getNutrient m (foldl (\<lambda>r n. if isFinite (getNutrient n r)
                                then setNutrient n (js_times (getNutrient n r) ratio) r else r) r ns) =
     (if m \<in> set ns then scaleNutrient ratio (getNutrient m r) else getNutrient m r)"
proof (induction ns arbitrary: r)
  case Nil
  then show ?case by simp
next
  case (Cons n ns)
  then show ?case
    by (auto simp: getNutrient_setNutrient scaleNutrient_def)
qed

lemma getNutrient_updateNutrientQuantities:
  "getNutrient m (updateNutrientQuantities r ratio) = scaleNutrient ratio (getNutrient m r)"
  unfolding updateNutrientQuantities_def
  by (simp add: getNutrient_scale_fold [OF distinct_RECIPE_NUTRIENTS] set_RECIPE_NUTRIENTS)

lemma updateNutrientQuantities_fields [simp]:
  "recipeId (updateNutrientQuantities r ratio) = recipeId r"
  "servings (updateNutrientQuantities r ratio) = servings r"
  "ingredients (updateNutrientQuantities r ratio) = ingredients r"
  "isBookmarked (updateNutrientQuantities r ratio) = isBookmarked r"
  "origin (updateNutrientQuantities r ratio) = origin r"
  unfolding updateNutrientQuantities_def
  using foldl_setNutrient_fields [of "\<lambda>r n. isFinite (getNutrient n r)" "\<lambda>r n. js_times (getNutrient n r) ratio" r RECIPE_NUTRIENTS]
  by simp_all

lemma getNutrient_copy_fold:
  "distinct ns \<Longrightarrow>
   getNutrient m (foldl (\<lambda>r n. setNutrient n (getNutrient n u) r) r ns) =
     (if m \<in> set ns then getNutrient m u else getNutrient m r)"
  by (induction ns arbitrary: r) (auto simp: getNutrient_setNutrient)

lemma copy_fold_fields:
  "recipeId (foldl (\<lambda>r n. setNutrient n (g n) r) r ns) = recipeId r \<and>
   servings (foldl (\<lambda>r n. setNutrient n (g n) r) r ns) = servings r \<and>
   ingredients (foldl (\<lambda>r n. setNutrient n (g n) r) r ns) = ingredients r \<and>
   isBookmarked (foldl (\<lambda>r n. setNutrient n (g n) r) r ns) = isBookmarked r \<and>
   origin (foldl (\<lambda>r n. setNutrient n (g n) r) r ns) = origin r"
  by (induction ns arbitrary: r) simp_all

lemma updateProperties_fields [simp]:
  "recipeId (updateProperties r u) = recipeId r"
  "servings (updateProperties r u) = servings u"
  "ingredients (updateProperties r u) = deepCopyIngredients (ingredients u)"
  "isBookmarked (updateProperties r u) = isBookmarked r"
  "origin (updateProperties r u) = origin r"
  "getNutrient m (updateProperties r u) = getNutrient m u"
  unfolding updateProperties_def
  using copy_fold_fields [of "\<lambda>n. getNutrient n u" "r\<lparr>servings := servings u, ingredients := deepCopyIngredients (ingredients u)\<rparr>" RECIPE_NUTRIENTS]
  by (simp_all add: getNutrient_copy_fold [OF distinct_RECIPE_NUTRIENTS] set_RECIPE_NUTRIENTS)

lemma getNutrient_updatePercentDV [simp]: "getNutrient m (updatePercentDV r) = getNutrient m r"
  by (cases m) (simp_all add: updatePercentDV_def)

lemma getNutrient_servings_update [simp]: "getNutrient m (r\<lparr>servings := v\<rparr>) = getNutrient m r"
  by (cases m) simp_all

lemma getNutrient_ingredients_update [simp]: "getNutrient m (r\<lparr>ingredients := v\<rparr>) = getNutrient m r"
  by (cases m) simp_all

lemma adjustedRecipe_fields [simp]:
  "recipeId (adjustedRecipe r c scaled) = recipeId r"
  "servings (adjustedRecipe r c scaled) = c"
  "ingredients (adjustedRecipe r c scaled) = scaled"
  "isBookmarked (adjustedRecipe r c scaled) = isBookmarked r"
  "origin (adjustedRecipe r c scaled) = origin r"
  "getNutrient m (adjustedRecipe r c scaled) = scaleNutrient (js_divide c (servings r)) (getNutrient m r)"
  by (simp_all add: adjustedRecipe_def updatePercentDV_def getNutrient_updateNutrientQuantities
      getNutrient_updatePercentDV [unfolded updatePercentDV_def])

lemma adjustServings_eq:
  assumes "getRecipe rid opts s = Inr (Some recipe)"
  shows "adjustServings rid oper opts newServings s =
     (let c = calculateUpdatedServings (servings recipe) oper newServings
      in if \<not> isValidServings c then Inr s
         else (case updateIngredientQuantities (ingredients recipe) (js_divide c (servings recipe)) of
                 Inl e \<Rightarrow> Inl e
               | Inr scaled \<Rightarrow>
                   Inr (if source opts \<noteq> MealPlan
                        then synchronizeRecipeInstances (adjustedRecipe recipe c scaled)
                               (putRecipe rid opts (adjustedRecipe recipe c scaled) s)
                        else putRecipe rid opts (adjustedRecipe recipe c scaled) s)))"
  using assms by (simp add: adjustServings_def adjustedRecipe_def Let_def split: sum.splits)

lemma find_updateFirst:
  "find P xs = Some x \<Longrightarrow> P y \<Longrightarrow> find P (updateFirst P (\<lambda>_. y) xs) = Some y"
  by (induction xs) (auto split: if_splits)

lemma find_map_preserving:
  "(\<And>x. P (f x) = P x) \<Longrightarrow> find P (map f xs) = map_option f (find P xs)"
  by (induction xs) auto

lemma length_updateFirst [simp]: "length (updateFirst P f xs) = length xs"
  by (induction xs) auto

lemma nth_updateFirst:
  "j < length xs \<Longrightarrow> int j \<noteq> findIndex P xs \<Longrightarrow> updateFirst P f xs ! j = xs ! j"
proof (induction xs arbitrary: j)
  case Nil
  then show ?case by simp
next
  case (Cons a xs)
  show ?case
  proof (cases "P a")
    case True
    with Cons.prems show ?thesis by (cases j) auto
  next
    case False
    show ?thesis
    proof (cases j)
      case 0
      with False show ?thesis by simp
    next
      case (Suc k)
      with Cons.prems False have "k < length xs" "int k \<noteq> findIndex P xs"
        using findIndex_ge [of P xs] by (auto simp: Let_def split: if_splits)
      with Cons.IH Suc False show ?thesis by simp
    qed
  qed
qed

lemma updateFirst_same: "find P xs = Some x \<Longrightarrow> updateFirst P (\<lambda>_. x) xs = xs"
  by (induction xs) (auto split: if_splits)

lemma updateFirst_none: "find P xs = None \<Longrightarrow> updateFirst P f xs = xs"
  by (induction xs) (auto split: if_splits)

lemma hasId_self: "hasId rid r \<Longrightarrow> hasId (recipeId r) r' = hasId rid r'"
  by (auto simp: hasId_def strictEq_def)

lemma hasId_recipeId: "hasId rid r \<Longrightarrow> recipeId r = rid"
  by (auto simp: hasId_def strictEq_def)

lemma hasId_cong: "recipeId r' = recipeId r \<Longrightarrow> hasId rid r' = hasId rid r"
  by (simp add: hasId_def)

text \<open>Where \<open>getRecipe\<close> finds an entity.\<close>

lemma getRecipe_cases:
  assumes "getRecipe rid opts s = Inr (Some recipe)"
  obtains (plan) d m w dp where "source opts = MealPlan" "currentDate opts = Some d" "currentMeal opts = Some m"
      "getDayMealPlan d s = Inr (w, Some dp)" "find (hasId rid) (getMealSlot d m s) = Some recipe"
  | (browse) rs where "source opts \<noteq> MealPlan" "getSourceArray (source opts) s = Some rs"
      "find (hasId rid) rs = Some recipe"
proof (cases "source opts = MealPlan \<and> currentDate opts \<noteq> None \<and> currentMeal opts \<noteq> None")
  case True
  then obtain d m where dm: "source opts = MealPlan" "currentDate opts = Some d" "currentMeal opts = Some m"
    by auto
  with assms have "getRecipeFromMealPlan rid d m s = Inr (Some recipe)"
    by (simp add: getRecipe_def)
  then obtain w dp where "getDayMealPlan d s = Inr (w, Some dp)"
      "find (hasId rid) (getMeals m (meals dp)) = Some recipe"
    by (auto simp: getRecipeFromMealPlan_def split: sum.splits option.splits prod.splits)
  then show ?thesis using dm plan by (simp add: getMealSlot_def)
next
  case False
  with assms have b: "getRecipeFromBrowse rid (source opts) s = Inr (Some recipe)"
    by (auto simp: getRecipe_def split: source.splits option.splits)
  then obtain rs where "getSourceArray (source opts) s = Some rs" "find (hasId rid) rs = Some recipe"
    by (auto simp: getRecipeFromBrowse_def split: option.splits)
  moreover from this have "source opts \<noteq> MealPlan" by (auto simp: getSourceArray_def)
  ultimately show ?thesis using browse by blast
qed

lemma getRecipe_plan:
  "source opts = MealPlan \<Longrightarrow> currentDate opts = Some d \<Longrightarrow> currentMeal opts = Some m \<Longrightarrow>
   getDayMealPlan d s = Inr (w, Some dp) \<Longrightarrow>
   getRecipe rid opts s = Inr (find (hasId rid) (getMealSlot d m s))"
  by (simp add: getRecipe_def getRecipeFromMealPlan_def getMealSlot_def)

lemma getRecipe_browse:
  "source opts \<noteq> MealPlan \<Longrightarrow> getSourceArray (source opts) s = Some rs \<Longrightarrow>
   getRecipe rid opts s = Inr (find (hasId rid) rs)"
  by (auto simp: getRecipe_def getRecipeFromBrowse_def split: source.splits option.splits)

lemma putRecipe_plan:
  "source opts = MealPlan \<Longrightarrow> currentDate opts = Some d \<Longrightarrow> currentMeal opts = Some m \<Longrightarrow>
   putRecipe rid opts r s = setMealSlot d m (updateFirst (hasId rid) (\<lambda>_. r) (getMealSlot d m s)) s"
  by (simp add: putRecipe_def)

lemma putRecipe_browse:
  "source opts \<noteq> MealPlan \<Longrightarrow> getSourceArray (source opts) s = Some rs \<Longrightarrow>
   putRecipe rid opts r s = setSourceArray (source opts) (updateFirst (hasId rid) (\<lambda>_. r) rs) s"
  by (auto simp: putRecipe_def split: source.splits option.splits)

lemma getSourceArray_setSourceArray:
  "src \<noteq> MealPlan \<Longrightarrow> getSourceArray src' (setSourceArray src rs s) =
     (if src' = src then Some rs else getSourceArray src' s)"
  by (cases src; cases src') (simp_all add: getSourceArray_def setSourceArray_def)

lemma setSourceArray_fields [simp]:
  "mealPlan (setSourceArray src rs s) = mealPlan s"
  "pantry (setSourceArray src rs s) = pantry s"
  "mealCalendarWeek (setSourceArray src rs s) = mealCalendarWeek s"
  "storedRecipeBook (setSourceArray src rs s) = storedRecipeBook s"
  "storedMealPlan (setSourceArray src rs s) = storedMealPlan s"
  by (cases src; simp add: setSourceArray_def)+

lemma synchronizeRecipeInstances_fields [simp]:
  "mealPlan (synchronizeRecipeInstances u s) = mealPlan s"
  "pantry (synchronizeRecipeInstances u s) = pantry s"
  "mealCalendarWeek (synchronizeRecipeInstances u s) = mealCalendarWeek s"
  "storedRecipeBook (synchronizeRecipeInstances u s) = storedRecipeBook s"
  "storedMealPlan (synchronizeRecipeInstances u s) = storedMealPlan s"
  by (simp_all add: synchronizeRecipeInstances_def Let_def)

lemma getSourceArray_synchronizeRecipeInstances:
  "getSourceArray src (synchronizeRecipeInstances u s) =
     map_option (map (\<lambda>recipe. if hasId (recipeId u) recipe then updateProperties recipe u else recipe))
       (getSourceArray src s)"
  by (cases src) (simp_all add: getSourceArray_def synchronizeRecipeInstances_def Let_def)

text \<open>The adjusted entity is where the lookup finds it again.\<close>

lemma getRecipe_after_adjust:
  assumes g: "getRecipe rid opts s = Inr (Some recipe)"
    and id: "recipeId u = recipeId recipe"
  defines "s1 \<equiv> putRecipe rid opts u s"
  shows "getRecipe rid opts (if source opts \<noteq> MealPlan then synchronizeRecipeInstances u s1 else s1) =
     Inr (Some (if source opts \<noteq> MealPlan then updateProperties u u else u))"
  using g
proof (cases rule: getRecipe_cases)
  case (plan d m w dp)
  have hu: "hasId rid u" using plan(5) id by (auto simp: find_Some_iff hasId_def)
  have "getDayMealPlan d s1 = Inr (w, Some (dp\<lparr>meals := setMeals m (updateFirst (hasId rid) (\<lambda>_. u) (getMealSlot d m s)) (meals dp)\<rparr>))"
    using plan by (simp add: s1_def putRecipe_plan getDayMealPlan_setMealSlot)
  moreover have "getMealSlot d m s1 = updateFirst (hasId rid) (\<lambda>_. u) (getMealSlot d m s)"
    using plan by (auto simp: s1_def putRecipe_plan getMealSlot_setMealSlot)
  ultimately show ?thesis
    using plan hu getRecipe_plan [OF plan(1,2,3), of s1] by (simp add: find_updateFirst)
next
  case (browse rs)
  have hu: "hasId rid u" using browse(3) id by (auto simp: find_Some_iff hasId_def)
  have self: "hasId (recipeId u) r' = hasId rid r'" for r' using hu by (rule hasId_self)
  have "getSourceArray (source opts) (synchronizeRecipeInstances u s1) =
      Some (map (\<lambda>recipe. if hasId rid recipe then updateProperties recipe u else recipe)
             (updateFirst (hasId rid) (\<lambda>_. u) rs))"
    using browse by (simp add: s1_def putRecipe_browse getSourceArray_synchronizeRecipeInstances
        getSourceArray_setSourceArray self)
  moreover have "find (hasId rid) (map (\<lambda>recipe. if hasId rid recipe then updateProperties recipe u else recipe)
             (updateFirst (hasId rid) (\<lambda>_. u) rs)) = Some (updateProperties u u)"
    using browse(3) hu
    by (subst find_map_preserving) (auto simp: hasId_def find_updateFirst)
  ultimately show ?thesis
    using browse getRecipe_browse [OF browse(1), of "synchronizeRecipeInstances u s1"] by simp
qed

lemma isValidServings_Fin: "isValidServings (Num (Fin q)) = (1 \<le> q \<and> q \<le> 50)"
  by (auto simp: isValidServings_def js_less_def)

lemma isValidServings_Num:
  "n \<noteq> NaN \<Longrightarrow> isValidServings (Num n) = (\<not> (num_lt n (Fin 1) \<or> num_lt (Fin 50) n))"
  by (simp add: isValidServings_def js_less_def)

lemma isValidServings_NaN: "isValidServings (Num NaN)"
  by (simp add: isValidServings_def js_less_def)

lemma in_range_Fin:
  "n \<noteq> NaN \<Longrightarrow> \<not> (num_lt n (Fin 1) \<or> num_lt (Fin 50) n) \<Longrightarrow> \<exists>q. n = Fin q \<and> 1 \<le> q \<and> q \<le> 50"
  by (cases n) auto

lemma stringToNumber_Unavailable: "stringToNumber ''Unavailable'' = NaN"
  by (simp add: stringToNumber_def trim_def isWhiteSpace_def parseDecimal_def isDigitOf_def digitValue_def)

lemma stringToNumber_abc: "stringToNumber ''abc'' = NaN"
  by (simp add: stringToNumber_def trim_def isWhiteSpace_def parseDecimal_def isDigitOf_def digitValue_def)

lemma getRecipe_leftovers:
  "getRecipe (recipeId leftovers) (inPlan 20108 Dinner) plannedState = Inr (Some leftovers)"
  by (simp add: getRecipe_def inPlan_def getRecipeFromMealPlan_def getDayMealPlan_def plannedState_def
      getMondayOfTheWeek_def hasId_def strictEq_def leftovers_def createCustomRecipeObject_def)

lemma getRecipe_book_pasta:
  "getRecipe (Num (Fin 42)) inBook plannedState = Inr (Some (pasta\<lparr>isBookmarked := True\<rparr>))"
  by (simp add: getRecipe_def inBook_def getRecipeFromBrowse_def getSourceArray_def plannedState_def
      hasId_def strictEq_def pasta_def)

lemma inBook_source: "source inBook = RecipeBook"
  by (simp add: inBook_def)

text \<open>
  For a recipe that has an ingredient list and a computed serving count that is a number
  other than \<open>NaN\<close>: a count outside [1, 50] makes \<open>adjustServings\<close> return normally with
  the state, hence the entity, exactly as it was; any other count is written as the servings of
  the entity and lies in [1, 50].
\<close>

lemma adjustServings_checked_count:
  assumes "getRecipe rid opts s = Inr (Some recipe)"
    and "calculateUpdatedServings (servings recipe) oper newServings = Num n"
    and "n \<noteq> NaN"
    and "ingredients recipe = Items is"
  shows "(num_lt n (Fin 1) \<or> num_lt (Fin 50) n \<longrightarrow>
            adjustServings rid oper opts newServings s = Inr s) \<and>
         (\<not> (num_lt n (Fin 1) \<or> num_lt (Fin 50) n) \<longrightarrow>
            (\<exists>s' r' q. adjustServings rid oper opts newServings s = Inr s' \<and>
               getRecipe rid opts s' = Inr (Some r') \<and>
               servings r' = Num (Fin q) \<and> n = Fin q \<and> 1 \<le> q \<and> q \<le> 50))"
proof (intro conjI impI)
  assume "num_lt n (Fin 1) \<or> num_lt (Fin 50) n"
  then show "adjustServings rid oper opts newServings s = Inr s"
    using assms by (simp add: adjustServings_eq [OF assms(1)] isValidServings_Num Let_def)
next
  assume inr: "\<not> (num_lt n (Fin 1) \<or> num_lt (Fin 50) n)"
  then obtain q where q: "n = Fin q" "1 \<le> q" "q \<le> 50"
    using in_range_Fin [OF assms(3)] by blast
  obtain scaled where sc: "updateIngredientQuantities (ingredients recipe) (js_divide (Num n) (servings recipe)) = Inr scaled"
    using assms(4) by simp
  let ?u = "adjustedRecipe recipe (Num n) scaled"
  let ?s1 = "putRecipe rid opts ?u s"
  let ?s' = "if source opts \<noteq> MealPlan then synchronizeRecipeInstances ?u ?s1 else ?s1"
  have "adjustServings rid oper opts newServings s = Inr ?s'"
    using inr assms(2,3) sc by (simp add: adjustServings_eq [OF assms(1)] isValidServings_Num Let_def)
  moreover have "getRecipe rid opts ?s' = Inr (Some (if source opts \<noteq> MealPlan then updateProperties ?u ?u else ?u))"
    by (rule getRecipe_after_adjust [OF assms(1)]) simp
  moreover have "servings (if source opts \<noteq> MealPlan then updateProperties ?u ?u else ?u) = Num (Fin q)"
    using q by simp
  ultimately show "\<exists>s' r' q. adjustServings rid oper opts newServings s = Inr s' \<and>
               getRecipe rid opts s' = Inr (Some r') \<and>
               servings r' = Num (Fin q) \<and> n = Fin q \<and> 1 \<le> q \<and> q \<le> 50"
    using q by blast
qed

lemma adjustServings_checked_count_example:
  "adjustServings (Num (Fin 42)) None inBook (Num (Fin 51)) plannedState = Inr plannedState \<and>
   (\<exists>s' r'. adjustServings (Num (Fin 42)) (Some ''increaseServings'') inBook Null plannedState = Inr s' \<and>
       getRecipe (Num (Fin 42)) inBook s' = Inr (Some r') \<and> servings r' = Num (Fin 3))"
proof -
  let ?r = "pasta\<lparr>isBookmarked := True\<rparr>"
  have ing: "ingredients ?r = Items
        [\<lparr>ingredientText = ''8 oz spaghetti'', quantity = Num (Fin 8), unit = ''oz'',
          name = ''spaghetti'', category = ''Pasta and Rice'', availability = None\<rparr>,
         \<lparr>ingredientText = ''3 cloves garlic'', quantity = Num (Fin 3), unit = ''cloves'',
          name = ''garlic'', category = ''Produce'', availability = None\<rparr>]"
    by (simp add: pasta_def)
  have c1: "calculateUpdatedServings (servings ?r) None (Num (Fin 51)) = Num (Fin 51)"
    by (simp add: calculateUpdatedServings_def)
  have c2: "calculateUpdatedServings (servings ?r) (Some ''increaseServings'') Null = Num (Fin 3)"
    by (simp add: calculateUpdatedServings_def pasta_def)
  from adjustServings_checked_count [OF getRecipe_book_pasta c1 _ ing]
  have "adjustServings (Num (Fin 42)) None inBook (Num (Fin 51)) plannedState = Inr plannedState"
    by simp
  moreover from adjustServings_checked_count [OF getRecipe_book_pasta c2 _ ing]
  have "\<exists>s' r'. adjustServings (Num (Fin 42)) (Some ''increaseServings'') inBook Null plannedState = Inr s' \<and>
       getRecipe (Num (Fin 42)) inBook s' = Inr (Some r') \<and> servings r' = Num (Fin 3)"
    by simp
  ultimately show ?thesis by simp
qed

text \<open>
  C2 at the override \<open>"abc"\<close> for the bookmarked pasta: \<open>+"abc"\<close> is \<open>NaN\<close>, both
  comparisons of \<open>isValidServings\<close> are false for it, so the count is accepted. \<open>NaN\<close> is
  written as the servings of the entity; its ingredient quantities become \<open>NaN\<close> and are
  \<open>null\<close> after the copy that \<open>updateProperties\<close> makes of them.
\<close>

theorem nan_count_passes_isValidServings:
  "observe bookServingsAndQuantities
     (adjustServings (Num (Fin 42)) None inBook (Str ''abc'') plannedState)
   = Inr ([Num NaN], [[Null, Null]])"
proof -
  let ?r = "pasta\<lparr>isBookmarked := True\<rparr>"
  let ?scaled = "Items
        [\<lparr>ingredientText = ''8 oz spaghetti'', quantity = Num NaN, unit = ''oz'',
          name = ''spaghetti'', category = ''Pasta and Rice'', availability = None\<rparr>,
         \<lparr>ingredientText = ''3 cloves garlic'', quantity = Num NaN, unit = ''cloves'',
          name = ''garlic'', category = ''Produce'', availability = None\<rparr>]"
  have c: "calculateUpdatedServings (servings ?r) None (Str ''abc'') = Num NaN"
    by (simp add: calculateUpdatedServings_def stringToNumber_abc)
  have sc: "updateIngredientQuantities (ingredients ?r) (js_divide (Num NaN) (servings ?r)) = Inr ?scaled"
    by (simp add: pasta_def js_divide_def js_times_def)
  let ?u = "adjustedRecipe ?r (Num NaN) ?scaled"
  have adj: "adjustServings (Num (Fin 42)) None inBook (Str ''abc'') plannedState =
      Inr (synchronizeRecipeInstances ?u (putRecipe (Num (Fin 42)) inBook ?u plannedState))"
    using c sc by (simp add: adjustServings_eq [OF getRecipe_book_pasta] isValidServings_NaN Let_def inBook_source)
  have put: "recipeBook (putRecipe (Num (Fin 42)) inBook ?u plannedState) = [?u]"
    by (simp add: putRecipe_def inBook_def getSourceArray_def setSourceArray_def plannedState_def
        hasId_def strictEq_def pasta_def)
  have "hasId (recipeId ?u) ?u" by (simp add: hasId_def strictEq_def pasta_def)
  then have "recipeBook (synchronizeRecipeInstances ?u (putRecipe (Num (Fin 42)) inBook ?u plannedState))
      = [updateProperties ?u ?u]"
    by (simp add: synchronizeRecipeInstances_def Let_def put)
  then show ?thesis
    by (simp add: adj observe_def bookServingsAndQuantities_def bookServings_def bookQuantities_def
        quantities_def deepCopyIngredient_def)
qed

lemma js_divide_Fin: "b \<noteq> 0 \<Longrightarrow> js_divide (Num (Fin a)) (Num (Fin b)) = Num (toDouble (a / b))"
  by (simp add: js_divide_def)

lemma js_times_Fin: "js_times (Num (Fin a)) (Num (Fin b)) = Num (toDouble (a * b))"
  by (simp add: js_times_def)

lemma scaleNutrient_finite: "isFinite v \<Longrightarrow> scaleNutrient k v = js_times v k"
  by (simp add: scaleNutrient_def)

lemma scaleNutrient_other: "\<not> isFinite v \<Longrightarrow> scaleNutrient k v = v"
  by (simp add: scaleNutrient_def)

lemma jsonVal_finite: "isFinite v \<Longrightarrow> jsonVal v = v"
  by (cases v rule: isFinite.cases) simp_all

lemma deepCopyIngredients_finite:
  "\<forall>i\<in>set is. isFinite (quantity i) \<Longrightarrow> deepCopyIngredients (Items is) = Items is"
  by (auto simp: deepCopyIngredient_def jsonVal_finite intro!: map_idI)

lemma moderate_finite: "moderate v \<Longrightarrow> isFinite v"
  by (auto simp: moderate_def split: jsval.splits jsnum.splits)

text \<open>
  One accepted adjustment from \<open>a\<close> servings to \<open>b\<close>, of a recipe whose scaled quantities
  are finite: every quantity and every finite nutrient is multiplied by the rounded ratio.
\<close>

lemma adjustServings_scaled:
  assumes g: "getRecipe rid opts s = Inr (Some recipe)"
    and a: "servings recipe = Num (Fin a)" "a \<noteq> 0"
    and c: "calculateUpdatedServings (Num (Fin a)) oper nv = Num (Fin b)" "1 \<le> b" "b \<le> 50"
    and ing: "ingredients recipe = Items is"
      "\<forall>i\<in>set is. isFinite (js_times (quantity i) (Num (toDouble (b / a))))"
  shows "\<exists>s1 u. adjustServings rid oper opts nv s = Inr s1 \<and>
           getRecipe rid opts s1 = Inr (Some u) \<and>
           servings u = Num (Fin b) \<and>
           ingredients u = Items (map (\<lambda>i. i\<lparr>quantity := js_times (quantity i) (Num (toDouble (b / a)))\<rparr>) is) \<and>
           (\<forall>n. getNutrient n u = scaleNutrient (Num (toDouble (b / a))) (getNutrient n recipe))"
proof -
  let ?k = "Num (toDouble (b / a))"
  let ?scaled = "Items (map (\<lambda>i. i\<lparr>quantity := js_times (quantity i) ?k\<rparr>) is)"
  let ?v = "adjustedRecipe recipe (Num (Fin b)) ?scaled"
  let ?s0 = "putRecipe rid opts ?v s"
  let ?s1 = "if source opts \<noteq> MealPlan then synchronizeRecipeInstances ?v ?s0 else ?s0"
  let ?u = "if source opts \<noteq> MealPlan then updateProperties ?v ?v else ?v"
  have fin: "\<forall>i\<in>set (map (\<lambda>i. i\<lparr>quantity := js_times (quantity i) ?k\<rparr>) is). isFinite (quantity i)"
    using ing(2) by auto
  have "adjustServings rid oper opts nv s = Inr ?s1"
    using a c ing(1) by (simp add: adjustServings_eq [OF g] isValidServings_Fin Let_def js_divide_Fin)
  moreover have "getRecipe rid opts ?s1 = Inr (Some ?u)"
    by (rule getRecipe_after_adjust [OF g]) simp
  moreover have "servings ?u = Num (Fin b)" by simp
  moreover have "ingredients ?u = ?scaled"
    using deepCopyIngredients_finite [OF fin] by simp
  moreover have "\<forall>n. getNutrient n ?u = scaleNutrient ?k (getNutrient n recipe)"
    using a by (simp add: js_divide_Fin)
  ultimately show ?thesis by blast
qed

text \<open>
  A value of moderate size, scaled by the rounded ratio of two serving counts and then by the
  rounded inverse ratio.
\<close>

lemma round_trip_value:
  assumes a: "1 \<le> a" "a \<le> 50" and b: "1 \<le> b" "b \<le> 50" and v: "moderate v"
  shows "isFinite (js_times v (Num (toDouble (b / a)))) \<and>
         isFinite (js_times (js_times v (Num (toDouble (b / a)))) (Num (toDouble (a / b)))) \<and>
         near v (js_times (js_times v (Num (toDouble (b / a)))) (Num (toDouble (a / b))))"
proof -
  from v obtain q where q: "v = Num (Fin q)"
    and size: "q = 0 \<or> (2 powi (- 1000) \<le> \<bar>q\<bar> \<and> \<bar>q\<bar> \<le> 2 powi 1000)"
    by (auto simp: moderate_def split: jsval.splits jsnum.splits)
  from ratio_rounded [OF a b] obtain k1 d1 where k1: "toDouble (b / a) = Fin k1"
    and e1: "k1 = b / a * (1 + d1)" and d1: "\<bar>d1\<bar> \<le> 2 powi (- 53)"
    and r1: "2 powi (- 7) \<le> \<bar>k1\<bar>" "\<bar>k1\<bar> \<le> 2 powi 7"
    by blast
  from ratio_rounded [OF b a] obtain k2 d3 where k2: "toDouble (a / b) = Fin k2"
    and e3: "k2 = a / b * (1 + d3)" and d3: "\<bar>d3\<bar> \<le> 2 powi (- 53)"
    and r2: "2 powi (- 7) \<le> \<bar>k2\<bar>" "\<bar>k2\<bar> \<le> 2 powi 7"
    by blast
  show ?thesis
  proof (cases "q = 0")
    case True
    then show ?thesis by (simp add: q k1 k2 js_times_Fin near_def)
  next
    case False
    with size have sz: "2 powi (- 1000) \<le> \<bar>q\<bar>" "\<bar>q\<bar> \<le> 2 powi 1000" by simp_all
    from product_rounded [OF sz r1] obtain d2 where x1: "toDouble (q * k1) = Fin (q * k1 * (1 + d2))"
      and d2: "\<bar>d2\<bar> \<le> 2 powi (- 53)"
      and s1: "2 powi (- 1000 - 7 - 1) \<le> \<bar>q * k1 * (1 + d2)\<bar>" "\<bar>q * k1 * (1 + d2)\<bar> \<le> 2 powi (1000 + 7 + 1)"
      by auto
    from product_rounded [OF s1 r2] obtain d4
      where x2: "toDouble (q * k1 * (1 + d2) * k2) = Fin (q * k1 * (1 + d2) * k2 * (1 + d4))"
      and d4: "\<bar>d4\<bar> \<le> 2 powi (- 53)"
      by auto
    have ab: "a \<noteq> 0" "b \<noteq> 0" using a b by auto
    have "q * k1 * (1 + d2) * k2 * (1 + d4) = q * ((1 + d1) * (1 + d2) * (1 + d3) * (1 + d4))"
      using ab by (simp add: e1 e3)
    then have "q * k1 * (1 + d2) * k2 * (1 + d4) - q = q * ((1 + d1) * (1 + d2) * (1 + d3) * (1 + d4) - 1)"
      by (simp add: right_diff_distrib)
    then have "\<bar>q * k1 * (1 + d2) * k2 * (1 + d4) - q\<bar> = \<bar>q\<bar> * \<bar>(1 + d1) * (1 + d2) * (1 + d3) * (1 + d4) - 1\<bar>"
      by (simp only: abs_mult)
    also have "\<dots> \<le> \<bar>q\<bar> * 2 powi (- 50)"
      using four_roundings [OF d1 d2 d3 d4] by (intro mult_left_mono) simp_all
    finally have "near v (Num (Fin (q * k1 * (1 + d2) * k2 * (1 + d4))))"
      by (simp add: near_def q)
    then show ?thesis by (simp add: q k1 k2 js_times_Fin x1 x2)
  qed
qed

text \<open>
  C5, amended: for a recipe whose serving count \<open>a\<close> is in [1, 50] and whose ingredient
  quantities are of moderate size, and a serving count \<open>b\<close> in [1, 50], adjusting the servings
  from \<open>a\<close> to \<open>b\<close> and back to \<open>a\<close> succeeds both times and restores the serving count;
  every ingredient comes back with a quantity within floating-point rounding of the one it had
  and is otherwise unchanged, every nutrient of moderate size comes back within floating-point
  rounding of its value, and a nutrient that is not a finite number is never touched. Each
  value is multiplied by the rounded ratio \<open>b / a\<close>, rounded, multiplied by the rounded ratio
  \<open>a / b\<close> and rounded again.
\<close>

theorem servings_round_trip:
  assumes "getRecipe rid opts s = Inr (Some recipe)"
    and "servings recipe = Num (Fin a)" and "1 \<le> a" and "a \<le> 50"
    and "ingredients recipe = Items is" and "\<forall>i\<in>set is. moderate (quantity i)"
    and "calculateUpdatedServings (Num (Fin a)) op1 nv1 = Num (Fin b)" and "1 \<le> b" and "b \<le> 50"
    and "calculateUpdatedServings (Num (Fin b)) op2 nv2 = Num (Fin a)"
  shows "\<exists>s1 s2 u is'. adjustServings rid op1 opts nv1 s = Inr s1 \<and>
           adjustServings rid op2 opts nv2 s1 = Inr s2 \<and>
           getRecipe rid opts s2 = Inr (Some u) \<and>
           servings u = servings recipe \<and>
           ingredients u = Items is' \<and> length is' = length is \<and>
           (\<forall>j<length is. near (quantity (is ! j)) (quantity (is' ! j)) \<and>
                           is' ! j = (is ! j)\<lparr>quantity := quantity (is' ! j)\<rparr>) \<and>
           (\<forall>n. (moderate (getNutrient n recipe) \<longrightarrow> near (getNutrient n recipe) (getNutrient n u)) \<and>
                (\<not> isFinite (getNutrient n recipe) \<longrightarrow> getNutrient n u = getNutrient n recipe))"
proof -
  have a0: "a \<noteq> 0" and b0: "b \<noteq> 0" using assms(3,8) by auto
  let ?K1 = "Num (toDouble (b / a))" and ?K2 = "Num (toDouble (a / b))"
  let ?is1 = "map (\<lambda>i. i\<lparr>quantity := js_times (quantity i) ?K1\<rparr>) is"
  let ?is2 = "map (\<lambda>i. i\<lparr>quantity := js_times (quantity i) ?K2\<rparr>) ?is1"
  note rt = round_trip_value [OF assms(3,4,8,9)]
  have fin1: "\<forall>i\<in>set is. isFinite (js_times (quantity i) ?K1)"
    using assms(6) rt by blast
  from adjustServings_scaled [OF assms(1,2) a0 assms(7,8,9,5) fin1]
  obtain s1 u1 where s1: "adjustServings rid op1 opts nv1 s = Inr s1"
    and g1: "getRecipe rid opts s1 = Inr (Some u1)"
    and sv1: "servings u1 = Num (Fin b)"
    and ing1: "ingredients u1 = Items ?is1"
    and nut1: "\<forall>n. getNutrient n u1 = scaleNutrient ?K1 (getNutrient n recipe)"
    by blast
  have fin2: "\<forall>i\<in>set ?is1. isFinite (js_times (quantity i) ?K2)"
    using assms(6) rt by auto
  from adjustServings_scaled [OF g1 sv1 b0 assms(10,3,4) ing1 fin2]
  obtain s2 u2 where s2: "adjustServings rid op2 opts nv2 s1 = Inr s2"
    and g2: "getRecipe rid opts s2 = Inr (Some u2)"
    and sv2: "servings u2 = Num (Fin a)"
    and ing2: "ingredients u2 = Items ?is2"
    and nut2: "\<forall>n. getNutrient n u2 = scaleNutrient ?K2 (getNutrient n u1)"
    by blast
  have len: "length ?is2 = length is" by simp
  have quant: "\<forall>j<length is. near (quantity (is ! j)) (quantity (?is2 ! j)) \<and>
      ?is2 ! j = (is ! j)\<lparr>quantity := quantity (?is2 ! j)\<rparr>"
  proof (intro allI impI)
    fix j assume j: "j < length is"
    then have "is ! j \<in> set is" by simp
    with assms(6) have "moderate (quantity (is ! j))" by blast
    from rt [OF this] j
    show "near (quantity (is ! j)) (quantity (?is2 ! j)) \<and>
      ?is2 ! j = (is ! j)\<lparr>quantity := quantity (?is2 ! j)\<rparr>"
      by simp
  qed
  have nutr: "\<forall>n. (moderate (getNutrient n recipe) \<longrightarrow> near (getNutrient n recipe) (getNutrient n u2)) \<and>
      (\<not> isFinite (getNutrient n recipe) \<longrightarrow> getNutrient n u2 = getNutrient n recipe)"
  proof (intro allI conjI impI)
    fix n assume m: "moderate (getNutrient n recipe)"
    from rt [OF m] moderate_finite [OF m]
    show "near (getNutrient n recipe) (getNutrient n u2)"
      by (simp add: nut1 nut2 scaleNutrient_finite)
  next
    fix n assume "\<not> isFinite (getNutrient n recipe)"
    then show "getNutrient n u2 = getNutrient n recipe"
      by (simp add: nut1 nut2 scaleNutrient_other)
  qed
  have sv: "servings u2 = servings recipe" using sv2 assms(2) by simp
  show ?thesis
    by (rule exI [of _ s1], rule exI [of _ s2], rule exI [of _ u2], rule exI [of _ ?is2])
      (intro conjI s1 s2 g2 sv ing2 len quant nutr)
qed

lemma pasta_ingredients:
  "ingredients pasta = Items
        [\<lparr>ingredientText = ''8 oz spaghetti'', quantity = Num (Fin 8), unit = ''oz'',
          name = ''spaghetti'', category = ''Pasta and Rice'', availability = None\<rparr>,
         \<lparr>ingredientText = ''3 cloves garlic'', quantity = Num (Fin 3), unit = ''cloves'',
          name = ''garlic'', category = ''Produce'', availability = None\<rparr>]"
  by (simp add: pasta_def)

lemma moderate_numeral [simp]:
  "moderate (Num (Fin (numeral w))) = (numeral w \<le> (2::rat) powi 1000)"
proof -
  have "(2::rat) powi (- 1000) \<le> 2 powi 0" by (rule powi_le) simp
  also have "\<dots> \<le> numeral w" by simp
  finally show ?thesis by (simp add: moderate_def)
qed

theorem servings_round_trip_witness:
  "\<exists>s1 s2 u is'. adjustServings (Num (Fin 42)) None inBook (Num (Fin 4)) plannedState = Inr s1 \<and>
      adjustServings (Num (Fin 42)) None inBook (Num (Fin 2)) s1 = Inr s2 \<and>
      getRecipe (Num (Fin 42)) inBook s2 = Inr (Some u) \<and>
      servings u = Num (Fin 2) \<and>
      ingredients u = Items is' \<and> length is' = 2 \<and>
      near (Num (Fin 8)) (quantity (is' ! 0)) \<and> near (Num (Fin 3)) (quantity (is' ! 1)) \<and>
      near (Num (Fin 600)) (calories u) \<and> cholesterol u = Str ''-''"
proof -
  let ?r = "pasta\<lparr>isBookmarked := True\<rparr>"
  let ?is = "[\<lparr>ingredientText = ''8 oz spaghetti'', quantity = Num (Fin 8), unit = ''oz'',
          name = ''spaghetti'', category = ''Pasta and Rice'', availability = None\<rparr>,
         \<lparr>ingredientText = ''3 cloves garlic'', quantity = Num (Fin 3), unit = ''cloves'',
          name = ''garlic'', category = ''Produce'', availability = None\<rparr>]"
  have sv: "servings ?r = Num (Fin 2)" by (simp add: pasta_def)
  have ing: "ingredients ?r = Items ?is" by (simp add: pasta_def)
  have big: "(8::rat) \<le> 2 powi 1000" "(3::rat) \<le> 2 powi 1000" "(600::rat) \<le> 2 powi 1000"
    using powi_le [of 10 1000] by (simp_all add: power_int_def)
  have md: "\<forall>i\<in>set ?is. moderate (quantity i)" using big by simp
  have c1: "calculateUpdatedServings (Num (Fin 2)) None (Num (Fin 4)) = Num (Fin 4)"
    and c2: "calculateUpdatedServings (Num (Fin 4)) None (Num (Fin 2)) = Num (Fin 2)"
    by (simp_all add: calculateUpdatedServings_def)
  from servings_round_trip [OF getRecipe_book_pasta sv _ _ ing md c1 _ _ c2]
  obtain s1 s2 u is' where r: "adjustServings (Num (Fin 42)) None inBook (Num (Fin 4)) plannedState = Inr s1"
      "adjustServings (Num (Fin 42)) None inBook (Num (Fin 2)) s1 = Inr s2"
      "getRecipe (Num (Fin 42)) inBook s2 = Inr (Some u)"
      "servings u = servings ?r" "ingredients u = Items is'" "length is' = length ?is"
    and q: "\<forall>j<length ?is. near (quantity (?is ! j)) (quantity (is' ! j)) \<and>
                           is' ! j = (?is ! j)\<lparr>quantity := quantity (is' ! j)\<rparr>"
    and n: "\<forall>n. (moderate (getNutrient n ?r) \<longrightarrow> near (getNutrient n ?r) (getNutrient n u)) \<and>
                (\<not> isFinite (getNutrient n ?r) \<longrightarrow> getNutrient n u = getNutrient n ?r)"
    by auto
  from q [rule_format, of 0] q [rule_format, of 1]
  have "near (Num (Fin 8)) (quantity (is' ! 0))" "near (Num (Fin 3)) (quantity (is' ! 1))"
    by simp_all
  moreover from n [rule_format, of Calories] big have "near (Num (Fin 600)) (calories u)"
    by (simp add: pasta_def)
  moreover from n [rule_format, of Cholesterol] have "cholesterol u = Str ''-''"
    by (simp add: pasta_def)
  ultimately show ?thesis using r sv by auto
qed

lemma getRecipe_cookies: "getRecipe (Num (Fin 60)) inBook cookieState = Inr (Some cookies)"
  by (simp add: getRecipe_def inBook_def getRecipeFromBrowse_def getSourceArray_def cookieState_def
      emptyState_def hasId_def strictEq_def cookies_def pasta_def)

text \<open>
  C5, as stated, fails for a recipe whose serving count is above 50: the adjustment from 60
  servings to 30 halves the quantities, and the adjustment back to 60 is rejected, so that the
  halved quantities stay.
\<close>

theorem servings_round_trip_counterexample:
  "observe bookQuantities (adjustTwice (Num (Fin 60)) inBook (Num (Fin 30)) (Num (Fin 60)) cookieState)
     = Inr [[Num (Fin 4), Num (Fin (3 / 2))]] \<and>
   bookQuantities cookieState = [[Num (Fin 8), Num (Fin 3)]]"
proof
  let ?scaled = "Items
        [\<lparr>ingredientText = ''8 oz spaghetti'', quantity = Num (Fin 4), unit = ''oz'',
          name = ''spaghetti'', category = ''Pasta and Rice'', availability = None\<rparr>,
         \<lparr>ingredientText = ''3 cloves garlic'', quantity = Num (Fin (3 / 2)), unit = ''cloves'',
          name = ''garlic'', category = ''Produce'', availability = None\<rparr>]"
  let ?v = "adjustedRecipe cookies (Num (Fin 30)) ?scaled"
  let ?s1 = "synchronizeRecipeInstances ?v (putRecipe (Num (Fin 60)) inBook ?v cookieState)"
  have sv: "servings cookies = Num (Fin 60)" by (simp add: cookies_def)
  have ing: "ingredients cookies = ingredients pasta" by (simp add: cookies_def)
  have half: "toDouble (30 / 60) = Fin (1 / 2)" "toDouble (3 * (1 / 2)) = Fin (3 / 2)"
    using toDouble_dyadic [of 1 1] toDouble_dyadic [of 3 1] by simp_all
  have sc: "updateIngredientQuantities (ingredients cookies) (Num (Fin (1 / 2))) = Inr ?scaled"
    using half(2) by (simp add: ing pasta_ingredients js_times_Fin)
  have first: "adjustServings (Num (Fin 60)) None inBook (Num (Fin 30)) cookieState = Inr ?s1"
    using sc half(1) by (simp add: adjustServings_eq [OF getRecipe_cookies] calculateUpdatedServings_def sv
        isValidServings_Fin Let_def js_divide_Fin inBook_source)
  have g1: "getRecipe (Num (Fin 60)) inBook ?s1 = Inr (Some (updateProperties ?v ?v))"
    using getRecipe_after_adjust [OF getRecipe_cookies, of ?v] by (simp add: inBook_source)
  have second: "adjustServings (Num (Fin 60)) None inBook (Num (Fin 60)) ?s1 = Inr ?s1"
    by (simp add: adjustServings_eq [OF g1] calculateUpdatedServings_def isValidServings_Fin Let_def)
  have put: "recipeBook (putRecipe (Num (Fin 60)) inBook ?v cookieState) = [?v]"
    by (simp add: putRecipe_def inBook_def getSourceArray_def setSourceArray_def cookieState_def
        emptyState_def hasId_def strictEq_def cookies_def pasta_def)
  have "hasId (recipeId ?v) ?v" by (simp add: hasId_def strictEq_def cookies_def pasta_def)
  then have book: "recipeBook ?s1 = [updateProperties ?v ?v]"
    by (simp add: synchronizeRecipeInstances_def Let_def put)
  show "observe bookQuantities (adjustTwice (Num (Fin 60)) inBook (Num (Fin 30)) (Num (Fin 60)) cookieState)
     = Inr [[Num (Fin 4), Num (Fin (3 / 2))]]"
    by (simp add: adjustTwice_def first second observe_def bookQuantities_def book quantities_def
        deepCopyIngredient_def)
next
  show "bookQuantities cookieState = [[Num (Fin 8), Num (Fin 3)]]"
    by (simp add: bookQuantities_def cookieState_def cookies_def quantities_def pasta_ingredients)
qed

lemma synchronizeRecipeInstances_lists:
  "ingredientSearchResults (synchronizeRecipeInstances u s) =
     map (\<lambda>recipe. if hasId (recipeId u) recipe then updateProperties recipe u else recipe) (ingredientSearchResults s)"
  "browseSearchResults (synchronizeRecipeInstances u s) =
     map (\<lambda>recipe. if hasId (recipeId u) recipe then updateProperties recipe u else recipe) (browseSearchResults s)"
  "recipeBook (synchronizeRecipeInstances u s) =
     map (\<lambda>recipe. if hasId (recipeId u) recipe then updateProperties recipe u else recipe) (recipeBook s)"
  by (simp_all add: synchronizeRecipeInstances_def Let_def)

lemma inPlan_simps [simp]:
  "source (inPlan d m) = MealPlan" "currentDate (inPlan d m) = Some d" "currentMeal (inPlan d m) = Some m"
  by (simp_all add: inPlan_def)

text \<open>In the meal plan, an adjustment touches one entry of one slot.\<close>

lemma adjustServings_plan_frame:
  assumes "adjustServings rid oper (inPlan d m) nv s = Inr s'"
  shows "ingredientSearchResults s' = ingredientSearchResults s \<and>
         browseSearchResults s' = browseSearchResults s \<and>
         recipeBook s' = recipeBook s \<and>
         (\<forall>d' m'. d' \<noteq> d \<or> m' \<noteq> m \<longrightarrow> getMealSlot d' m' s' = getMealSlot d' m' s) \<and>
         length (getMealSlot d m s') = length (getMealSlot d m s) \<and>
         (\<forall>j<length (getMealSlot d m s). int j \<noteq> findIndex (hasId rid) (getMealSlot d m s) \<longrightarrow>
             getMealSlot d m s' ! j = getMealSlot d m s ! j)"
proof -
  from assms obtain recipe where g: "getRecipe rid (inPlan d m) s = Inr (Some recipe)"
    by (auto simp: adjustServings_def split: sum.splits option.splits)
  then obtain w dp where day: "getDayMealPlan d s = Inr (w, Some dp)"
    by (cases rule: getRecipe_cases) auto
  from assms consider "s' = s"
    | u where "s' = setMealSlot d m (updateFirst (hasId rid) (\<lambda>_. u) (getMealSlot d m s)) s"
    by (auto simp: adjustServings_eq [OF g] Let_def putRecipe_plan split: if_splits sum.splits)
  then show ?thesis
  proof cases
    case 1
    then show ?thesis by simp
  next
    case (2 u)
    with day show ?thesis
      by (auto simp: getMealSlot_setMealSlot nth_updateFirst)
  qed
qed

text \<open>While browsing, an accepted adjustment is copied onto every entry with the same id.\<close>

lemma adjustServings_browse_broadcast:
  assumes src: "source opts \<noteq> MealPlan"
    and g: "getRecipe rid opts s = Inr (Some recipe)"
    and valid: "isValidServings (calculateUpdatedServings (servings recipe) oper nv)"
    and adj: "adjustServings rid oper opts nv s = Inr s'"
  shows "\<exists>u scaled. getRecipe rid opts s' = Inr (Some u) \<and>
           updateIngredientQuantities (ingredients recipe)
             (js_divide (calculateUpdatedServings (servings recipe) oper nv) (servings recipe)) = Inr scaled \<and>
           servings u = calculateUpdatedServings (servings recipe) oper nv \<and>
           ingredients u = deepCopyIngredients scaled \<and>
           (\<forall>n. getNutrient n u =
              scaleNutrient (js_divide (calculateUpdatedServings (servings recipe) oper nv) (servings recipe))
                (getNutrient n recipe)) \<and>
           (\<forall>r'. r' \<in> set (ingredientSearchResults s') \<union> set (browseSearchResults s') \<union> set (recipeBook s') \<longrightarrow>
              hasId rid r' \<longrightarrow>
              servings r' = servings u \<and> ingredients r' = ingredients u \<and>
              (\<forall>n. getNutrient n r' = getNutrient n u)) \<and>
           mealPlan s' = mealPlan s"
proof -
  let ?c = "calculateUpdatedServings (servings recipe) oper nv"
  from adj valid obtain scaled where
    sc: "updateIngredientQuantities (ingredients recipe) (js_divide ?c (servings recipe)) = Inr scaled"
    by (auto simp: adjustServings_eq [OF g] Let_def split: sum.splits)
  let ?v = "adjustedRecipe recipe ?c scaled"
  let ?s1 = "putRecipe rid opts ?v s"
  have s': "s' = synchronizeRecipeInstances ?v ?s1"
    using adj valid sc src by (simp add: adjustServings_eq [OF g] Let_def)
  have gu: "getRecipe rid opts s' = Inr (Some (updateProperties ?v ?v))"
    using getRecipe_after_adjust [OF g, of ?v] src s' by simp
  have hv: "hasId rid recipe" using g by (cases rule: getRecipe_cases) (auto simp: find_Some_iff)
  then have self: "hasId (recipeId ?v) r' = hasId rid r'" for r'
    using hasId_self [of rid ?v r'] by (simp add: hasId_def)
  have copies: "servings r' = servings (updateProperties ?v ?v) \<and>
      ingredients r' = ingredients (updateProperties ?v ?v) \<and>
      (\<forall>n. getNutrient n r' = getNutrient n (updateProperties ?v ?v))"
    if "r' \<in> set (ingredientSearchResults s') \<union> set (browseSearchResults s') \<union> set (recipeBook s')"
      and "hasId rid r'" for r'
  proof -
    from that(1) have "\<exists>x. r' = (if hasId rid x then updateProperties x ?v else x)"
      unfolding s' synchronizeRecipeInstances_lists self by auto
    then obtain x where "r' = (if hasId rid x then updateProperties x ?v else x)" by blast
    with that(2) have "r' = updateProperties x ?v"
      by (auto simp: hasId_def split: if_splits)
    then show ?thesis by simp
  qed
  have "mealPlan s' = mealPlan s"
  proof -
    from g obtain rs where "getSourceArray (source opts) s = Some rs"
      using src by (cases rule: getRecipe_cases) auto
    then show ?thesis unfolding s' using src by (simp add: putRecipe_browse)
  qed
  with gu sc copies show ?thesis by auto
qed

text \<open>
  C3: an adjustment of the servings of an instance located in the meal plan (by its date and
  meal slot) leaves the three browsing collections as they were, leaves every other slot of the
  meal plan as it was, and inside the slot changes at most the entry that the lookup finds (the
  first with the id). An accepted adjustment in a browsing context gives every entry with the
  same id, in the ingredient search results, the browse search results and the recipe book, the
  servings, the ingredients and the thirteen nutrient values of the adjusted entity (the new
  count, the scaled ingredients as \<open>deepCopy\<close> returns them, the scaled nutrients), and
  does not touch the meal plan.
\<close>

theorem servings_adjustment_scope:
  "(\<forall>s'. adjustServings rid oper (inPlan d m) nv s = Inr s' \<longrightarrow>
       ingredientSearchResults s' = ingredientSearchResults s \<and>
       browseSearchResults s' = browseSearchResults s \<and>
       recipeBook s' = recipeBook s \<and>
       (\<forall>d' m'. d' \<noteq> d \<or> m' \<noteq> m \<longrightarrow> getMealSlot d' m' s' = getMealSlot d' m' s) \<and>
       length (getMealSlot d m s') = length (getMealSlot d m s) \<and>
       (\<forall>j<length (getMealSlot d m s). int j \<noteq> findIndex (hasId rid) (getMealSlot d m s) \<longrightarrow>
           getMealSlot d m s' ! j = getMealSlot d m s ! j)) \<and>
   (\<forall>s'. source opts \<noteq> MealPlan \<longrightarrow>
       getRecipe rid opts s = Inr (Some recipe) \<longrightarrow>
       isValidServings (calculateUpdatedServings (servings recipe) oper nv) \<longrightarrow>
       adjustServings rid oper opts nv s = Inr s' \<longrightarrow>
       (\<exists>u scaled. getRecipe rid opts s' = Inr (Some u) \<and>
           updateIngredientQuantities (ingredients recipe)
             (js_divide (calculateUpdatedServings (servings recipe) oper nv) (servings recipe)) = Inr scaled \<and>
           servings u = calculateUpdatedServings (servings recipe) oper nv \<and>
           ingredients u = deepCopyIngredients scaled \<and>
           (\<forall>n. getNutrient n u =
              scaleNutrient (js_divide (calculateUpdatedServings (servings recipe) oper nv) (servings recipe))
                (getNutrient n recipe)) \<and>
           (\<forall>r'. r' \<in> set (ingredientSearchResults s') \<union> set (browseSearchResults s') \<union> set (recipeBook s') \<longrightarrow>
              hasId rid r' \<longrightarrow>
              servings r' = servings u \<and> ingredients r' = ingredients u \<and>
              (\<forall>n. getNutrient n r' = getNutrient n u)) \<and>
           mealPlan s' = mealPlan s))"
  using adjustServings_plan_frame [of rid oper d m nv s]
    adjustServings_browse_broadcast [of opts rid s recipe oper nv]
  by blast


lemma adjustServings_total:
  "getRecipe rid opts s = Inr (Some recipe) \<Longrightarrow> ingredients recipe = Items is \<Longrightarrow>
   \<exists>s'. adjustServings rid oper opts nv s = Inr s'"
  by (simp add: adjustServings_eq Let_def)

lemma getRecipe_plan_pasta:
  "getRecipe (Num (Fin 42)) (inPlan 20108 Lunch) plannedState = Inr (Some pasta)"
  by (simp add: getRecipe_def inPlan_def getRecipeFromMealPlan_def getDayMealPlan_def plannedState_def
      getMondayOfTheWeek_def hasId_def strictEq_def pasta_def)

lemma plannedState_slots:
  "getMealSlot 20108 Lunch plannedState = [pasta, salad]"
  "getMealSlot 20108 Dinner plannedState = [leftovers]"
  "getMealSlot 20109 Lunch plannedState = [pasta]"
  by (simp_all add: getMealSlot_def getDayMealPlan_def plannedState_def getMondayOfTheWeek_def)

lemma plannedState_lists:
  "recipeBook plannedState = [pasta\<lparr>isBookmarked := True\<rparr>]"
  "browseSearchResults plannedState = [salad, pasta\<lparr>isBookmarked := True\<rparr>]"
  "ingredientSearchResults plannedState = []"
  by (simp_all add: plannedState_def)

theorem servings_adjustment_scope_witness:
  "(\<exists>s'. adjustServings (Num (Fin 42)) (Some ''increaseServings'') (inPlan 20108 Lunch) Null plannedState = Inr s' \<and>
      recipeBook s' = [pasta\<lparr>isBookmarked := True\<rparr>] \<and>
      browseSearchResults s' = [salad, pasta\<lparr>isBookmarked := True\<rparr>] \<and>
      getMealSlot 20109 Lunch s' = [pasta] \<and>
      getMealSlot 20108 Lunch s' ! 1 = salad) \<and>
   (\<exists>s' u. adjustServings (Num (Fin 42)) (Some ''increaseServings'') inBook Null plannedState = Inr s' \<and>
      getRecipe (Num (Fin 42)) inBook s' = Inr (Some u) \<and>
      servings u = Num (Fin 3) \<and>
      (\<forall>r'. r' \<in> set (browseSearchResults s') \<union> set (recipeBook s') \<longrightarrow>
         hasId (Num (Fin 42)) r' \<longrightarrow> servings r' = Num (Fin 3)) \<and>
      mealPlan s' = mealPlan plannedState)"
proof
  obtain s' where s': "adjustServings (Num (Fin 42)) (Some ''increaseServings'') (inPlan 20108 Lunch) Null plannedState = Inr s'"
    using adjustServings_total [OF getRecipe_plan_pasta pasta_ingredients] by blast
  have idx: "findIndex (hasId (Num (Fin 42))) [pasta, salad] = 0"
    by (simp add: hasId_def strictEq_def pasta_def)
  note fr = servings_adjustment_scope [of "Num (Fin 42)" "Some ''increaseServings''" 20108 Lunch Null
      plannedState, THEN conjunct1, rule_format, OF s']
  from fr have lists: "recipeBook s' = recipeBook plannedState"
      "browseSearchResults s' = browseSearchResults plannedState"
    by simp_all
  from fr have other: "\<forall>d' m'. d' \<noteq> 20108 \<or> m' \<noteq> Lunch \<longrightarrow> getMealSlot d' m' s' = getMealSlot d' m' plannedState"
    by blast
  from fr have rest: "\<forall>j<length (getMealSlot 20108 Lunch plannedState).
      int j \<noteq> findIndex (hasId (Num (Fin 42))) (getMealSlot 20108 Lunch plannedState) \<longrightarrow>
      getMealSlot 20108 Lunch s' ! j = getMealSlot 20108 Lunch plannedState ! j"
    by blast
  have "getMealSlot 20109 Lunch s' = getMealSlot 20109 Lunch plannedState"
    using other [rule_format, of 20109 Lunch] by simp
  moreover have "getMealSlot 20108 Lunch s' ! 1 = getMealSlot 20108 Lunch plannedState ! 1"
    using rest [unfolded plannedState_slots idx, rule_format, of 1] by (simp add: plannedState_slots)
  ultimately have frame: "recipeBook s' = recipeBook plannedState"
    "browseSearchResults s' = browseSearchResults plannedState"
    "getMealSlot 20109 Lunch s' = getMealSlot 20109 Lunch plannedState"
    "getMealSlot 20108 Lunch s' ! 1 = getMealSlot 20108 Lunch plannedState ! 1"
    using lists by simp_all
  then show "\<exists>s'. adjustServings (Num (Fin 42)) (Some ''increaseServings'') (inPlan 20108 Lunch) Null plannedState = Inr s' \<and>
      recipeBook s' = [pasta\<lparr>isBookmarked := True\<rparr>] \<and>
      browseSearchResults s' = [salad, pasta\<lparr>isBookmarked := True\<rparr>] \<and>
      getMealSlot 20109 Lunch s' = [pasta] \<and>
      getMealSlot 20108 Lunch s' ! 1 = salad"
    using s' by (simp add: plannedState_slots plannedState_lists)
next
  let ?r = "pasta\<lparr>isBookmarked := True\<rparr>"
  have ing: "ingredients ?r = ingredients pasta" by simp
  obtain s' where s': "adjustServings (Num (Fin 42)) (Some ''increaseServings'') inBook Null plannedState = Inr s'"
    using adjustServings_total [OF getRecipe_book_pasta, of _ "Some ''increaseServings''" Null]
    by (auto simp: pasta_ingredients)
  have c: "calculateUpdatedServings (servings ?r) (Some ''increaseServings'') Null = Num (Fin 3)"
    by (simp add: calculateUpdatedServings_def pasta_def)
  have v: "isValidServings (calculateUpdatedServings (servings ?r) (Some ''increaseServings'') Null)"
    unfolding c by (simp add: isValidServings_Fin)
  have src: "source inBook \<noteq> MealPlan" by (simp add: inBook_source)
  note br = servings_adjustment_scope [of "Num (Fin 42)" "Some ''increaseServings''" 20108 Lunch Null
      plannedState inBook ?r, THEN conjunct2, rule_format, OF src getRecipe_book_pasta v s']
  then obtain u where "getRecipe (Num (Fin 42)) inBook s' = Inr (Some u)"
    "servings u = calculateUpdatedServings (servings ?r) (Some ''increaseServings'') Null"
    "\<forall>r'. r' \<in> set (ingredientSearchResults s') \<union> set (browseSearchResults s') \<union> set (recipeBook s') \<longrightarrow>
         hasId (Num (Fin 42)) r' \<longrightarrow> servings r' = servings u" "mealPlan s' = mealPlan plannedState"
    by blast
  then have "getRecipe (Num (Fin 42)) inBook s' = Inr (Some u)" "servings u = Num (Fin 3)"
    "\<forall>r'. r' \<in> set (ingredientSearchResults s') \<union> set (browseSearchResults s') \<union> set (recipeBook s') \<longrightarrow>
         hasId (Num (Fin 42)) r' \<longrightarrow> servings r' = Num (Fin 3)" "mealPlan s' = mealPlan plannedState"
    unfolding c by simp_all
  with s' show "\<exists>s' u. adjustServings (Num (Fin 42)) (Some ''increaseServings'') inBook Null plannedState = Inr s' \<and>
      getRecipe (Num (Fin 42)) inBook s' = Inr (Some u) \<and>
      servings u = Num (Fin 3) \<and>
      (\<forall>r'. r' \<in> set (browseSearchResults s') \<union> set (recipeBook s') \<longrightarrow>
         hasId (Num (Fin 42)) r' \<longrightarrow> servings r' = Num (Fin 3)) \<and>
      mealPlan s' = mealPlan plannedState"
    by auto
qed

section \<open>Moving, adding and removing in the meal plan\<close>

lemma resolves_planKeys:
  "resolves d s = (\<exists>ks. map_of (planKeys (mealPlan s)) (getMondayOfTheWeek d) = Some ks \<and> d \<in> set ks)"
proof -
  have "(\<exists>dp. map_of week d = Some dp) = (d \<in> set (map fst week))" for week :: weekPlan
    by (metis domD domI dom_map_of_conv_image_fst list.set_map)
  then show ?thesis
    by (auto simp: resolves_def getDayMealPlan_def Let_def map_of_planKeys split: option.splits)
qed

lemma resolves_cong: "planKeys (mealPlan s') = planKeys (mealPlan s) \<Longrightarrow> resolves d s' = resolves d s"
  by (simp add: resolves_planKeys)

lemma adjustServings_plan_keys:
  assumes "adjustServings rid oper (inPlan d m) nv s = Inr s'"
  shows "planKeys (mealPlan s') = planKeys (mealPlan s) \<and> pantry s' = pantry s \<and>
         storedRecipeBook s' = storedRecipeBook s \<and> storedMealPlan s' = storedMealPlan s \<and>
         mealCalendarWeek s' = mealCalendarWeek s"
proof -
  from assms obtain recipe where g: "getRecipe rid (inPlan d m) s = Inr (Some recipe)"
    by (auto simp: adjustServings_def split: sum.splits option.splits)
  from assms consider "s' = s"
    | u where "s' = setMealSlot d m (updateFirst (hasId rid) (\<lambda>_. u) (getMealSlot d m s)) s"
    by (auto simp: adjustServings_eq [OF g] Let_def putRecipe_plan split: if_splits sum.splits)
  then show ?thesis by cases simp_all
qed

lemma weekTotalsOk_updateNutritionForWeek:
  assumes "updateNutritionForWeek wk s = Inr s'" and "wfMealPlan (mealPlan s)"
  shows "weekTotalsOk wk s'"
  unfolding weekTotalsOk_def
  using getDayMealPlan_updateNutritionForWeek [OF assms]
  by (auto split: sum.splits option.splits prod.splits)

lemma weekTotalsOk_other_week:
  assumes "updateNutritionForWeek wk' s = Inr s'" and "wfMealPlan (mealPlan s)" and "weekTotalsOk wk s"
  shows "weekTotalsOk wk s'"
  unfolding weekTotalsOk_def
proof (intro allI impI)
  fix d dp assume g: "getDayMealPlan d s' = Inr (wk, Some dp)"
  from getDayMealPlan_updateNutritionForWeek [OF assms(1,2), of d] g
  obtain dp0 where g0: "getDayMealPlan d s = Inr (wk, Some dp0)"
    and dp: "dp = (if wk = wk' then dp0\<lparr>nutrition := dayTotals (meals dp0)\<rparr> else dp0)"
    by (auto split: sum.splits option.splits prod.splits)
  from assms(3) g0 have "nutrition dp0 = dayTotals (meals dp0)" by (auto simp: weekTotalsOk_def)
  with dp show "nutrition dp = dayTotals (meals dp)" by auto
qed

lemma weekTotalsOk_cong: "mealPlan s' = mealPlan s \<Longrightarrow> weekTotalsOk wk s' = weekTotalsOk wk s"
  by (simp add: weekTotalsOk_def getDayMealPlan_def)

lemma weekTotalsOk_setMealSlot:
  assumes "weekTotalsOk wk s" and "getMondayOfTheWeek d \<noteq> wk"
  shows "weekTotalsOk wk (setMealSlot d m rs s)"
  unfolding weekTotalsOk_def
proof (intro allI impI)
  fix d' dp assume g: "getDayMealPlan d' (setMealSlot d m rs s) = Inr (wk, Some dp)"
  then have "d' \<noteq> d" using assms(2)
    by (auto simp: getDayMealPlan_def Let_def split: option.splits)
  with g have "getDayMealPlan d' s = Inr (wk, Some dp)"
    by (auto simp: getDayMealPlan_setMealSlot split: sum.splits option.splits prod.splits)
  with assms(1) show "nutrition dp = dayTotals (meals dp)" by (auto simp: weekTotalsOk_def)
qed

text \<open>
  \<open>deleteRecipeFromMealPlan\<close> on a well-formed plan: it returns, the week of the day carries
  fresh totals, and the totals of another week stay right if they were.
\<close>

lemma deleteRecipeFromMealPlan_totals:
  assumes wf: "wfMealPlan (mealPlan s)" and day: "getDayMealPlan d s = Inr (wk, Some dp)"
    and del: "deleteRecipeFromMealPlan rid d m s = Inr s'"
  shows "weekTotalsOk wk s' \<and> (weekTotalsOk wk0 s \<longrightarrow> weekTotalsOk wk0 s')"
proof -
  let ?slot = "getMeals m (meals dp)"
  let ?s1 = "setMealSlot d m (arraySplice (findIndex (hasId rid) ?slot) 1 ?slot) s"
  have wk: "wk = getMondayOfTheWeek d" using day by (auto simp: getDayMealPlan_def Let_def split: option.splits)
  have wf1: "wfMealPlan (mealPlan ?s1)" using wf wfMealPlan_cong [OF planKeys_setMealSlot] by simp
  from del day obtain s2 where s2: "updateNutritionForWeek wk ?s1 = Inr s2" and s': "s' = saveMealPlan s2"
    by (auto simp: deleteRecipeFromMealPlan_def Let_def split: sum.splits)
  have a: "weekTotalsOk wk s'"
    using weekTotalsOk_updateNutritionForWeek [OF s2 wf1] weekTotalsOk_cong [of s' s2 wk] s' by simp
  have b: "weekTotalsOk wk0 s'" if ok: "weekTotalsOk wk0 s"
  proof (cases "wk0 = wk")
    case True
    with a show ?thesis by simp
  next
    case False
    with ok wk have "weekTotalsOk wk0 ?s1" by (intro weekTotalsOk_setMealSlot) auto
    from weekTotalsOk_other_week [OF s2 wf1 this] show ?thesis
      using weekTotalsOk_cong [of s' s2 wk0] s' by simp
  qed
  from a b show ?thesis by blast
qed

lemma jsonVal_not_NaN: "jsonVal v \<noteq> Num NaN"
  by (cases v rule: jsonVal.cases) simp_all

lemma deepCopy_fields [simp]:
  "recipeId (deepCopy r) = jsonVal (recipeId r)"
  "origin (deepCopy r) = origin r"
  "ingredients (deepCopy r) = deepCopyIngredients (ingredients r)"
  "isBookmarked (deepCopy r) = isBookmarked r"
  by (simp_all add: deepCopy_def)

lemma hasId_deepCopy: "hasId (recipeId (deepCopy r)) (deepCopy r)"
  by (simp add: hasId_def strictEq_def jsonVal_not_NaN)

lemma arraySplice_singleton: "i = 0 \<or> i = - 1 \<Longrightarrow> arraySplice i 1 [x] = []"
  by (auto simp: arraySplice_def Let_def)

lemma findIndex_singleton: "findIndex P [x] = 0 \<or> findIndex P [x] = - 1"
  by (simp add: Let_def)

lemma resolvesI: "getDayMealPlan d s = Inr (w, Some dp) \<Longrightarrow> resolves d s"
  by (auto simp: resolves_def)

lemma resolvesE: "resolves d s \<Longrightarrow> \<exists>dp. getDayMealPlan d s = Inr (getMondayOfTheWeek d, Some dp)"
  by (auto simp: resolves_def getDayMealPlan_def Let_def split: option.splits)

text \<open>
  A move onto the instance's own slot with \<open>replace\<close>: the slot is cleared, the copy is
  inserted and adjusted, and the final delete removes the only entry of the slot.
\<close>

lemma move_onto_own_slot:
  assumes wf: "wfMealPlan (mealPlan s)"
    and g: "getRecipe rid (inPlan d m) s = Inr (Some recipe)"
    and ent: "origin recipe = CustomMealEntry \<or> (\<exists>is. ingredients recipe = Items is)"
    and inp: "date inputs = d" "meal inputs = m" "operation inputs = ''replace''"
  shows "\<exists>s'. addRecipeToMealPlan rid inputs (inPlan d m) s = Inr s' \<and>
           getMealSlot d m s' = [] \<and>
           (\<forall>d' m'. d' \<noteq> d \<or> m' \<noteq> m \<longrightarrow> getMealSlot d' m' s' = getMealSlot d' m' s) \<and>
           ingredientSearchResults s' = ingredientSearchResults s \<and>
           browseSearchResults s' = browseSearchResults s \<and> recipeBook s' = recipeBook s"
proof -
  let ?opts = "inPlan d m"
  let ?copy = "deepCopy recipe"
  let ?cid = "recipeId ?copy"
  let ?s1 = "setMealSlot d m [?copy] s"
  from g obtain wk dp where day: "getDayMealPlan d s = Inr (wk, Some dp)"
    by (cases rule: getRecipe_cases) auto
  then have wk: "wk = getMondayOfTheWeek d"
    by (auto simp: getDayMealPlan_def Let_def split: option.splits)
  have res: "resolves d s" using day by (rule resolvesI)
  have slot1: "getMealSlot d' m' ?s1 = (if d' = d \<and> m' = m then [?copy] else getMealSlot d' m' s)" for d' m'
    using day by (auto simp: getMealSlot_setMealSlot)
  have res1: "resolves d ?s1" using res resolves_cong [OF planKeys_setMealSlot] by simp
  then obtain dp1 where day1: "getDayMealPlan d ?s1 = Inr (wk, Some dp1)"
    using resolvesE wk by blast
  have g1: "getRecipe ?cid ?opts ?s1 = Inr (Some ?copy)"
    using getRecipe_plan [of ?opts d m ?s1 wk dp1 ?cid] day1 slot1 [of d m] hasId_deepCopy [of recipe]
    by simp
  \<comment> \<open>the state after the optional adjustment\<close>
  have "\<exists>s2. (if origin ?copy \<noteq> CustomMealEntry
               then adjustServings ?cid None ?opts (numServings inputs) ?s1 else Inr ?s1) = Inr s2 \<and>
          planKeys (mealPlan s2) = planKeys (mealPlan ?s1) \<and>
          length (getMealSlot d m s2) = 1 \<and>
          (\<forall>d' m'. d' \<noteq> d \<or> m' \<noteq> m \<longrightarrow> getMealSlot d' m' s2 = getMealSlot d' m' ?s1) \<and>
          ingredientSearchResults s2 = ingredientSearchResults s \<and>
          browseSearchResults s2 = browseSearchResults s \<and> recipeBook s2 = recipeBook s"
  proof (cases "origin ?copy \<noteq> CustomMealEntry")
    case False
    then show ?thesis using slot1 [of d m] by simp
  next
    case True
    with ent obtain "is" where "ingredients recipe = Items is" by auto
    then have "ingredients ?copy = Items (map deepCopyIngredient is)" by simp
    from adjustServings_total [OF g1 this] obtain s2
      where s2: "adjustServings ?cid None ?opts (numServings inputs) ?s1 = Inr s2" by blast
    from adjustServings_plan_frame [OF s2] adjustServings_plan_keys [OF s2] slot1 [of d m] True s2
    show ?thesis by simp
  qed
  then obtain s2 where adj: "(if origin ?copy \<noteq> CustomMealEntry
               then adjustServings ?cid None ?opts (numServings inputs) ?s1 else Inr ?s1) = Inr s2"
    and keys2: "planKeys (mealPlan s2) = planKeys (mealPlan ?s1)"
    and len2: "length (getMealSlot d m s2) = 1"
    and other2: "\<forall>d' m'. d' \<noteq> d \<or> m' \<noteq> m \<longrightarrow> getMealSlot d' m' s2 = getMealSlot d' m' ?s1"
    and lists2: "ingredientSearchResults s2 = ingredientSearchResults s"
      "browseSearchResults s2 = browseSearchResults s" "recipeBook s2 = recipeBook s"
    by blast
  have keys2': "planKeys (mealPlan s2) = planKeys (mealPlan s)" using keys2 by simp
  have wf2: "wfMealPlan (mealPlan s2)" using wf wfMealPlan_cong [OF keys2'] by simp
  then obtain s3 where s3: "updateNutritionForWeek wk s2 = Inr s3"
    using updateNutritionForWeek_total by blast
  note fr3 = updateNutritionForWeek_frame [OF s3]
  let ?s4 = "saveMealPlan s3"
  have keys4: "planKeys (mealPlan ?s4) = planKeys (mealPlan s)" using fr3 keys2' by simp
  have wf4: "wfMealPlan (mealPlan ?s4)" using wf wfMealPlan_cong [OF keys4] by simp
  have slot4: "getMealSlot d' m' ?s4 = getMealSlot d' m' s2" for d' m'
    using getMealSlot_updateNutritionForWeek [OF s3] by simp
  have "resolves d ?s4" using res resolves_cong [OF keys4] by simp
  then obtain dp4 where day4: "getDayMealPlan d ?s4 = Inr (wk, Some dp4)"
    using resolvesE wk by blast
  from deleteRecipeFromMealPlan_slots [OF wf4 day4, of rid m]
  obtain s' where del: "deleteRecipeFromMealPlan rid d m ?s4 = Inr s'"
    and slots': "\<forall>d' m'. getMealSlot d' m' s' =
              (if d' = d \<and> m' = m
               then arraySplice (findIndex (hasId rid) (getMealSlot d m ?s4)) 1 (getMealSlot d m ?s4)
               else getMealSlot d' m' ?s4)"
    and lists': "ingredientSearchResults s' = ingredientSearchResults ?s4"
      "browseSearchResults s' = browseSearchResults ?s4" "recipeBook s' = recipeBook ?s4"
    by blast
  from len2 obtain x where x: "getMealSlot d m ?s4 = [x]"
    unfolding slot4 by (cases "getMealSlot d m s2") auto
  have empty: "getMealSlot d m s' = []"
    using slots' [rule_format, of d m] x findIndex_singleton [of "hasId rid" x]
    by (simp add: arraySplice_singleton)
  have others: "\<forall>d' m'. d' \<noteq> d \<or> m' \<noteq> m \<longrightarrow> getMealSlot d' m' s' = getMealSlot d' m' s"
    using slots' slot4 other2 slot1 by auto
  have run: "addRecipeToMealPlan rid inputs ?opts s = Inr s'"
    using day g adj s3 del inp
    by (auto simp: addRecipeToMealPlan_def Let_def inPlan_def split: if_splits)
  show ?thesis
    using run empty others lists' lists2 fr3 by simp
qed

lemma replaceMondayLunch_simps:
  "date replaceMondayLunch = 20108" "meal replaceMondayLunch = Lunch"
  "operation replaceMondayLunch = ''replace''"
  by (simp_all add: replaceMondayLunch_def)

lemma pasta_entity: "origin pasta = CustomMealEntry \<or> (\<exists>is. ingredients pasta = Items is)"
  by (simp add: pasta_def)

text \<open>
  C10, as stated, fails when another slot holds an instance with the same id: the pasta of
  Monday lunch, moved onto Monday lunch with \<open>replace\<close>, leaves Monday lunch empty, and the
  pasta of Tuesday lunch is still in the meal plan.
\<close>

theorem move_in_place_counterexample:
  "observe (getMealSlot 20108 Lunch)
     (addRecipeToMealPlan (Num (Fin 42)) replaceMondayLunch (inPlan 20108 Lunch) plannedState) = Inr [] \<and>
   observe (getMealSlot 20109 Lunch)
     (addRecipeToMealPlan (Num (Fin 42)) replaceMondayLunch (inPlan 20108 Lunch) plannedState) = Inr [pasta]"
proof -
  from move_onto_own_slot [OF wf_plannedState getRecipe_plan_pasta pasta_entity replaceMondayLunch_simps]
  obtain s' where "addRecipeToMealPlan (Num (Fin 42)) replaceMondayLunch (inPlan 20108 Lunch) plannedState = Inr s'"
    "getMealSlot 20108 Lunch s' = []"
    "\<forall>d' m'. d' \<noteq> 20108 \<or> m' \<noteq> Lunch \<longrightarrow> getMealSlot d' m' s' = getMealSlot d' m' plannedState"
    by blast
  moreover from this(3) have "getMealSlot 20109 Lunch s' = getMealSlot 20109 Lunch plannedState"
    by simp
  ultimately show ?thesis by (simp add: observe_def plannedState_slots)
qed

text \<open>
  C10, amended: for a recipe instance scheduled in a slot of a well-formed meal plan (a custom
  meal entry, or a recipe with an ingredient list), \<open>addRecipeToMealPlan\<close> as a move onto the
  instance's own date and slot with operation \<open>"replace"\<close> returns with that slot empty and
  every other slot as it was; so the recipe is absent from the entire meal plan exactly when no
  other slot held an entry with its id.
\<close>

theorem move_in_place_empties_slot:
  assumes "wfMealPlan (mealPlan s)"
    and "getRecipe rid (inPlan d m) s = Inr (Some recipe)"
    and "origin recipe = CustomMealEntry \<or> (\<exists>is. ingredients recipe = Items is)"
    and "date inputs = d" and "meal inputs = m" and "operation inputs = ''replace''"
  shows "\<exists>s'. addRecipeToMealPlan rid inputs (inPlan d m) s = Inr s' \<and>
           getMealSlot d m s' = [] \<and>
           (\<forall>d' m'. d' \<noteq> d \<or> m' \<noteq> m \<longrightarrow> getMealSlot d' m' s' = getMealSlot d' m' s) \<and>
           ((\<forall>d' m' r. r \<in> set (getMealSlot d' m' s') \<longrightarrow> \<not> hasId rid r) =
            (\<forall>d' m' r. (d' \<noteq> d \<or> m' \<noteq> m) \<longrightarrow> r \<in> set (getMealSlot d' m' s) \<longrightarrow> \<not> hasId rid r))"
proof -
  from move_onto_own_slot [OF assms]
  obtain s' where run: "addRecipeToMealPlan rid inputs (inPlan d m) s = Inr s'"
    and empty: "getMealSlot d m s' = []"
    and others: "\<forall>d' m'. d' \<noteq> d \<or> m' \<noteq> m \<longrightarrow> getMealSlot d' m' s' = getMealSlot d' m' s"
    by blast
  have "(\<forall>d' m' r. r \<in> set (getMealSlot d' m' s') \<longrightarrow> \<not> hasId rid r) =
        (\<forall>d' m' r. (d' \<noteq> d \<or> m' \<noteq> m) \<longrightarrow> r \<in> set (getMealSlot d' m' s) \<longrightarrow> \<not> hasId rid r)"
  proof
    assume a: "\<forall>d' m' r. r \<in> set (getMealSlot d' m' s') \<longrightarrow> \<not> hasId rid r"
    show "\<forall>d' m' r. (d' \<noteq> d \<or> m' \<noteq> m) \<longrightarrow> r \<in> set (getMealSlot d' m' s) \<longrightarrow> \<not> hasId rid r"
    proof (intro allI impI)
      fix d' m' r assume "d' \<noteq> d \<or> m' \<noteq> m" "r \<in> set (getMealSlot d' m' s)"
      with others have "r \<in> set (getMealSlot d' m' s')" by simp
      with a show "\<not> hasId rid r" by blast
    qed
  next
    assume b: "\<forall>d' m' r. (d' \<noteq> d \<or> m' \<noteq> m) \<longrightarrow> r \<in> set (getMealSlot d' m' s) \<longrightarrow> \<not> hasId rid r"
    show "\<forall>d' m' r. r \<in> set (getMealSlot d' m' s') \<longrightarrow> \<not> hasId rid r"
    proof (intro allI impI)
      fix d' m' r assume r: "r \<in> set (getMealSlot d' m' s')"
      show "\<not> hasId rid r"
      proof (cases "d' = d \<and> m' = m")
        case True
        with r empty show ?thesis by simp
      next
        case False
        with r others have "r \<in> set (getMealSlot d' m' s)" by simp
        with b False show ?thesis by blast
      qed
    qed
  qed
  with run empty others show ?thesis by blast
qed

theorem move_in_place_empties_slot_witness:
  "\<exists>s'. addRecipeToMealPlan (recipeId leftovers)
           \<lparr>date = 20108, meal = Dinner, operation = ''replace'', numServings = Str ''1''\<rparr>
           (inPlan 20108 Dinner) plannedState = Inr s' \<and>
        getMealSlot 20108 Dinner s' = [] \<and>
        getMealSlot 20108 Lunch s' = [pasta, salad] \<and>
        getMealSlot 20109 Lunch s' = [pasta]"
proof -
  have ent: "origin leftovers = CustomMealEntry \<or> (\<exists>is. ingredients leftovers = Items is)"
    by (simp add: leftovers_def createCustomRecipeObject_def)
  from move_in_place_empties_slot [OF wf_plannedState getRecipe_leftovers ent,
      of "\<lparr>date = 20108, meal = Dinner, operation = ''replace'', numServings = Str ''1''\<rparr>"]
  obtain s' where "addRecipeToMealPlan (recipeId leftovers)
           \<lparr>date = 20108, meal = Dinner, operation = ''replace'', numServings = Str ''1''\<rparr>
           (inPlan 20108 Dinner) plannedState = Inr s'"
    "getMealSlot 20108 Dinner s' = []"
    "\<forall>d' m'. d' \<noteq> 20108 \<or> m' \<noteq> Dinner \<longrightarrow> getMealSlot d' m' s' = getMealSlot d' m' plannedState"
    by auto
  moreover from this(3) have "getMealSlot 20108 Lunch s' = getMealSlot 20108 Lunch plannedState"
    "getMealSlot 20109 Lunch s' = getMealSlot 20109 Lunch plannedState"
    by simp_all
  ultimately show ?thesis by (simp add: plannedState_slots)
qed

section \<open>Nutrition totals\<close>

lemma dayTotals_foldl: "dayTotals ms = foldl addRecipeNutrition zeroNutrition (dayRecipes ms)"
  by (simp add: dayTotals_def dayRecipes_def)

lemma js_plus_finite: "isFinite v \<Longrightarrow> js_plus (Num x) v = Num (num_add x (toNumber v))"
  by (cases v rule: isFinite.cases) simp_all

lemma foldl_addRecipeNutrition_sum:
  assumes "\<forall>r\<in>set rs. finiteMacros r"
  shows "foldl addRecipeNutrition
           \<lparr>calories_total = Num a, protein_total = Num b, carbs_total = Num c, fats_total = Num e\<rparr> rs =
         \<lparr>calories_total = Num (foldl (\<lambda>x v. num_add x (toNumber v)) a (map calories rs)),
          protein_total = Num (foldl (\<lambda>x v. num_add x (toNumber v)) b (map protein rs)),
          carbs_total = Num (foldl (\<lambda>x v. num_add x (toNumber v)) c (map carbs rs)),
          fats_total = Num (foldl (\<lambda>x v. num_add x (toNumber v)) e (map fats rs))\<rparr>"
  using assms
proof (induction rs arbitrary: a b c e)
  case Nil
  then show ?case by simp
next
  case (Cons r rs)
  then have fin: "finiteMacros r" and rest: "\<forall>r\<in>set rs. finiteMacros r" by simp_all
  from fin have step: "addRecipeNutrition
           \<lparr>calories_total = Num a, protein_total = Num b, carbs_total = Num c, fats_total = Num e\<rparr> r =
           \<lparr>calories_total = Num (num_add a (toNumber (calories r))),
            protein_total = Num (num_add b (toNumber (protein r))),
            carbs_total = Num (num_add c (toNumber (carbs r))),
            fats_total = Num (num_add e (toNumber (fats r)))\<rparr>"
    by (simp add: addRecipeNutrition_def finiteMacros_def js_plus_finite)
  show ?case
    by (simp only: foldl_Cons step Cons.IH [OF rest] list.map)
qed

text \<open>
  With finite macro values, the totals of a day are numbers: the sums over all its recipes as
  the runtime adds them.
\<close>

lemma dayTotals_sum:
  assumes "\<forall>r\<in>set (dayRecipes ms). finiteMacros r"
  shows "dayTotals ms =
         \<lparr>calories_total = Num (floatSum (map calories (dayRecipes ms))),
          protein_total = Num (floatSum (map protein (dayRecipes ms))),
          carbs_total = Num (floatSum (map carbs (dayRecipes ms))),
          fats_total = Num (floatSum (map fats (dayRecipes ms)))\<rparr>"
  using foldl_addRecipeNutrition_sum [OF assms, of "Fin 0" "Fin 0" "Fin 0" "Fin 0"]
  by (simp add: dayTotals_foldl zeroNutrition_def floatSum_def)

lemma getDayMealPlan_week: "getDayMealPlan d s = Inr (w, x) \<Longrightarrow> w = getMondayOfTheWeek d"
  by (auto simp: getDayMealPlan_def Let_def split: option.splits)

lemma createCustomMealEntry_totals:
  assumes wf: "wfMealPlan (mealPlan s)" and run: "createCustomMealEntry uid inputs s = Inr s'"
  shows "weekTotalsOk (getMondayOfTheWeek (entryDate inputs)) s'"
proof -
  from run obtain wk dp where day: "getDayMealPlan (entryDate inputs) s = Inr (wk, Some dp)"
    by (auto simp: createCustomMealEntry_def split: sum.splits option.splits prod.splits)
  let ?s1 = "setMealSlot (entryDate inputs) (entryMeal inputs)
      (getMeals (entryMeal inputs) (meals dp) @ [createCustomRecipeObject uid inputs]) s"
  from run day obtain s2 where s2: "updateNutritionForWeek wk ?s1 = Inr s2" and s': "s' = saveMealPlan s2"
    by (auto simp: createCustomMealEntry_def Let_def split: sum.splits)
  have wf1: "wfMealPlan (mealPlan ?s1)" using wf wfMealPlan_cong [OF planKeys_setMealSlot] by simp
  show ?thesis
    using weekTotalsOk_updateNutritionForWeek [OF s2 wf1] weekTotalsOk_cong [of s' s2 wk] s'
      getDayMealPlan_week [OF day] by simp
qed

lemma addRecipeToMealPlan_totals:
  assumes wf: "wfMealPlan (mealPlan s)" and run: "addRecipeToMealPlan rid inputs opts s = Inr s'"
  shows "weekTotalsOk (getMondayOfTheWeek (date inputs)) s' \<and>
         (source opts = MealPlan \<longrightarrow> (\<forall>d. currentDate opts = Some d \<longrightarrow> weekTotalsOk (getMondayOfTheWeek d) s'))"
proof -
  from run obtain wk dp where day: "getDayMealPlan (date inputs) s = Inr (wk, Some dp)"
    by (auto simp: addRecipeToMealPlan_def split: sum.splits option.splits prod.splits source.splits)
  from run day obtain recipe where g: "getRecipe rid opts s = Inr (Some recipe)"
    by (auto simp: addRecipeToMealPlan_def split: sum.splits option.splits prod.splits source.splits)
  let ?copy = "deepCopy recipe"
  let ?slot = "(if operation inputs = ''replace'' then [] else getMeals (meal inputs) (meals dp)) @ [?copy]"
  let ?s1 = "setMealSlot (date inputs) (meal inputs) ?slot s"
  let ?adj = "if origin ?copy \<noteq> CustomMealEntry
      then adjustServings (recipeId ?copy) None (inPlan (date inputs) (meal inputs)) (numServings inputs) ?s1
      else Inr ?s1"
  from run day g obtain s2 s3 where s2: "?adj = Inr s2" and s3: "updateNutritionForWeek wk s2 = Inr s3"
    and fin: "(if source opts = MealPlan
               then (case (currentDate opts, currentMeal opts) of
                       (Some d, Some m) \<Rightarrow> deleteRecipeFromMealPlan rid d m (saveMealPlan s3)
                     | _ \<Rightarrow> Inl TypeError)
               else Inr (saveMealPlan s3)) = Inr s'"
    by (auto simp: addRecipeToMealPlan_def Let_def inPlan_def split: sum.splits if_splits)
  have keys2: "planKeys (mealPlan s2) = planKeys (mealPlan s)"
    using s2 adjustServings_plan_keys [of "recipeId ?copy" None "date inputs" "meal inputs" "numServings inputs" ?s1 s2]
    by (auto split: if_splits)
  have wf2: "wfMealPlan (mealPlan s2)" using wf wfMealPlan_cong [OF keys2] by simp
  have ok3: "weekTotalsOk wk s3" by (rule weekTotalsOk_updateNutritionForWeek [OF s3 wf2])
  let ?s4 = "saveMealPlan s3"
  have ok4: "weekTotalsOk wk ?s4" using ok3 weekTotalsOk_cong [of ?s4 s3 wk] by simp
  have keys4: "planKeys (mealPlan ?s4) = planKeys (mealPlan s)"
    using updateNutritionForWeek_frame [OF s3] keys2 by simp
  have wf4: "wfMealPlan (mealPlan ?s4)" using wf wfMealPlan_cong [OF keys4] by simp
  have wk: "wk = getMondayOfTheWeek (date inputs)" using day by (rule getDayMealPlan_week)
  show ?thesis
  proof (cases "source opts = MealPlan")
    case False
    with fin ok4 wk show ?thesis by simp
  next
    case True
    with fin obtain d m where dm: "currentDate opts = Some d" "currentMeal opts = Some m"
      and del: "deleteRecipeFromMealPlan rid d m ?s4 = Inr s'"
      by (auto split: option.splits)
    from del obtain wk' dp' where day': "getDayMealPlan d ?s4 = Inr (wk', Some dp')"
      by (auto simp: deleteRecipeFromMealPlan_def split: sum.splits option.splits prod.splits)
    from deleteRecipeFromMealPlan_totals [OF wf4 day' del, of wk] ok4
    have "weekTotalsOk wk' s'" "weekTotalsOk wk s'" by simp_all
    with dm wk getDayMealPlan_week [OF day'] True show ?thesis by simp
  qed
qed

text \<open>
  After each mutation of the meal plan that returns, on a well-formed plan, every day of an
  affected week carries the totals that the loop of \<open>updateNutritionForDay\<close> computes from
  the day's four slots; they are the sums, as the runtime adds them, when the macro values of
  the day's recipes are finite numbers.
\<close>

lemma totals_after_mutation:
  assumes wf: "wfMealPlan (mealPlan s)"
    and run: "addRecipeToMealPlan rid inputs opts s = Inr s' \<and>
                (wk = getMondayOfTheWeek (date inputs) \<or>
                 source opts = MealPlan \<and> currentDate opts = Some d \<and> wk = getMondayOfTheWeek d) \<or>
              deleteRecipeFromMealPlan rid d m s = Inr s' \<and> wk = getMondayOfTheWeek d \<or>
              createCustomMealEntry uid entry s = Inr s' \<and> wk = getMondayOfTheWeek (entryDate entry)"
    and day: "getDayMealPlan day s' = Inr (wk, Some dp)"
  shows "nutrition dp = dayTotals (meals dp)"
    and "\<forall>r\<in>set (dayRecipes (meals dp)). finiteMacros r \<Longrightarrow>
         nutrition dp =
           \<lparr>calories_total = Num (floatSum (map calories (dayRecipes (meals dp)))),
            protein_total = Num (floatSum (map protein (dayRecipes (meals dp)))),
            carbs_total = Num (floatSum (map carbs (dayRecipes (meals dp)))),
            fats_total = Num (floatSum (map fats (dayRecipes (meals dp))))\<rparr>"
proof -
  have "weekTotalsOk wk s'"
    using run
  proof (elim disjE conjE)
    assume "addRecipeToMealPlan rid inputs opts s = Inr s'" "wk = getMondayOfTheWeek (date inputs)"
    then show ?thesis using addRecipeToMealPlan_totals [OF wf] by blast
  next
    assume "addRecipeToMealPlan rid inputs opts s = Inr s'" "source opts = MealPlan"
      "currentDate opts = Some d" "wk = getMondayOfTheWeek d"
    then show ?thesis using addRecipeToMealPlan_totals [OF wf] by blast
  next
    assume del: "deleteRecipeFromMealPlan rid d m s = Inr s'" and wk: "wk = getMondayOfTheWeek d"
    from del obtain wk' dp' where day': "getDayMealPlan d s = Inr (wk', Some dp')"
      by (auto simp: deleteRecipeFromMealPlan_def split: sum.splits option.splits prod.splits)
    from deleteRecipeFromMealPlan_totals [OF wf day' del] getDayMealPlan_week [OF day'] wk
    show ?thesis by simp
  next
    assume "createCustomMealEntry uid entry s = Inr s'" "wk = getMondayOfTheWeek (entryDate entry)"
    then show ?thesis using createCustomMealEntry_totals [OF wf] by blast
  qed
  with day show t: "nutrition dp = dayTotals (meals dp)" by (auto simp: weekTotalsOk_def)
  show "nutrition dp =
           \<lparr>calories_total = Num (floatSum (map calories (dayRecipes (meals dp)))),
            protein_total = Num (floatSum (map protein (dayRecipes (meals dp)))),
            carbs_total = Num (floatSum (map carbs (dayRecipes (meals dp)))),
            fats_total = Num (floatSum (map fats (dayRecipes (meals dp))))\<rparr>"
    if "\<forall>r\<in>set (dayRecipes (meals dp)). finiteMacros r"
    using t dayTotals_sum [OF that] by simp
qed

lemma stringToNumber_450: "stringToNumber ''450'' = Fin 450"
  by (simp add: stringToNumber_def trim_def isWhiteSpace_def parseDecimal_def isDigitOf_def
      digitValue_def digitsValue_def)

lemma numberToString_450: "numberToString (Fin 450) = ''450''"
  by (simp add: numberToString_def natToString.simps digitChar_def)

lemma numberToString_0: "numberToString (Fin 0) = ''0''"
  by (simp add: numberToString_def natToString.simps digitChar_def)

lemma stringToNumber_macros:
  "stringToNumber ''30'' = Fin 30" "stringToNumber ''40'' = Fin 40" "stringToNumber ''15'' = Fin 15"
  by (simp_all add: stringToNumber_def trim_def isWhiteSpace_def parseDecimal_def isDigitOf_def
      digitValue_def digitsValue_def)

text \<open>
  C1 at a day that holds a recipe without a finite amount of calories (the sentinel
  \<open>"-"\<close> of \<open>getNutrientValue\<close>, which \<open>isValidRecipe\<close> lets through): after a custom
  meal entry of 450 calories is added to the day, the day's calories are the text
  \<open>"0-450"\<close>, the concatenation that \<open>+=\<close> makes of them, and not a sum.
\<close>

theorem sentinel_calories_break_the_total:
  "observe (dayNutrition 20108)
     (createCustomMealEntry (Num (Fin 1737370000000123456)) leftoversInputs brothState) =
   Inr (Some \<lparr>calories_total = Str ''0-450'', protein_total = Num (Fin 50),
              carbs_total = Num (Fin 140), fats_total = Num (Fin 26)\<rparr>)"
  by (simp add: observe_def dayNutrition_def createCustomMealEntry_def brothState_def emptyState_def
      leftoversInputs_def getDayMealPlan_def getMondayOfTheWeek_def setMealSlot_def setDayMealPlan_def
      createWeeklyMealPlan_def createEmptyMealObj_def updateNutritionForWeek_def updateNutritionForDay_def
      saveMealPlan_def zeroNutrition_def addRecipeNutrition_def createCustomRecipeObject_def broth_def
      pasta_def stringToNumber_450 stringToNumber_macros numberToString_450 numberToString_0 Let_def)

section \<open>Duplicate in a slot\<close>

text \<open>
  C8: when the target slot holds a recipe with the id and the operation is not
  \<open>"replace"\<close>, \<open>controlAddRecipeToPlan\<close> renders the message that the recipe already exists
  in the slot and returns: the state, with its meal plan, its totals and the two records of the
  storage, is the one it started from.
\<close>

theorem duplicate_in_slot_is_rejected:
  assumes "getDayMealPlan (date inputs) s = Inr (wk, Some dp)"
    and "r \<in> set (getMeals (meal inputs) (meals dp))"
    and "recipeId r = rid"
    and "operation inputs \<noteq> ''replace''"
  shows "controlAddRecipeToPlan rid inputs opts s = Inr (MealExistsError, s)"
  using assms
  by (auto simp: controlAddRecipeToPlan_def isRecipeAlreadyInMealSlot_def mealsInMealSlot_def)

theorem duplicate_in_slot_is_rejected_witness:
  "controlAddRecipeToPlan (Num (Fin 42)) addMondayLunch inBook plannedState = Inr (MealExistsError, plannedState)"
proof -
  have "date addMondayLunch = 20108" "meal addMondayLunch = Lunch" "operation addMondayLunch \<noteq> ''replace''"
    by (simp_all add: addMondayLunch_def)
  moreover have "pasta \<in> set (getMeals Lunch (meals \<lparr>meals = \<lparr>breakfast = [], lunch = [pasta, salad], snacks = [], dinner = [leftovers]\<rparr>,
                       nutrition = zeroNutrition\<rparr>))"
    by simp
  moreover have "recipeId pasta = Num (Fin 42)" by (simp add: pasta_def)
  ultimately show ?thesis
    using duplicate_in_slot_is_rejected [of addMondayLunch plannedState 20108 _ pasta "Num (Fin 42)" inBook]
      monday_plannedState
    by simp
qed

lemma arraySplice_Cons_0: "arraySplice 0 1 (a # xs) = xs"
  by (simp add: arraySplice_def Let_def)

lemma arraySplice_Cons_Suc: "0 \<le> i \<Longrightarrow> arraySplice (i + 1) 1 (a # xs) = a # arraySplice i 1 xs"
proof (cases "i < int (length xs)")
  case True
  assume "0 \<le> i"
  with True have "arraySplice (i + 1) 1 (a # xs) = take (nat (i + 1)) (a # xs) @ drop (Suc (nat (i + 1))) (a # xs)"
    by (intro arraySplice_one) auto
  moreover from True \<open>0 \<le> i\<close> have "arraySplice i 1 xs = take (nat i) xs @ drop (Suc (nat i)) xs"
    by (intro arraySplice_one) auto
  moreover from \<open>0 \<le> i\<close> have "nat (i + 1) = Suc (nat i)" by simp
  ultimately show ?thesis by simp
next
  case False
  assume "0 \<le> i"
  with False have "arraySplice (i + 1) 1 (a # xs) = a # xs" "arraySplice i 1 xs = xs"
    by (simp_all add: arraySplice_def Let_def)
  then show ?thesis by simp
qed

lemma find_SomeD: "find P xs = Some x \<Longrightarrow> P x \<and> x \<in> set xs"
  by (induction xs) (auto split: if_splits)

section \<open>Bookmarks\<close>

lemma setBookmark_flag: "r' \<in> set (setBookmark rid b rs) \<Longrightarrow> hasId rid r' \<Longrightarrow> isBookmarked r' = b"
  by (auto simp: setBookmark_def hasId_def split: if_splits)

lemma setBookmark_append [simp]: "setBookmark rid b (xs @ ys) = setBookmark rid b xs @ setBookmark rid b ys"
  by (simp add: setBookmark_def)

lemma setBookmark_Nil [simp]: "setBookmark rid b [] = []"
  by (simp add: setBookmark_def)

lemma setBookmark_concat: "setBookmark rid b (concat xss) = concat (map (setBookmark rid b) xss)"
  by (induction xss) simp_all

lemma hasId_setBookmark: "r' \<in> set (setBookmark rid b rs) \<Longrightarrow> \<exists>x\<in>set rs. hasId rid' r' = hasId rid' x"
  by (auto simp: setBookmark_def hasId_def split: if_splits)

lemma dayRecipes_mapMeals:
  "dayRecipes (mapMeals (setBookmark rid b) ms) = setBookmark rid b (dayRecipes ms)"
  by (simp add: dayRecipes_def mapMeals_def)

lemma weekRecipes_sync:
  "concat (map (\<lambda>(day, dayPlan). dayRecipes (meals dayPlan))
     (map (\<lambda>(day, dayPlan). (day, dayPlan\<lparr>meals := mapMeals (setBookmark rid b) (meals dayPlan)\<rparr>)) week))
   = setBookmark rid b (concat (map (\<lambda>(day, dayPlan). dayRecipes (meals dayPlan)) week))"
proof (induction week)
  case Nil
  then show ?case by simp
next
  case (Cons p week)
  obtain d dp where p: "p = (d, dp)" by (cases p)
  show ?case using Cons.IH by (simp add: p dayRecipes_mapMeals)
qed

lemma planRecipes_map_sync:
  "planRecipes (map (\<lambda>(week, weekPlan).
                (week, map (\<lambda>(day, dayPlan).
                              (day, dayPlan\<lparr>meals := mapMeals (setBookmark rid b) (meals dayPlan)\<rparr>))
                         weekPlan)) p) = setBookmark rid b (planRecipes p)"
proof (induction p)
  case Nil
  then show ?case by (simp add: planRecipes_def)
next
  case (Cons a p)
  obtain w week where a: "a = (w, week)" by (cases a)
  from Cons.IH weekRecipes_sync [of rid b week] show ?case
    unfolding planRecipes_def by (simp add: a)
qed

lemma allRecipes_synchronizeBookmarkStatus:
  "allRecipes (synchronizeBookmarkStatus rid b s) = setBookmark rid b (allRecipes s)"
  by (simp add: allRecipes_def synchronizeBookmarkStatus_def syncMealPlannerBookmarkStatus_def
      planRecipes_map_sync)

lemma recipeBook_synchronizeBookmarks:
  "recipeBook (synchronizeBookmarks rid b s) = setBookmark rid b (recipeBook s)"
  by (simp add: synchronizeBookmarks_def synchronizeBookmarkStatus_def syncMealPlannerBookmarkStatus_def)

lemma allRecipes_synchronizeBookmarks:
  "allRecipes (synchronizeBookmarks rid b s) = setBookmark rid b (allRecipes s)"
  using allRecipes_synchronizeBookmarkStatus [of rid b s]
  by (simp add: synchronizeBookmarks_def allRecipes_def)

lemma setBookmark_updateFirst:
  "find (hasId rid) rs = Some r \<Longrightarrow>
   setBookmark rid b (updateFirst (hasId rid) (\<lambda>_. r\<lparr>isBookmarked := b'\<rparr>) rs) = setBookmark rid b rs"
proof (induction rs)
  case Nil
  then show ?case by simp
next
  case (Cons a rs)
  show ?case
  proof (cases "hasId rid a")
    case True
    with Cons.prems have "a = r" by simp
    with True show ?thesis by (simp add: setBookmark_def hasId_def)
  next
    case False
    with Cons show ?thesis by (simp add: setBookmark_def)
  qed
qed

lemma arraySplice_updateFirst:
  "find P xs = Some x \<Longrightarrow> P y \<Longrightarrow>
   arraySplice (findIndex P (updateFirst P (\<lambda>_. y) xs)) 1 (updateFirst P (\<lambda>_. y) xs) =
   arraySplice (findIndex P xs) 1 xs"
proof (induction xs)
  case Nil
  then show ?case by simp
next
  case (Cons a xs)
  show ?case
  proof (cases "P a")
    case True
    with Cons.prems show ?thesis by (simp add: arraySplice_Cons_0)
  next
    case False
    with Cons.prems have f: "find P xs = Some x" by simp
    then have ex: "\<exists>z\<in>set xs. P z" using find_SomeD by fastforce
    then have i: "0 \<le> findIndex P xs" by (rule findIndex_nonneg)
    have "find P (updateFirst P (\<lambda>_. y) xs) = Some y" using f Cons.prems(2) by (rule find_updateFirst)
    then have "\<exists>z\<in>set (updateFirst P (\<lambda>_. y) xs). P z" using find_SomeD by fastforce
    then have i': "0 \<le> findIndex P (updateFirst P (\<lambda>_. y) xs)" by (rule findIndex_nonneg)
    have neg: "\<not> findIndex P xs < 0" "\<not> findIndex P (updateFirst P (\<lambda>_. y) xs) < 0"
      using i i' by simp_all
    from False Cons.IH [OF f Cons.prems(2)] show ?thesis
      by (simp add: Let_def neg arraySplice_Cons_Suc [OF i] arraySplice_Cons_Suc [OF i'])
  qed
qed

lemma arraySplice_unique:
  "length (filter P xs) \<le> 1 \<Longrightarrow> \<forall>x\<in>set (arraySplice (findIndex P xs) 1 xs). \<not> P x"
proof (induction xs)
  case Nil
  then show ?case by (simp add: arraySplice_def)
next
  case (Cons a xs)
  show ?case
  proof (cases "P a")
    case True
    with Cons.prems have "filter P xs = []" by simp
    then have "\<forall>x\<in>set xs. \<not> P x" by (simp add: filter_empty_conv)
    with True show ?thesis by (simp add: arraySplice_Cons_0)
  next
    case False
    with Cons.prems have le: "length (filter P xs) \<le> 1" by simp
    show ?thesis
    proof (cases "\<exists>z\<in>set xs. P z")
      case True
      then have i: "0 \<le> findIndex P xs" by (rule findIndex_nonneg)
      then have "\<not> findIndex P xs < 0" by simp
      with False Cons.IH [OF le] show ?thesis by (simp add: Let_def arraySplice_Cons_Suc [OF i])
    next
      case no: False
      with False have idx: "findIndex P (a # xs) = - 1" by (intro findIndex_none) auto
      have "\<forall>x\<in>set (butlast (a # xs)). \<not> P x"
      proof
        fix x assume "x \<in> set (butlast (a # xs))"
        then have "x \<in> set (a # xs)" by (rule in_set_butlastD)
        with no False show "\<not> P x" by auto
      qed
      then show ?thesis unfolding idx arraySplice_last .
    qed
  qed
qed

lemma isBookmarked_same: "isBookmarked x = b \<Longrightarrow> x\<lparr>isBookmarked := b\<rparr> = x"
  by auto

lemma hasId_isBookmarked_update [simp]: "hasId rid (x\<lparr>isBookmarked := b\<rparr>) = hasId rid x"
  by (simp add: hasId_def)

lemma find_setBookmark:
  "find (hasId rid) (setBookmark rid b rs) = map_option (\<lambda>r. r\<lparr>isBookmarked := b\<rparr>) (find (hasId rid) rs)"
  by (induction rs) (auto simp: setBookmark_def)

text \<open>After \<open>updateBookmarkStatus\<close> the lookup finds the entity with the new flag.\<close>

lemma updateBookmarkStatus_result:
  assumes g: "getRecipe rid opts s = Inr (Some recipe)"
  shows "\<exists>s1. updateBookmarkStatus rid b opts s = Inr s1 \<and>
           getRecipe rid opts s1 = Inr (Some (recipe\<lparr>isBookmarked := b\<rparr>)) \<and>
           recipeBook s1 =
             (if source opts = RecipeBook
              then updateFirst (hasId rid) (\<lambda>_. recipe\<lparr>isBookmarked := b\<rparr>) (recipeBook s)
              else recipeBook s)"
  using g
proof (cases rule: getRecipe_cases)
  case (plan d m w dp)
  let ?s1 = "setMealSlot d m (setBookmark rid b (getMeals m (meals dp))) s"
  have u: "updateBookmarkStatus rid b opts s = Inr ?s1"
    using plan by (simp add: updateBookmarkStatus_def)
  have slot: "getMealSlot d m s = getMeals m (meals dp)" using plan(4) by (rule getMealSlot_resolved)
  have "getDayMealPlan d ?s1 = Inr (w, Some (dp\<lparr>meals := setMeals m (setBookmark rid b (getMeals m (meals dp))) (meals dp)\<rparr>))"
    using plan(4) by (simp add: getDayMealPlan_setMealSlot)
  moreover have "getMealSlot d m ?s1 = setBookmark rid b (getMeals m (meals dp))"
    using plan(4) by (auto simp: getMealSlot_setMealSlot)
  ultimately have "getRecipe rid opts ?s1 = Inr (Some (recipe\<lparr>isBookmarked := b\<rparr>))"
    using getRecipe_plan [OF plan(1,2,3), of ?s1] plan(5) slot by (simp add: find_setBookmark)
  with u plan(1) show ?thesis by simp
next
  case (browse rs)
  let ?r = "recipe\<lparr>isBookmarked := b\<rparr>"
  let ?s1 = "setSourceArray (source opts) (updateFirst (hasId rid) (\<lambda>_. ?r) rs) s"
  have gb: "getRecipeFromBrowse rid (source opts) s = Inr (Some recipe)"
    using browse by (simp add: getRecipeFromBrowse_def)
  have u: "updateBookmarkStatus rid b opts s = Inr ?s1"
    using browse gb putRecipe_browse [OF browse(1,2), of rid ?r]
    by (auto simp: updateBookmarkStatus_def split: source.splits option.splits)
  have hr: "hasId rid ?r" using browse(3) find_SomeD [of "hasId rid" rs recipe] by simp
  have "getSourceArray (source opts) ?s1 = Some (updateFirst (hasId rid) (\<lambda>_. ?r) rs)"
    using browse(1) by (simp add: getSourceArray_setSourceArray)
  then have "getRecipe rid opts ?s1 = Inr (Some ?r)"
    using getRecipe_browse [OF browse(1), of ?s1] find_updateFirst [OF browse(3) hr] by simp
  moreover have "recipeBook ?s1 =
             (if source opts = RecipeBook
              then updateFirst (hasId rid) (\<lambda>_. ?r) (recipeBook s)
              else recipeBook s)"
    using browse(1,2) by (cases "source opts") (auto simp: setSourceArray_def getSourceArray_def)
  ultimately show ?thesis using u by simp
qed

lemma getRecipe_book:
  "source opts = RecipeBook \<Longrightarrow> getRecipe rid opts s = Inr (find (hasId rid) (recipeBook s))"
  by (simp add: getRecipe_def getRecipeFromBrowse_def getSourceArray_def)

text \<open>The recipe book after \<open>toggleBookmarkStatus\<close>.\<close>

lemma toggleBookmarkStatus_result:
  assumes g: "getRecipe rid opts s = Inr (Some recipe)"
  shows "\<exists>s2. toggleBookmarkStatus rid opts s = Inr (\<not> isBookmarked recipe, s2) \<and>
           (\<not> isBookmarked recipe \<longrightarrow>
              setBookmark rid True (recipeBook s2) =
                setBookmark rid True (recipeBook s) @ [deepCopy (recipe\<lparr>isBookmarked := True\<rparr>)]) \<and>
           (isBookmarked recipe \<longrightarrow>
              recipeBook s2 = arraySplice (findIndex (hasId rid) (recipeBook s)) 1 (recipeBook s))"
proof -
  let ?b = "\<not> isBookmarked recipe"
  let ?r = "recipe\<lparr>isBookmarked := ?b\<rparr>"
  from updateBookmarkStatus_result [OF g, of ?b]
  obtain s1 where u: "updateBookmarkStatus rid ?b opts s = Inr s1"
    and g1: "getRecipe rid opts s1 = Inr (Some ?r)"
    and book1: "recipeBook s1 =
             (if source opts = RecipeBook
              then updateFirst (hasId rid) (\<lambda>_. ?r) (recipeBook s)
              else recipeBook s)"
    by blast
  have st: "getBookmarkStatus rid opts s = Inr (isBookmarked recipe)"
    using g by (simp add: getBookmarkStatus_def)
  have inbook: "find (hasId rid) (recipeBook s) = Some recipe" if "source opts = RecipeBook"
    using g getRecipe_book [OF that, of rid s] by simp
  have hr: "hasId rid ?r"
    using g by (cases rule: getRecipe_cases) (auto dest: find_SomeD)
  show ?thesis
  proof (cases "isBookmarked recipe")
    case False
    let ?copy = "deepCopy (recipe\<lparr>isBookmarked := True\<rparr>)"
    let ?s2 = "saveRecipeBook (s1\<lparr>recipeBook := recipeBook s1 @ [?copy]\<rparr>)"
    have add: "addRecipeToRecipeBookById rid opts s1 = Inr ?s2"
      using g1 False by (simp add: addRecipeToRecipeBookById_def)
    have t: "toggleBookmarkStatus rid opts s = Inr (True, ?s2)"
      using st u add False by (simp add: toggleBookmarkStatus_def Let_def)
    have "setBookmark rid True (recipeBook s1) = setBookmark rid True (recipeBook s)"
      using book1 False inbook setBookmark_updateFirst [of rid "recipeBook s" recipe True True]
      by (auto split: if_splits)
    moreover have "setBookmark rid True [?copy] = [?copy]"
      by (simp add: setBookmark_def isBookmarked_same)
    ultimately have "setBookmark rid True (recipeBook ?s2) = setBookmark rid True (recipeBook s) @ [?copy]"
      by (simp add: saveRecipeBook_def)
    with t False show ?thesis by auto
  next
    case True
    let ?s2 = "removeRecipeFromBook rid s1"
    have t: "toggleBookmarkStatus rid opts s = Inr (False, ?s2)"
      using st u True by (simp add: toggleBookmarkStatus_def Let_def)
    have "recipeBook ?s2 = arraySplice (findIndex (hasId rid) (recipeBook s1)) 1 (recipeBook s1)"
      by (rule removeRecipeFromBook_book)
    also have "\<dots> = arraySplice (findIndex (hasId rid) (recipeBook s)) 1 (recipeBook s)"
    proof (cases "source opts = RecipeBook")
      case src: True
      from arraySplice_updateFirst [OF inbook [OF src] hr] book1 src show ?thesis by simp
    next
      case False
      with book1 show ?thesis by simp
    qed
    finally show ?thesis using t True by auto
  qed
qed

text \<open>
  C4: toggling the bookmark of the copy found at a location returns the negated flag of that
  copy; afterwards every entry with the id in the ingredient search results, the browse search
  results, the recipe book and every slot of every day of every week of the meal plan has that
  flag. When the new flag is set, the recipe book ends with a deep copy of the entity with its
  flag set; when it is cleared, the recipe book has lost the entry that \<open>findIndex\<close> and
  \<open>splice\<close> select, and no entry with the id is left in it if at most one had that id.
\<close>

theorem bookmark_toggle_reaches_every_copy:
  assumes "getRecipe rid opts s = Inr (Some recipe)"
  shows "\<exists>s'. controlBookmarks rid opts s = Inr (\<not> isBookmarked recipe, s') \<and>
           (\<forall>r'\<in>set (allRecipes s'). hasId rid r' \<longrightarrow> isBookmarked r' = (\<not> isBookmarked recipe)) \<and>
           (\<not> isBookmarked recipe \<longrightarrow>
              recipeBook s' = setBookmark rid True (recipeBook s) @ [deepCopy (recipe\<lparr>isBookmarked := True\<rparr>)]) \<and>
           (isBookmarked recipe \<longrightarrow>
              recipeBook s' =
                setBookmark rid False (arraySplice (findIndex (hasId rid) (recipeBook s)) 1 (recipeBook s)) \<and>
              (length (filter (hasId rid) (recipeBook s)) \<le> 1 \<longrightarrow>
                 (\<forall>r'\<in>set (recipeBook s'). \<not> hasId rid r')))"
proof -
  let ?b = "\<not> isBookmarked recipe"
  from toggleBookmarkStatus_result [OF assms]
  obtain s2 where t: "toggleBookmarkStatus rid opts s = Inr (?b, s2)"
    and on: "?b \<longrightarrow> setBookmark rid True (recipeBook s2) =
                setBookmark rid True (recipeBook s) @ [deepCopy (recipe\<lparr>isBookmarked := True\<rparr>)]"
    and off: "isBookmarked recipe \<longrightarrow>
              recipeBook s2 = arraySplice (findIndex (hasId rid) (recipeBook s)) 1 (recipeBook s)"
    by blast
  let ?s' = "synchronizeBookmarks rid ?b s2"
  have c: "controlBookmarks rid opts s = Inr (?b, ?s')"
    using t by (simp add: controlBookmarks_def)
  have flags: "\<forall>r'\<in>set (allRecipes ?s'). hasId rid r' \<longrightarrow> isBookmarked r' = ?b"
    unfolding allRecipes_synchronizeBookmarks using setBookmark_flag by blast
  have book: "recipeBook ?s' = setBookmark rid ?b (recipeBook s2)"
    by (rule recipeBook_synchronizeBookmarks)
  have p1: "?b \<longrightarrow> recipeBook ?s' = setBookmark rid True (recipeBook s) @ [deepCopy (recipe\<lparr>isBookmarked := True\<rparr>)]"
    using on book by auto
  have p2: "isBookmarked recipe \<longrightarrow>
      recipeBook ?s' = setBookmark rid False (arraySplice (findIndex (hasId rid) (recipeBook s)) 1 (recipeBook s))"
    using off book by auto
  have p3: "\<forall>r'\<in>set (recipeBook ?s'). \<not> hasId rid r'"
    if "isBookmarked recipe" and "length (filter (hasId rid) (recipeBook s)) \<le> 1"
  proof
    fix r' assume "r' \<in> set (recipeBook ?s')"
    with p2 that(1) have "r' \<in> set (setBookmark rid False (arraySplice (findIndex (hasId rid) (recipeBook s)) 1 (recipeBook s)))"
      by simp
    from hasId_setBookmark [OF this, of rid]
    obtain x where "x \<in> set (arraySplice (findIndex (hasId rid) (recipeBook s)) 1 (recipeBook s))"
      "hasId rid r' = hasId rid x" by blast
    with arraySplice_unique [OF that(2)] show "\<not> hasId rid r'" by blast
  qed
  from c flags p1 p2 p3 show ?thesis by blast
qed


theorem bookmark_toggle_reaches_every_copy_witness:
  "(\<exists>s'. controlBookmarks (Num (Fin 7)) inBrowse plannedState = Inr (True, s') \<and>
      recipeBook s' = [pasta\<lparr>isBookmarked := True\<rparr>, deepCopy (salad\<lparr>isBookmarked := True\<rparr>)]) \<and>
   (\<exists>s'. controlBookmarks (Num (Fin 42)) inBook plannedState = Inr (False, s') \<and> recipeBook s' = [])"
proof
  have g: "getRecipe (Num (Fin 7)) inBrowse plannedState = Inr (Some salad)"
    by (simp add: getRecipe_def inBrowse_def getRecipeFromBrowse_def getSourceArray_def plannedState_def
        hasId_def strictEq_def salad_def pasta_def)
  have nb: "\<not> isBookmarked salad" by (simp add: salad_def pasta_def)
  have sb: "setBookmark (Num (Fin 7)) True (recipeBook plannedState) = [pasta\<lparr>isBookmarked := True\<rparr>]"
    by (simp add: plannedState_lists setBookmark_def hasId_def strictEq_def pasta_def)
  from bookmark_toggle_reaches_every_copy [OF g] nb sb
  show "\<exists>s'. controlBookmarks (Num (Fin 7)) inBrowse plannedState = Inr (True, s') \<and>
      recipeBook s' = [pasta\<lparr>isBookmarked := True\<rparr>, deepCopy (salad\<lparr>isBookmarked := True\<rparr>)]"
    by auto
next
  have b: "isBookmarked (pasta\<lparr>isBookmarked := True\<rparr>)" by simp
  have one: "length (filter (hasId (Num (Fin 42))) (recipeBook plannedState)) \<le> 1"
    by (simp add: plannedState_lists)
  have idx: "findIndex (hasId (Num (Fin 42))) (recipeBook plannedState) = 0"
    by (simp add: plannedState_lists hasId_def strictEq_def pasta_def)
  have sp: "setBookmark (Num (Fin 42)) False (arraySplice 0 1 (recipeBook plannedState)) = []"
    by (simp add: plannedState_lists arraySplice_Cons_0 setBookmark_def)
  from bookmark_toggle_reaches_every_copy [OF getRecipe_book_pasta] b one idx sp
  show "\<exists>s'. controlBookmarks (Num (Fin 42)) inBook plannedState = Inr (False, s') \<and> recipeBook s' = []"
    by auto
qed

section \<open>Ingredient availability\<close>

lemma find_None_iff': "(find P xs = None) = (\<forall>x\<in>set xs. \<not> P x)"
  by (induction xs) auto

lemma common_items_nonempty: "[] \<notin> set COMMON_PANTRY_ITEMS"
  by (simp add: COMMON_PANTRY_ITEMS_def)

lemma checkHouseholdItem_iff:
  "checkHouseholdItem n =
     (if n \<in> set COMMON_PANTRY_ITEMS
      then Some \<lparr>availabilityState = HouseholdItem, matchingPantryIngredient = Some n\<rparr> else None)"
proof (cases "find (\<lambda>commonItem. n = commonItem) COMMON_PANTRY_ITEMS")
  case None
  then have "n \<notin> set COMMON_PANTRY_ITEMS" by (auto simp: find_None_iff')
  moreover have "checkHouseholdItem n = None"
    unfolding checkHouseholdItem_def None by simp
  ultimately show ?thesis by simp
next
  case (Some c)
  then have c: "n = c" "c \<in> set COMMON_PANTRY_ITEMS" by (auto dest: find_SomeD)
  with common_items_nonempty have "c \<noteq> []" by auto
  then have "checkHouseholdItem n =
      Some \<lparr>availabilityState = HouseholdItem, matchingPantryIngredient = Some c\<rparr>"
    unfolding checkHouseholdItem_def Some by simp
  with c show ?thesis by simp
qed

lemma checkExactMatch_iff:
  "checkExactMatch n s =
     (if n \<in> set (pantry s)
      then Some \<lparr>availabilityState = DefinitelyAvailable, matchingPantryIngredient = Some n\<rparr> else None)"
  by (auto simp: checkExactMatch_def list_ex_iff)

lemma checkPartialMatch_None:
  "\<forall>p\<in>set (pantry s). \<not> stringIncludes p n \<and> \<not> stringIncludes n p \<Longrightarrow> checkPartialMatch n s = None"
  by (simp add: checkPartialMatch_def find_None_iff' [THEN iffD2])

lemma checkPartialMatch_Some:
  assumes "p \<in> set (pantry s)" "stringIncludes p n \<or> stringIncludes n p" "[] \<notin> set (pantry s)"
  shows "\<exists>m\<in>set (pantry s). checkPartialMatch n s =
           Some \<lparr>availabilityState = PotentiallyAvailable, matchingPantryIngredient = Some m\<rparr>"
proof -
  let ?pm = "find (\<lambda>pantryItem. stringIncludes pantryItem n) (pantry s)"
  let ?im = "find (\<lambda>pantryItem. stringIncludes n pantryItem) (pantry s)"
  have ne: "m \<in> set (pantry s) \<Longrightarrow> m \<noteq> []" for m using assms(3) by auto
  show ?thesis
  proof (cases ?pm)
    case (Some m)
    then have "m \<in> set (pantry s)" by (auto dest: find_SomeD)
    with Some ne [OF this] show ?thesis by (auto simp: checkPartialMatch_def)
  next
    case None
    with assms(1,2) have "stringIncludes n p" by (auto simp: find_None_iff')
    with assms(1) have "?im \<noteq> None" by (auto simp: find_None_iff')
    then obtain m where m: "?im = Some m" by blast
    then have "m \<in> set (pantry s)" by (auto dest: find_SomeD)
    with None m ne [OF this] show ?thesis by (auto simp: checkPartialMatch_def)
  qed
qed

text \<open>
  The first three rules and the last one: a common household item, then an entry of the pantry
  equal to the name, then an entry of the pantry that contains the name or is contained in it
  (for a pantry without the empty string); when none of them applies, the result is that of
  \<open>checkSynonymMatch\<close>, or unavailable.
\<close>

lemma availability_rules:
  assumes "n = normalizeIngredient singular ingredientLabel"
  shows "n \<in> set COMMON_PANTRY_ITEMS \<Longrightarrow>
           getIngredientAvailability singular ingredientLabel s =
             \<lparr>availabilityState = HouseholdItem, matchingPantryIngredient = Some n\<rparr>"
    and "n \<notin> set COMMON_PANTRY_ITEMS \<Longrightarrow> n \<in> set (pantry s) \<Longrightarrow>
           getIngredientAvailability singular ingredientLabel s =
             \<lparr>availabilityState = DefinitelyAvailable, matchingPantryIngredient = Some n\<rparr>"
    and "n \<notin> set COMMON_PANTRY_ITEMS \<Longrightarrow> n \<notin> set (pantry s) \<Longrightarrow> [] \<notin> set (pantry s) \<Longrightarrow>
         p \<in> set (pantry s) \<Longrightarrow> stringIncludes p n \<or> stringIncludes n p \<Longrightarrow>
           \<exists>m\<in>set (pantry s). getIngredientAvailability singular ingredientLabel s =
             \<lparr>availabilityState = PotentiallyAvailable, matchingPantryIngredient = Some m\<rparr>"
    and "n \<notin> set COMMON_PANTRY_ITEMS \<Longrightarrow>
         \<forall>p\<in>set (pantry s). p \<noteq> n \<and> \<not> stringIncludes p n \<and> \<not> stringIncludes n p \<Longrightarrow>
           getIngredientAvailability singular ingredientLabel s =
             (case checkSynonymMatch n of
                Some synonymMatch \<Rightarrow> synonymMatch
              | None \<Rightarrow> \<lparr>availabilityState = Unavailable, matchingPantryIngredient = None\<rparr>)"
proof -
  show "n \<in> set COMMON_PANTRY_ITEMS \<Longrightarrow>
           getIngredientAvailability singular ingredientLabel s =
             \<lparr>availabilityState = HouseholdItem, matchingPantryIngredient = Some n\<rparr>"
    by (simp add: getIngredientAvailability_def assms [symmetric] checkHouseholdItem_iff)
  show "n \<notin> set COMMON_PANTRY_ITEMS \<Longrightarrow> n \<in> set (pantry s) \<Longrightarrow>
           getIngredientAvailability singular ingredientLabel s =
             \<lparr>availabilityState = DefinitelyAvailable, matchingPantryIngredient = Some n\<rparr>"
    by (simp add: getIngredientAvailability_def assms [symmetric] checkHouseholdItem_iff checkExactMatch_iff)
  show "\<exists>m\<in>set (pantry s). getIngredientAvailability singular ingredientLabel s =
             \<lparr>availabilityState = PotentiallyAvailable, matchingPantryIngredient = Some m\<rparr>"
    if "n \<notin> set COMMON_PANTRY_ITEMS" "n \<notin> set (pantry s)" "[] \<notin> set (pantry s)"
      "p \<in> set (pantry s)" "stringIncludes p n \<or> stringIncludes n p"
    using checkPartialMatch_Some [OF that(4,5,3)] that(1,2)
    by (auto simp: getIngredientAvailability_def assms [symmetric] checkHouseholdItem_iff checkExactMatch_iff)
  show "getIngredientAvailability singular ingredientLabel s =
             (case checkSynonymMatch n of
                Some synonymMatch \<Rightarrow> synonymMatch
              | None \<Rightarrow> \<lparr>availabilityState = Unavailable, matchingPantryIngredient = None\<rparr>)"
    if "n \<notin> set COMMON_PANTRY_ITEMS"
      "\<forall>p\<in>set (pantry s). p \<noteq> n \<and> \<not> stringIncludes p n \<and> \<not> stringIncludes n p"
  proof -
    from that(2) have "n \<notin> set (pantry s)" by auto
    moreover from that(2) have "checkPartialMatch n s = None" by (intro checkPartialMatch_None) auto
    ultimately show ?thesis
      using that(1)
      by (simp add: getIngredientAvailability_def assms [symmetric] checkHouseholdItem_iff checkExactMatch_iff)
  qed
qed

text \<open>
  Focaccia is a synonym in the group of bread and so is ciabatta, which is in the pantry; the
  loop stops at the group of cheese, and the ingredient is unavailable.
\<close>

lemma bread_synonym_in_pantry_is_not_found:
  "getIngredientAvailability alreadySingular ''Focaccia'' ciabattaState =
     \<lparr>availabilityState = Unavailable, matchingPantryIngredient = None\<rparr>"
  by (simp add: getIngredientAvailability_def normalizeIngredient_def alreadySingular_def toLowerCase_def trim_def
      isWhiteSpace_def checkHouseholdItem_def COMMON_PANTRY_ITEMS_def checkExactMatch_def
      checkPartialMatch_def checkSynonymMatch_def INGREDIENT_SYNONYMS_def ciabattaState_def emptyState_def)

text \<open>
  C7 at the ingredient \<open>"parmesan"\<close> (its own singular) and an empty pantry: no rule that looks
  at the pantry can apply, and the ingredient is not a common household item, so the fifth rule
  makes it unavailable. \<open>checkSynonymMatch\<close> does not look at the pantry: it finds the
  synonym \<open>"parmesan"\<close> in the name and reports that the ingredient is potentially available,
  matched by \<open>"cheese"\<close>.
\<close>

theorem synonym_match_ignores_the_pantry:
  "getIngredientAvailability alreadySingular ''parmesan'' emptyState =
     \<lparr>availabilityState = PotentiallyAvailable, matchingPantryIngredient = Some ''cheese''\<rparr>"
  by (simp add: getIngredientAvailability_def normalizeIngredient_def alreadySingular_def toLowerCase_def trim_def
      isWhiteSpace_def checkHouseholdItem_def COMMON_PANTRY_ITEMS_def checkExactMatch_def
      checkPartialMatch_def checkSynonymMatch_def INGREDIENT_SYNONYMS_def emptyState_def)

section \<open>Recipe details from the API\<close>

lemma mset_insertSorted: "mset (insertSorted x ys) = add_mset x (mset ys)"
  by (induction ys) simp_all

lemma mset_foldl_insertSorted:
  "mset (foldl (\<lambda>sorted x. insertSorted x sorted) acc xs) = mset acc + mset xs"
  by (induction xs arbitrary: acc) (simp_all add: mset_insertSorted)

lemma mset_sortResults: "mset (sortResults xs) = mset xs"
  by (simp add: sortResults_def mset_foldl_insertSorted)

lemma mset_map_sortResults: "mset (map f (sortResults xs)) = mset (map f xs)"
  by (simp only: mset_map mset_sortResults)


lemma populateSearchResults_frame [simp]:
  "recipeBook (populateSearchResults recipeObj mode s) = recipeBook s"
  "pantry (populateSearchResults recipeObj mode s) = pantry s"
  "mealPlan (populateSearchResults recipeObj mode s) = mealPlan s"
  "mealCalendarWeek (populateSearchResults recipeObj mode s) = mealCalendarWeek s"
  "storedRecipeBook (populateSearchResults recipeObj mode s) = storedRecipeBook s"
  "storedMealPlan (populateSearchResults recipeObj mode s) = storedMealPlan s"
  by (simp_all add: populateSearchResults_def)

lemma populateSearchResults_other:
  "mode' \<noteq> mode \<Longrightarrow> mode' = ''ingredientSearch'' \<or> mode = ''ingredientSearch'' \<Longrightarrow>
   resultsArray mode' (populateSearchResults recipeObj mode s) = resultsArray mode' s"
  by (auto simp: resultsArray_def populateSearchResults_def)








end
